(* ===== verification/Sync_Prelude.thy ===== *)
theory Sync_Prelude
  imports Complex_Main "HOL-Library.AList"
begin

text \<open>
  Shared vocabulary of the development: the names of the model's basic types, the
  collections of simplification rules the component theories fill, and generic facts
  on lists keyed by an identifier that the transaction list, the remote ledger and the
  merge all rely on.
\<close>

section \<open>Basic types\<close>

text \<open>
  A transaction id is the string produced by \<open>uuidv4()\<close> (or \<open>id.toString()\<close> for
  the sample data). Dates and the sync cursor are ISO-8601 strings in the source; every
  use converts them with \<open>new Date(\<dots>)\<close> or \<open>Timestamp.fromDate\<close>, so they are
  modelled by the instant they denote, in milliseconds since the epoch
  (\<open>Date.getTime()\<close>). Delays passed to \<open>sleep\<close> are millisecond counts.
\<close>

type_synonym txid = string
type_synonym instant = int
type_synonym millis = nat

section \<open>Errors and fault scripts\<close>

text \<open>
  The error taxonomy of the sync engine. Each awaited call that can reject in the source
  returns a value of \<open>'a result\<close>; \<open>Inl\<close> is the rejection.
\<close>

datatype sync_error = PersistenceError | UploadFailed | QueryFailed

type_synonym 'a result = "sync_error + 'a"

text \<open>
  Whether an external call (an AsyncStorage write, a Firestore write or query) fails is
  decided by the environment. The model makes that decision explicit and deterministic: each
  external service carries a fault script, the outcomes of its next calls, \<open>True\<close> for a
  call that rejects. Each call consumes one entry; an exhausted script means the service
  answers normally from then on.
\<close>

fun take_fault :: "bool list \<Rightarrow> bool \<times> bool list" where
  "take_fault [] = (False, [])"
| "take_fault (f # fs) = (f, fs)"

section \<open>Rule collections\<close>

text \<open>
  \<open>sync_simps\<close> collects the characteristic equations of the model's operations (the
  per-branch behaviour of each source function); \<open>wf_intros\<close> collects the lemmas that
  an operation preserves the well-formedness of the state.
\<close>

named_theorems sync_simps "characteristic equations of the modelled operations"
named_theorems wf_intros "preservation of well-formedness by the modelled operations"

section \<open>Lists keyed by an identifier\<close>

text \<open>
  The local collection and the server answer are lists of records with an id field.
  These facts are about any key function \<open>k\<close>.
\<close>

lemma distinct_map_append_new:
  assumes "distinct (map k xs)" and "distinct (map k ys)"
  shows "distinct (map k (xs @ filter (\<lambda>y. k y \<notin> set (map k xs)) ys))"
  using assms by (auto simp: distinct_map_filter image_iff)

lemma map_key_map_same [simp]:
  assumes "\<And>x. k (f x) = k x"
  shows "map k (map f xs) = map k xs"
  using assms by (induction xs) auto

lemma filter_key_notin_empty:
  "set (map k ys) \<subseteq> set (map k xs) \<Longrightarrow> filter (\<lambda>y. k y \<notin> set (map k xs)) ys = []"
  by (auto simp: filter_empty_conv)

lemma map_of_map_keyed:
  "map_of (map (\<lambda>x. (k x, f x)) xs) = map_option f \<circ> map_of (map (\<lambda>x. (k x, x)) xs)"
  by (induction xs) (auto simp: fun_eq_iff)

lemma map_of_keyed_Some:
  "map_of (map (\<lambda>x. (k x, x)) xs) i = Some x \<Longrightarrow> x \<in> set xs \<and> k x = i"
  by (induction xs) (auto split: if_splits)

lemma map_of_keyed_None:
  "map_of (map (\<lambda>x. (k x, x)) xs) i = None \<longleftrightarrow> i \<notin> set (map k xs)"
  by (induction xs) auto

end
