(* ===== verification/Transaction_Model.thy ===== *)
theory Transaction_Model
  imports Sync_Prelude
begin

text \<open>
  The data model of \<open>src/types/index.ts\<close> and the pure list computations of
  \<open>src/context/TransactionContext.tsx\<close> that do not touch React state, storage or the
  network: the record built by \<open>addTransaction\<close>, the filter of
  \<open>getUnsyncedTransactions\<close>, the update of \<open>markTransactionAsSynced\<close> and the
  forEach/has/push loop of \<open>mergeTransactions\<close>. The id-uniqueness invariant, the
  monotonicity of \<open>synced\<close>, the equivalence of the merge loop with a filter, and a
  refinement of the merge to an insert-if-absent operation on maps are proved here.
\<close>

section \<open>Data model\<close>

datatype tx_kind = Income | Expense

record transaction =
  tx_id :: txid
  tx_amount :: real
  tx_category :: string
  tx_type :: tx_kind
  tx_date :: instant
  tx_notes :: string
  tx_synced :: bool

text \<open>\<open>Omit<Transaction, 'id' | 'synced'>\<close>: what the add screen passes in.\<close>

record new_transaction =
  nt_amount :: real
  nt_category :: string
  nt_type :: tx_kind
  nt_date :: instant
  nt_notes :: string

text \<open>\<open>{ ...newTransaction, id: uuidv4(), synced: false }\<close>, the id given.\<close>

definition with_id :: "new_transaction \<Rightarrow> txid \<Rightarrow> transaction" where
  "with_id nt uid =
     \<lparr>tx_id = uid, tx_amount = nt_amount nt, tx_category = nt_category nt,
      tx_type = nt_type nt, tx_date = nt_date nt, tx_notes = nt_notes nt,
      tx_synced = False\<rparr>"

text \<open>The string a \<open>type\<close> value is at run time (\<open>'income' | 'expense'\<close>), as template
  literals and the SQLite rows see it.\<close>

fun kind_name :: "tx_kind \<Rightarrow> string" where
  "kind_name Income = ''income''"
| "kind_name Expense = ''expense''"

text \<open>\<open>{ ...tx, synced: true }\<close>, used by the merge and by \<open>markTransactionAsSynced\<close>.\<close>

definition set_synced :: "transaction \<Rightarrow> transaction" where
  "set_synced tx = tx\<lparr>tx_synced := True\<rparr>"

section \<open>List computations of the provider\<close>

text \<open>\<open>getUnsyncedTransactions\<close>: \<open>transactions.filter((tx) => !tx.synced)\<close>.\<close>

definition getUnsyncedTransactions :: "transaction list \<Rightarrow> transaction list" where
  "getUnsyncedTransactions txs = filter (\<lambda>tx. \<not> tx_synced tx) txs"

text \<open>The updater passed to \<open>setTransactions\<close> by \<open>markTransactionAsSynced\<close>.\<close>

definition mark_synced_list :: "txid \<Rightarrow> transaction list \<Rightarrow> transaction list" where
  "mark_synced_list i txs = map (\<lambda>tx. if tx_id tx = i then set_synced tx else tx) txs"

text \<open>
  \<open>new Map(transactions.map((tx) => [tx.id, tx]))\<close>: the JavaScript \<open>Map\<close>
  constructor inserts the entries in order, so a later entry with the same key wins,
  which is \<open>map_of\<close> of the reversed list.
\<close>

definition local_map :: "transaction list \<Rightarrow> txid \<rightharpoonup> transaction" where
  "local_map txs = map_of (rev (map (\<lambda>tx. (tx_id tx, tx)) txs))"

text \<open>
  The loop of \<open>mergeTransactions\<close>: for each server transaction in order, if
  \<open>localTransactionsMap.has(serverTx.id)\<close> fails, push \<open>{...serverTx, synced: true}\<close>
  onto the array. The map is built once before the loop and never updated, so it is a
  parameter; the array being pushed onto is the accumulator.
\<close>

primrec merge_loop :: "(txid \<rightharpoonup> transaction) \<Rightarrow> transaction list \<Rightarrow> transaction list \<Rightarrow> transaction list" where
  "merge_loop known [] arr = arr"
| "merge_loop known (stx # stxs) arr =
     merge_loop known stxs (if known (tx_id stx) = None then arr @ [set_synced stx] else arr)"

text \<open>The reference the loop is compared with: append the marked server entries whose id is new.\<close>

definition merge_new :: "transaction list \<Rightarrow> transaction list \<Rightarrow> transaction list" where
  "merge_new local server = map set_synced (filter (\<lambda>stx. tx_id stx \<notin> set (map tx_id local)) server)"

section \<open>Invariant and abstraction\<close>

text \<open>\<open>id\<close> is unique within the local collection.\<close>

definition ids_unique :: "transaction list \<Rightarrow> bool" where
  "ids_unique txs \<longleftrightarrow> distinct (map tx_id txs)"

text \<open>The ids of the transactions that are marked synced.\<close>

definition synced_ids :: "transaction list \<Rightarrow> txid set" where
  "synced_ids txs = tx_id ` set (filter tx_synced txs)"

text \<open>Abstraction of a collection to the ledger it denotes: id to transaction, first occurrence.\<close>

definition ledger_of :: "transaction list \<Rightarrow> txid \<rightharpoonup> transaction" where
  "ledger_of txs = map_of (map (\<lambda>tx. (tx_id tx, tx)) txs)"

text \<open>The abstract merge: adopt a remote record, marked synced, only where the id is absent locally.\<close>

definition merge_spec :: "(txid \<rightharpoonup> transaction) \<Rightarrow> (txid \<rightharpoonup> transaction) \<Rightarrow> (txid \<rightharpoonup> transaction)" where
  "merge_spec L R = (map_option set_synced \<circ> R) ++ L"

section \<open>Basic facts\<close>

lemma set_synced_fields [simp]:
  "tx_id (set_synced tx) = tx_id tx" "tx_synced (set_synced tx)"
  "tx_date (set_synced tx) = tx_date tx"
  by (simp_all add: set_synced_def)

lemma with_id_fields [simp]:
  "tx_id (with_id nt uid) = uid" "\<not> tx_synced (with_id nt uid)"
  by (simp_all add: with_id_def)

lemma map_tx_id_mark_synced [simp]:
  "map tx_id (mark_synced_list i txs) = map tx_id txs"
  by (simp add: mark_synced_list_def comp_def)

lemma length_mark_synced [simp]:
  "length (mark_synced_list i txs) = length txs"
  by (simp add: mark_synced_list_def)

lemma dom_local_map [simp]:
  "dom (local_map txs) = set (map tx_id txs)"
  by (simp add: local_map_def dom_map_of_conv_image_fst image_image)

lemma local_map_None_iff [sync_simps]:
  "local_map txs i = None \<longleftrightarrow> i \<notin> set (map tx_id txs)"
  by (metis dom_local_map domIff)

lemma merge_new_Nil [sync_simps]:
  "merge_new local [] = []"
  by (simp add: merge_new_def)

lemma merge_new_Cons [sync_simps]:
  "merge_new local (stx # stxs) =
     (if tx_id stx \<in> set (map tx_id local) then merge_new local stxs else set_synced stx # merge_new local stxs)"
  by (simp add: merge_new_def)

lemma ids_merge_new:
  "map tx_id (merge_new local server) = filter (\<lambda>i. i \<notin> set (map tx_id local)) (map tx_id server)"
  by (induction server) (simp_all add: sync_simps)

section \<open>The merge loop\<close>

text \<open>The loop appends exactly the reference's entries to whatever array it pushes onto.\<close>

lemma merge_loop_append:
  "merge_loop (local_map local) server arr = arr @ merge_new local server"
  by (induction server arbitrary: arr) (simp_all add: sync_simps)

text \<open>C20: the forEach/has/push loop of \<open>mergeTransactions\<close>, run on the local array,
  computes the local list followed by the new server entries marked synced.\<close>

theorem merge_loop_equiv:
  "merge_loop (local_map local) server local = local @ merge_new local server"
  by (rule merge_loop_append)

lemma merge_new_distinct:
  "distinct (map tx_id server) \<Longrightarrow> distinct (map tx_id (local @ merge_new local server)) = distinct (map tx_id local)"
  by (auto simp: ids_merge_new distinct_map_filter)

text \<open>C18: the merge keeps ids unique, provided the server answer has unique ids.\<close>

theorem merge_preserves_ids_unique:
  assumes "ids_unique local" and "distinct (map tx_id server)"
  shows "ids_unique (merge_loop (local_map local) server local)"
proof -
  have "distinct (map tx_id (local @ merge_new local server))"
    using assms merge_new_distinct [of server local] by (simp add: ids_unique_def)
  then show ?thesis by (simp add: merge_loop_append ids_unique_def)
qed

text \<open>merging a server answer whose ids are all known locally changes nothing.\<close>

theorem merge_known_noop:
  assumes "set (map tx_id server) \<subseteq> set (map tx_id local)"
  shows "merge_loop (local_map local) server local = local"
proof -
  have "filter (\<lambda>stx. tx_id stx \<notin> set (map tx_id local)) server = []"
    using assms by (rule filter_key_notin_empty)
  then show ?thesis by (simp add: merge_loop_append merge_new_def)
qed

lemma ledger_of_append:
  "ledger_of (xs @ ys) = ledger_of ys ++ ledger_of xs"
  by (simp add: ledger_of_def)

lemma ledger_of_merge_new:
  "ledger_of (merge_new local server) i =
     (if i \<in> set (map tx_id local) then None else map_option set_synced (ledger_of server i))"
  by (induction server) (auto simp: ledger_of_def sync_simps)

text \<open>C19: refinement of the merge. Seen through \<open>ledger_of\<close>, the merged array is the
  abstract insert-if-absent merge: a local entry always wins, a remote entry is adopted
  (marked synced) only where the id is absent.\<close>

theorem merge_refines_spec:
  "ledger_of (merge_loop (local_map local) server local) = merge_spec (ledger_of local) (ledger_of server)"
proof
  fix i
  show "ledger_of (merge_loop (local_map local) server local) i = merge_spec (ledger_of local) (ledger_of server) i"
  proof (cases "i \<in> set (map tx_id local)")
    case True
    then obtain t where "ledger_of local i = Some t"
      by (metis ledger_of_def map_of_keyed_None not_None_eq)
    with True show ?thesis
      by (simp add: merge_loop_append ledger_of_append ledger_of_merge_new merge_spec_def map_add_def)
  next
    case False
    then have "ledger_of local i = None"
      by (simp add: ledger_of_def map_of_keyed_None)
    with False show ?thesis
      by (simp add: merge_loop_append ledger_of_append ledger_of_merge_new merge_spec_def map_add_def
          split: option.splits)
  qed
qed

section \<open>Marking a transaction synced\<close>

text \<open>\<open>markTransactionAsSynced\<close>'s update sets the flag of the given id and of no
  other, and never clears one: the synced ids grow by exactly the given id if present.\<close>

theorem mark_synced_ids:
  "synced_ids (mark_synced_list i txs) = synced_ids txs \<union> ({i} \<inter> set (map tx_id txs))"
  by (induction txs) (auto simp: synced_ids_def mark_synced_list_def)

lemma synced_ids_mark_mono:
  "synced_ids txs \<subseteq> synced_ids (mark_synced_list i txs)"
  by (induction txs) (auto simp: synced_ids_def mark_synced_list_def)

lemma mark_synced_ids_unique [wf_intros]:
  "ids_unique txs \<Longrightarrow> ids_unique (mark_synced_list i txs)"
  by (simp add: ids_unique_def)

lemma unsynced_mark_synced:
  "getUnsyncedTransactions (mark_synced_list i txs) = filter (\<lambda>tx. tx_id tx \<noteq> i) (getUnsyncedTransactions txs)"
  by (induction txs) (auto simp: getUnsyncedTransactions_def mark_synced_list_def)

end
