(* ===== verification/Remote_Ledger.thy ===== *)
theory Remote_Ledger
  imports Transaction_Model
begin

text \<open>
  The remote ledger: the Firestore collection \<open>transactions\<close> as the sync engine uses it
  through \<open>uploadTransaction\<close> (\<open>setDoc\<close> on the document named by the id) and
  \<open>fetchServerTransactions\<close> (\<open>getDocs\<close> of the query \<open>timestamp > cursor\<close>), both in
  \<open>src/context/TransactionContext.tsx\<close>. The collection is an association list from
  document id to document (\<open>HOL-Library.AList\<close>), \<open>setDoc\<close> without merge options is
  \<open>AList.update\<close>, and the answer of a query lists the matching documents in the
  collection's order (Firestore's order for the query is not relied on by the code).
\<close>

section \<open>Documents and the collection\<close>

text \<open>The document written by \<open>uploadTransaction\<close>: the transaction's fields but \<open>id\<close> and \<open>synced\<close>, plus \<open>timestamp\<close>.\<close>

record remote_doc =
  rd_amount :: real
  rd_category :: string
  rd_date :: instant
  rd_notes :: string
  rd_type :: tx_kind
  rd_timestamp :: instant

record remote_ledger =
  rl_docs :: "(txid \<times> remote_doc) list"
  rl_upload_faults :: "bool list"
  rl_query_faults :: "bool list"

text \<open>\<open>timestamp: Timestamp.fromDate(new Date(transaction.date))\<close>: the client's date, not a server time.\<close>

definition doc_of :: "transaction \<Rightarrow> remote_doc" where
  "doc_of tx =
     \<lparr>rd_amount = tx_amount tx, rd_category = tx_category tx, rd_date = tx_date tx,
      rd_notes = tx_notes tx, rd_type = tx_type tx, rd_timestamp = tx_date tx\<rparr>"

text \<open>The object pushed for each document by \<open>fetchServerTransactions\<close>, tagged \<open>synced: true\<close>.\<close>

definition tx_of_doc :: "txid \<Rightarrow> remote_doc \<Rightarrow> transaction" where
  "tx_of_doc i d =
     \<lparr>tx_id = i, tx_amount = rd_amount d, tx_category = rd_category d, tx_type = rd_type d,
      tx_date = rd_date d, tx_notes = rd_notes d, tx_synced = True\<rparr>"

section \<open>Operations\<close>

text \<open>
  \<open>uploadTransaction\<close>: \<open>setDoc(doc(db, 'transactions', transaction.id), {...})\<close>. A
  rejected write changes no document and is rethrown to the caller.
\<close>

definition uploadTransaction :: "transaction \<Rightarrow> remote_ledger \<Rightarrow> unit result \<times> remote_ledger" where
  "uploadTransaction tx r =
     (let (failed, fs) = take_fault (rl_upload_faults r) in
      if failed then (Inl UploadFailed, r\<lparr>rl_upload_faults := fs\<rparr>)
      else (Inr (), r\<lparr>rl_docs := AList.update (tx_id tx) (doc_of tx) (rl_docs r), rl_upload_faults := fs\<rparr>))"

text \<open>
  \<open>fetchServerTransactions\<close>: the documents whose \<open>timestamp\<close> is strictly after the
  cursor, each turned into a transaction with its document id and \<open>synced = true\<close>.
\<close>

definition fetchServerTransactions :: "instant \<Rightarrow> remote_ledger \<Rightarrow> transaction list result \<times> remote_ledger" where
  "fetchServerTransactions cursor r =
     (let (failed, fs) = take_fault (rl_query_faults r) in
      if failed then (Inl QueryFailed, r\<lparr>rl_query_faults := fs\<rparr>)
      else (Inr (map (\<lambda>(i, d). tx_of_doc i d) (filter (\<lambda>(i, d). cursor < rd_timestamp d) (rl_docs r))),
           r\<lparr>rl_query_faults := fs\<rparr>))"

text \<open>Well-formedness: a collection holds at most one document per id.\<close>

definition wf_remote :: "remote_ledger \<Rightarrow> bool" where
  "wf_remote r \<longleftrightarrow> distinct (map fst (rl_docs r))"

section \<open>Characteristic equations\<close>

lemma uploadTransaction_ok [sync_simps]:
  "\<not> fst (take_fault (rl_upload_faults r)) \<Longrightarrow>
   uploadTransaction tx r =
     (Inr (), r\<lparr>rl_docs := AList.update (tx_id tx) (doc_of tx) (rl_docs r),
                rl_upload_faults := snd (take_fault (rl_upload_faults r))\<rparr>)"
  by (cases "take_fault (rl_upload_faults r)") (simp add: uploadTransaction_def)

lemma uploadTransaction_fail [sync_simps]:
  "fst (take_fault (rl_upload_faults r)) \<Longrightarrow>
   uploadTransaction tx r = (Inl UploadFailed, r\<lparr>rl_upload_faults := snd (take_fault (rl_upload_faults r))\<rparr>)"
  by (cases "take_fault (rl_upload_faults r)") (simp add: uploadTransaction_def)

lemma fetchServerTransactions_ok [sync_simps]:
  "\<not> fst (take_fault (rl_query_faults r)) \<Longrightarrow>
   fetchServerTransactions cursor r =
     (Inr (map (\<lambda>(i, d). tx_of_doc i d) (filter (\<lambda>(i, d). cursor < rd_timestamp d) (rl_docs r))),
      r\<lparr>rl_query_faults := snd (take_fault (rl_query_faults r))\<rparr>)"
  by (cases "take_fault (rl_query_faults r)") (simp add: fetchServerTransactions_def)

lemma fetchServerTransactions_fail [sync_simps]:
  "fst (take_fault (rl_query_faults r)) \<Longrightarrow>
   fetchServerTransactions cursor r = (Inl QueryFailed, r\<lparr>rl_query_faults := snd (take_fault (rl_query_faults r))\<rparr>)"
  by (cases "take_fault (rl_query_faults r)") (simp add: fetchServerTransactions_def)

lemma fetchServerTransactions_docs [simp]:
  "rl_docs (snd (fetchServerTransactions cursor r)) = rl_docs r"
  by (cases "take_fault (rl_query_faults r)") (simp add: fetchServerTransactions_def)

lemma fetchServerTransactions_upload_faults [simp]:
  "rl_upload_faults (snd (fetchServerTransactions cursor r)) = rl_upload_faults r"
  by (cases "take_fault (rl_query_faults r)") (simp add: fetchServerTransactions_def)

lemma uploadTransaction_query_faults [simp]:
  "rl_query_faults (snd (uploadTransaction tx r)) = rl_query_faults r"
  by (cases "take_fault (rl_upload_faults r)") (simp add: uploadTransaction_def)

lemma uploadTransaction_wf [wf_intros]:
  "wf_remote r \<Longrightarrow> wf_remote (snd (uploadTransaction tx r))"
  by (cases "fst (take_fault (rl_upload_faults r))")
     (simp_all add: sync_simps wf_remote_def distinct_update)

section \<open>Properties\<close>

lemma in_set_update_distinct:
  "distinct (map fst al) \<Longrightarrow>
   (i, d) \<in> set (AList.update k v al) \<longleftrightarrow> (i = k \<and> d = v) \<or> ((i, d) \<in> set al \<and> i \<noteq> k)"
  by (induction al) (auto simp: image_iff)

lemma filter_key_update_single:
  "distinct (map fst al) \<Longrightarrow> filter (\<lambda>(i, d). i = k) (AList.update k v al) = [(k, v)]"
  by (induction al) (auto simp: filter_empty_conv image_iff)

text \<open>the upload is an idempotent upsert keyed by the id: a second successful upload of
  the same transaction leaves the collection as the first left it, with exactly one document
  for that id, holding the transaction's fields.\<close>

theorem upload_idempotent:
  assumes "wf_remote r"
    and "\<not> fst (take_fault (rl_upload_faults r))"
    and "\<not> fst (take_fault (rl_upload_faults (snd (uploadTransaction tx r))))"
  shows "rl_docs (snd (uploadTransaction tx (snd (uploadTransaction tx r)))) = rl_docs (snd (uploadTransaction tx r))
         \<and> filter (\<lambda>(i, d). i = tx_id tx) (rl_docs (snd (uploadTransaction tx r))) = [(tx_id tx, doc_of tx)]"
  using assms by (simp add: sync_simps wf_remote_def filter_key_update_single)

lemma upload_lookup:
  "\<not> fst (take_fault (rl_upload_faults r)) \<Longrightarrow>
   map_of (rl_docs (snd (uploadTransaction tx r))) = (map_of (rl_docs r))(tx_id tx \<mapsto> doc_of tx)"
  by (simp add: sync_simps update_conv')

text \<open>encoding a transaction as a document and reading it back gives the transaction
  with \<open>synced\<close> set: no field but the flag is lost or altered by the round trip.\<close>

theorem doc_roundtrip:
  "tx_of_doc (tx_id tx) (doc_of tx) = set_synced tx"
  by (simp add: tx_of_doc_def doc_of_def set_synced_def)

text \<open>The answer of a successful query, as a set.\<close>

lemma fetch_result_set:
  "\<not> fst (take_fault (rl_query_faults r)) \<Longrightarrow>
   fst (fetchServerTransactions cursor r) =
     Inr (map (\<lambda>(i, d). tx_of_doc i d) (filter (\<lambda>(i, d). cursor < rd_timestamp d) (rl_docs r)))"
  by (simp add: sync_simps)

lemma tx_id_tx_of_doc [simp]:
  "tx_id (tx_of_doc i d) = i" "tx_synced (tx_of_doc i d)" "tx_date (tx_of_doc i d) = rd_date d"
  by (simp_all add: tx_of_doc_def)

lemma fetch_ids:
  "map tx_id (map (\<lambda>(i, d). tx_of_doc i d) (filter (\<lambda>(i, d). cursor < rd_timestamp d) docs))
     = map fst (filter (\<lambda>(i, d). cursor < rd_timestamp d) docs)"
  by (induction docs) auto

text \<open>a successful query answers with transactions that are all synced, with distinct
  ids when the collection is well formed, and exactly those of the documents stamped after
  the cursor.\<close>

theorem fetch_answer:
  assumes "wf_remote r" and "\<not> fst (take_fault (rl_query_faults r))"
  shows "\<exists>server. fst (fetchServerTransactions cursor r) = Inr server
           \<and> (\<forall>tx\<in>set server. tx_synced tx)
           \<and> distinct (map tx_id server)
           \<and> set server = {tx_of_doc i d | i d. (i, d) \<in> set (rl_docs r) \<and> cursor < rd_timestamp d}"
proof -
  let ?sel = "filter (\<lambda>(i, d). cursor < rd_timestamp d) (rl_docs r)"
  have "distinct (map fst ?sel)"
    using assms(1) by (simp add: wf_remote_def distinct_map_filter)
  then have "distinct (map tx_id (map (\<lambda>(i, d). tx_of_doc i d) ?sel))"
    by (simp only: fetch_ids)
  moreover have "set (map (\<lambda>(i, d). tx_of_doc i d) ?sel) =
      {tx_of_doc i d | i d. (i, d) \<in> set (rl_docs r) \<and> cursor < rd_timestamp d}"
    by auto
  ultimately show ?thesis
    using assms(2) by (auto simp: sync_simps)
qed

lemma fetch_distinct_ids:
  assumes "wf_remote r" and "fst (fetchServerTransactions cursor r) = Inr server"
  shows "distinct (map tx_id server)"
proof (cases "fst (take_fault (rl_query_faults r))")
  case True
  then show ?thesis using assms(2) by (simp add: sync_simps)
next
  case False
  then have "server = map (\<lambda>(i, d). tx_of_doc i d) (filter (\<lambda>(i, d). cursor < rd_timestamp d) (rl_docs r))"
    using assms(2) by (simp add: sync_simps)
  moreover have "distinct (map fst (filter (\<lambda>(i, d). cursor < rd_timestamp d) (rl_docs r)))"
    using assms(1) by (simp add: wf_remote_def distinct_map_filter)
  ultimately show ?thesis by (simp only: fetch_ids)
qed

text \<open>the pull filters on the client-assigned date of each record. A transaction
  uploaded with a date not after the cursor is never returned by the pull, however
  recently it reached the server.\<close>

theorem fetch_misses_old_dates:
  assumes "wf_remote r"
    and "\<not> fst (take_fault (rl_upload_faults r))"
    and "\<not> fst (take_fault (rl_query_faults (snd (uploadTransaction tx r))))"
    and "tx_date tx \<le> cursor"
  shows "fst (fetchServerTransactions cursor (snd (uploadTransaction tx r))) = Inr server
         \<Longrightarrow> tx_id tx \<notin> set (map tx_id server)"
  using assms by (auto simp: sync_simps doc_of_def wf_remote_def in_set_update_distinct)

end
