(* ===== verification/Local_Store.thy ===== *)
theory Local_Store
  imports Transaction_Model
begin

text \<open>
  The local durable store: the two AsyncStorage keys the provider in
  \<open>src/context/TransactionContext.tsx\<close> uses, \<open>'transactions'\<close> (the JSON array of
  transactions) and \<open>'lastSyncTime'\<close> (the ISO sync cursor), with
  \<open>getLastSyncTime\<close> and \<open>updateLastSyncTime\<close>. A key never written is \<open>None\<close>
  (\<open>getItem\<close> resolves to \<open>null\<close>); \<open>JSON.stringify\<close>/\<open>JSON.parse\<close> of the
  array is taken to round-trip, so the stored value is the list itself. \<open>setItem\<close>
  replaces the whole value or, when it rejects, leaves the old one: the write is
  atomic, which is what AsyncStorage's single-key \<open>setItem\<close> provides.
\<close>

record local_store =
  ls_transactions :: "transaction list option"
  ls_last_sync :: "instant option"
  ls_faults :: "bool list"

text \<open>\<open>AsyncStorage.setItem('transactions', JSON.stringify(txs))\<close>.\<close>

definition setItem_transactions :: "transaction list \<Rightarrow> local_store \<Rightarrow> unit result \<times> local_store" where
  "setItem_transactions txs st =
     (let (failed, fs) = take_fault (ls_faults st) in
      if failed then (Inl PersistenceError, st\<lparr>ls_faults := fs\<rparr>)
      else (Inr (), st\<lparr>ls_transactions := Some txs, ls_faults := fs\<rparr>))"

text \<open>\<open>AsyncStorage.setItem('lastSyncTime', timestamp)\<close>.\<close>

definition setItem_lastSyncTime :: "instant \<Rightarrow> local_store \<Rightarrow> unit result \<times> local_store" where
  "setItem_lastSyncTime t st =
     (let (failed, fs) = take_fault (ls_faults st) in
      if failed then (Inl PersistenceError, st\<lparr>ls_faults := fs\<rparr>)
      else (Inr (), st\<lparr>ls_last_sync := Some t, ls_faults := fs\<rparr>))"

text \<open>
  \<open>getLastSyncTime\<close>: \<open>lastSync || new Date(0).toISOString()\<close>, the epoch when the key
  was never written.
\<close>

definition getLastSyncTime :: "local_store \<Rightarrow> instant" where
  "getLastSyncTime st = (case ls_last_sync st of None \<Rightarrow> 0 | Some t \<Rightarrow> t)"

text \<open>\<open>updateLastSyncTime\<close>: a rejected write is logged and swallowed.\<close>

definition updateLastSyncTime :: "instant \<Rightarrow> local_store \<Rightarrow> local_store" where
  "updateLastSyncTime t st = snd (setItem_lastSyncTime t st)"

section \<open>Characteristic equations\<close>

lemma setItem_transactions_ok [sync_simps]:
  "\<not> fst (take_fault (ls_faults st)) \<Longrightarrow>
   setItem_transactions txs st = (Inr (), st\<lparr>ls_transactions := Some txs, ls_faults := snd (take_fault (ls_faults st))\<rparr>)"
  by (cases "take_fault (ls_faults st)") (simp add: setItem_transactions_def)

lemma setItem_transactions_fail [sync_simps]:
  "fst (take_fault (ls_faults st)) \<Longrightarrow>
   setItem_transactions txs st = (Inl PersistenceError, st\<lparr>ls_faults := snd (take_fault (ls_faults st))\<rparr>)"
  by (cases "take_fault (ls_faults st)") (simp add: setItem_transactions_def)

lemma updateLastSyncTime_ok [sync_simps]:
  "\<not> fst (take_fault (ls_faults st)) \<Longrightarrow>
   updateLastSyncTime t st = st\<lparr>ls_last_sync := Some t, ls_faults := snd (take_fault (ls_faults st))\<rparr>"
  by (cases "take_fault (ls_faults st)") (simp add: updateLastSyncTime_def setItem_lastSyncTime_def)

lemma updateLastSyncTime_fail [sync_simps]:
  "fst (take_fault (ls_faults st)) \<Longrightarrow>
   updateLastSyncTime t st = st\<lparr>ls_faults := snd (take_fault (ls_faults st))\<rparr>"
  by (cases "take_fault (ls_faults st)") (simp add: updateLastSyncTime_def setItem_lastSyncTime_def)

lemma setItem_transactions_cursor [simp]:
  "ls_last_sync (snd (setItem_transactions txs st)) = ls_last_sync st"
  by (cases "take_fault (ls_faults st)") (simp add: setItem_transactions_def)

lemma updateLastSyncTime_transactions [simp]:
  "ls_transactions (updateLastSyncTime t st) = ls_transactions st"
  by (cases "take_fault (ls_faults st)") (simp add: updateLastSyncTime_def setItem_lastSyncTime_def)

section \<open>Properties\<close>

text \<open>the stored array is replaced whole or not at all: after \<open>setItem\<close> the key holds
  either the new array (and the call resolved) or the array it held before (and the call
  rejected with a persistence error).\<close>

theorem setItem_transactions_atomic:
  "(fst (setItem_transactions txs st) = Inr () \<and> ls_transactions (snd (setItem_transactions txs st)) = Some txs)
   \<or> (fst (setItem_transactions txs st) = Inl PersistenceError \<and> ls_transactions (snd (setItem_transactions txs st)) = ls_transactions st)"
  by (cases "fst (take_fault (ls_faults st))") (simp_all add: sync_simps)

text \<open>the cursor reads as the epoch until first written; a written cursor reads back;
  a rejected write leaves the cursor as it was (it is never rewound or cleared).\<close>

theorem cursor_roundtrip:
  "getLastSyncTime \<lparr>ls_transactions = txs, ls_last_sync = None, ls_faults = fs\<rparr> = 0
   \<and> getLastSyncTime (updateLastSyncTime t st) =
       (if fst (take_fault (ls_faults st)) then getLastSyncTime st else t)"
  by (simp add: getLastSyncTime_def sync_simps)

end
