(* ===== verification/Provider_State.thy ===== *)
theory Provider_State
  imports Remote_Ledger Local_Store
begin

text \<open>
  The state of \<open>TransactionProvider\<close> (\<open>src/context/TransactionContext.tsx\<close>) and of the
  services it talks to, as one record, with the primitive effects its functions are built
  from: React's \<open>setTransactions\<close>, \<open>Array.prototype.push\<close>, \<open>Toast.show\<close> and
  \<open>sleep\<close>.

  The provider's functions are closures over one render: they read \<open>transactions\<close>,
  \<open>isSyncing\<close> and \<open>loading\<close> as they were at that render, while \<open>setState\<close> changes
  what the next render sees. And \<open>mergeTransactions\<close> mutates the captured array in place
  with \<open>push\<close>. So the model keeps JavaScript arrays in an explicit heap (a list of arrays,
  the address of an array being its index; allocation appends), React's state holds the
  address of the current array, and a closure holds the values of one render, the
  array by address.
\<close>

section \<open>Notifications and observable effects\<close>

text \<open>The \<open>Toast.show\<close> calls of the provider, one constructor per call site with its parameters.\<close>

datatype toast =
    Toast_LoadFailed
  | Toast_AddFailed
  | Toast_Offline
  | Toast_SyncFailed
  | Toast_UploadSuccessful txid
  | Toast_SyncError txid
  | Toast_Syncing nat
  | Toast_BulkSyncFailed
  | Toast_SyncComplete nat
  | Toast_ServerSyncError

datatype toast_type = ToastInfo | ToastSuccess | ToastError

text \<open>The \<open>type\<close> each call site passes to \<open>Toast.show\<close>.\<close>

fun type_of_toast :: "toast \<Rightarrow> toast_type" where
  "type_of_toast Toast_LoadFailed = ToastError"
| "type_of_toast Toast_AddFailed = ToastError"
| "type_of_toast Toast_Offline = ToastInfo"
| "type_of_toast Toast_SyncFailed = ToastError"
| "type_of_toast (Toast_UploadSuccessful _) = ToastSuccess"
| "type_of_toast (Toast_SyncError _) = ToastError"
| "type_of_toast (Toast_Syncing _) = ToastInfo"
| "type_of_toast Toast_BulkSyncFailed = ToastError"
| "type_of_toast (Toast_SyncComplete _) = ToastSuccess"
| "type_of_toast Toast_ServerSyncError = ToastError"

text \<open>What an observer of the provider sees, in order: upload calls, sleeps and toasts.\<close>

datatype event = Ev_Upload txid | Ev_Sleep millis | Ev_Toast toast

section \<open>Provider state\<close>

text \<open>The values one render's closures see.\<close>

record closure =
  cl_transactions :: nat
  cl_isSyncing :: bool
  cl_loading :: bool

text \<open>
  \<open>heap\<close> and \<open>cur\<close>: the JavaScript arrays and the one \<open>useState\<close> holds;
  \<open>isSyncing\<close>, \<open>loading\<close>: the other two \<open>useState\<close> hooks; \<open>store\<close>: AsyncStorage;
  \<open>remote\<close>: the Firestore collection; \<open>connected\<close>: what \<open>NetInfo\<close> reports;
  \<open>now\<close>: the clock \<open>new Date()\<close> reads; \<open>listener\<close>: the closure of the NetInfo
  subscription, if any; \<open>trace\<close>: the observable effects so far.
\<close>

record app =
  heap :: "transaction list list"
  cur :: nat
  isSyncing :: bool
  loading :: bool
  store :: local_store
  remote :: remote_ledger
  connected :: bool
  now :: instant
  listener :: "closure option"
  trace :: "event list"

text \<open>The value of the \<open>transactions\<close> state, what the next render and the UI see.\<close>

definition transactions :: "app \<Rightarrow> transaction list" where
  "transactions s = heap s ! cur s"

text \<open>The closures of a render of the current state.\<close>

definition render :: "app \<Rightarrow> closure" where
  "render s = \<lparr>cl_transactions = cur s, cl_isSyncing = isSyncing s, cl_loading = loading s\<rparr>"

text \<open>\<open>setTransactions(f)\<close>: the updater's result is a new array, which becomes the state.\<close>

definition setTransactions :: "(transaction list \<Rightarrow> transaction list) \<Rightarrow> app \<Rightarrow> app" where
  "setTransactions f s = s\<lparr>heap := heap s @ [f (heap s ! cur s)], cur := length (heap s)\<rparr>"

definition show_toast :: "toast \<Rightarrow> app \<Rightarrow> app" where
  "show_toast t s = s\<lparr>trace := trace s @ [Ev_Toast t]\<rparr>"

text \<open>\<open>sleep(ms)\<close>: \<open>new Promise((resolve) => setTimeout(resolve, ms))\<close>.\<close>

definition sleep :: "millis \<Rightarrow> app \<Rightarrow> app" where
  "sleep ms s = s\<lparr>now := now s + int ms, trace := trace s @ [Ev_Sleep ms]\<rparr>"

text \<open>The toasts shown and the uploads attempted, read off the trace.\<close>

definition toasts :: "app \<Rightarrow> toast list" where
  "toasts s = [t. Ev_Toast t \<leftarrow> trace s]"

definition uploads :: "app \<Rightarrow> txid list" where
  "uploads s = [i. Ev_Upload i \<leftarrow> trace s]"

definition sleeps :: "app \<Rightarrow> millis list" where
  "sleeps s = [ms. Ev_Sleep ms \<leftarrow> trace s]"

section \<open>Well-formedness\<close>

text \<open>A closure is valid in a state when the array it captured exists there.\<close>

definition valid_closure :: "closure \<Rightarrow> app \<Rightarrow> bool" where
  "valid_closure c s \<longleftrightarrow> cl_transactions c < length (heap s)"

definition wf_app :: "app \<Rightarrow> bool" where
  "wf_app s \<longleftrightarrow> cur s < length (heap s) \<and> ids_unique (transactions s) \<and> wf_remote (remote s)
     \<and> (\<forall>c. listener s = Some c \<longrightarrow> valid_closure c s)"

section \<open>Facts on the primitive effects\<close>

lemma transactions_setTransactions [simp]:
  "transactions (setTransactions f s) = f (transactions s)"
  by (simp add: transactions_def setTransactions_def)

lemma setTransactions_fields [simp]:
  "length (heap (setTransactions f s)) = Suc (length (heap s))"
  "cur (setTransactions f s) = length (heap s)"
  "store (setTransactions f s) = store s" "remote (setTransactions f s) = remote s"
  "trace (setTransactions f s) = trace s" "now (setTransactions f s) = now s"
  "connected (setTransactions f s) = connected s" "listener (setTransactions f s) = listener s"
  "isSyncing (setTransactions f s) = isSyncing s" "loading (setTransactions f s) = loading s"
  by (simp_all add: setTransactions_def)

lemma heap_setTransactions_old [simp]:
  "a < length (heap s) \<Longrightarrow> heap (setTransactions f s) ! a = heap s ! a"
  by (simp add: setTransactions_def nth_append)

lemma show_toast_fields [simp]:
  "heap (show_toast t s) = heap s" "cur (show_toast t s) = cur s"
  "store (show_toast t s) = store s" "remote (show_toast t s) = remote s"
  "trace (show_toast t s) = trace s @ [Ev_Toast t]" "now (show_toast t s) = now s"
  "connected (show_toast t s) = connected s" "listener (show_toast t s) = listener s"
  "isSyncing (show_toast t s) = isSyncing s" "loading (show_toast t s) = loading s"
  "transactions (show_toast t s) = transactions s"
  by (simp_all add: show_toast_def transactions_def)

lemma sleep_fields [simp]:
  "heap (sleep ms s) = heap s" "cur (sleep ms s) = cur s"
  "store (sleep ms s) = store s" "remote (sleep ms s) = remote s"
  "trace (sleep ms s) = trace s @ [Ev_Sleep ms]" "now (sleep ms s) = now s + int ms"
  "connected (sleep ms s) = connected s" "listener (sleep ms s) = listener s"
  "isSyncing (sleep ms s) = isSyncing s" "loading (sleep ms s) = loading s"
  "transactions (sleep ms s) = transactions s"
  by (simp_all add: sleep_def transactions_def)

lemma toasts_append [simp]:
  "[t. Ev_Toast t \<leftarrow> xs @ ys] = [t. Ev_Toast t \<leftarrow> xs] @ [t. Ev_Toast t \<leftarrow> ys]"
  by (induction xs) auto

lemma uploads_append [simp]:
  "[i. Ev_Upload i \<leftarrow> xs @ ys] = [i. Ev_Upload i \<leftarrow> xs] @ [i. Ev_Upload i \<leftarrow> ys]"
  by (induction xs) auto

lemma sleeps_append [simp]:
  "[ms. Ev_Sleep ms \<leftarrow> xs @ ys] = [ms. Ev_Sleep ms \<leftarrow> xs] @ [ms. Ev_Sleep ms \<leftarrow> ys]"
  by (induction xs) auto

lemma transactions_field_updates [simp]:
  "transactions (s\<lparr>store := st\<rparr>) = transactions s" "transactions (s\<lparr>remote := r\<rparr>) = transactions s"
  "transactions (s\<lparr>isSyncing := b\<rparr>) = transactions s" "transactions (s\<lparr>connected := b\<rparr>) = transactions s"
  "transactions (s\<lparr>listener := l\<rparr>) = transactions s" "transactions (s\<lparr>loading := b\<rparr>) = transactions s"
  by (simp_all add: transactions_def)

lemma render_fields [simp]:
  "cl_transactions (render s) = cur s" "cl_isSyncing (render s) = isSyncing s"
  "cl_loading (render s) = loading s"
  by (simp_all add: render_def)

lemma heap_cur_transactions:
  "heap s ! cur s = transactions s"
  by (simp add: transactions_def)

end
