(* ===== verification/Sync_Retry.thy ===== *)
theory Sync_Retry
  imports Provider_State
begin

text \<open>
  The retry/backoff loop of \<open>attemptSyncTransaction\<close> and the two calls in its body,
  \<open>uploadTransaction\<close> (lifted to the provider state, with the upload recorded in the
  trace) and \<open>markTransactionAsSynced\<close> (\<open>src/context/TransactionContext.tsx\<close>). The
  \<open>while\<close> loop over \<open>attempt\<close>, \<open>success\<close> and \<open>delay\<close> is a \<^theory_text>\<open>function\<close>
  whose termination measure is the number of loop iterations left. Its behaviour is
  characterised in closed form by the number of leading rejections in the upload fault
  script: the sleeps between attempts, the toasts, and whether the transaction is marked.
\<close>

section \<open>The calls in the loop body\<close>

text \<open>
  \<open>markTransactionAsSynced\<close>: the updater maps the array, and inside the updater the new
  array is written to AsyncStorage without awaiting; a rejected write is only logged, so
  memory is then ahead of the store.
\<close>

definition markTransactionAsSynced :: "txid \<Rightarrow> app \<Rightarrow> app" where
  "markTransactionAsSynced i s =
     (let s1 = setTransactions (mark_synced_list i) s
      in s1\<lparr>store := snd (setItem_transactions (transactions s1) (store s1))\<rparr>)"

text \<open>The awaited \<open>uploadTransaction(transaction)\<close> as the provider performs it.\<close>

definition upload_call :: "transaction \<Rightarrow> app \<Rightarrow> unit result \<times> app" where
  "upload_call tx s =
     (let (r, rm) = uploadTransaction tx (remote s)
      in (r, s\<lparr>remote := rm, trace := trace s @ [Ev_Upload (tx_id tx)]\<rparr>))"

definition MAX_RETRIES :: nat where
  "MAX_RETRIES = 5"

section \<open>The loop\<close>

text \<open>
  One iteration: if the loop condition \<open>attempt < MAX_RETRIES && !success\<close> holds, upload;
  on success mark the transaction, show the success toast and set \<open>success\<close>; on a
  rejection count the attempt, and either sleep \<open>delay\<close> and double it, or, after the last
  attempt, show the error toast.
\<close>

function attempt_loop :: "transaction \<Rightarrow> nat \<Rightarrow> bool \<Rightarrow> millis \<Rightarrow> app \<Rightarrow> app" where
  "attempt_loop tx attempt success delay s =
     (if attempt < MAX_RETRIES \<and> \<not> success then
        (let r = upload_call tx s in
         case fst r of
           Inr _ \<Rightarrow>
             attempt_loop tx attempt True delay
               (show_toast (Toast_UploadSuccessful (tx_id tx)) (markTransactionAsSynced (tx_id tx) (snd r)))
         | Inl _ \<Rightarrow>
             (if Suc attempt < MAX_RETRIES
              then attempt_loop tx (Suc attempt) False (delay * 2) (sleep delay (snd r))
              else attempt_loop tx (Suc attempt) False delay (show_toast (Toast_SyncError (tx_id tx)) (snd r))))
      else s)"
  by pat_completeness auto
termination
  by (relation "measure (\<lambda>(tx, attempt, success, delay, s). 2 * (MAX_RETRIES - attempt) + (if success then 0 else 1))")
     auto

text \<open>\<open>attemptSyncTransaction\<close>: the loop from \<open>attempt = 0\<close>, \<open>success = false\<close>, \<open>delay = 1000\<close>.\<close>

definition attemptSyncTransaction :: "transaction \<Rightarrow> app \<Rightarrow> app" where
  "attemptSyncTransaction tx s = attempt_loop tx 0 False 1000 s"

declare attempt_loop.simps [simp del]

section \<open>Closed form\<close>

text \<open>The trace of \<open>k\<close> rejected attempts, each followed by its sleep, starting from \<open>d\<close>.\<close>

fun failed_attempts :: "txid \<Rightarrow> millis \<Rightarrow> nat \<Rightarrow> event list" where
  "failed_attempts i d 0 = []"
| "failed_attempts i d (Suc k) = Ev_Upload i # Ev_Sleep d # failed_attempts i (d * 2) k"

text \<open>The total time slept by \<open>k\<close> rejected attempts, starting from \<open>d\<close>.\<close>

fun backoff_total :: "millis \<Rightarrow> nat \<Rightarrow> millis" where
  "backoff_total d 0 = 0"
| "backoff_total d (Suc k) = d + backoff_total (d * 2) k"

text \<open>The state after \<open>k\<close> rejected attempts with their sleeps.\<close>

definition fail_phase :: "transaction \<Rightarrow> millis \<Rightarrow> nat \<Rightarrow> app \<Rightarrow> app" where
  "fail_phase tx d k s =
     s\<lparr>remote := (remote s)\<lparr>rl_upload_faults := drop k (rl_upload_faults (remote s))\<rparr>,
       now := now s + int (backoff_total d k),
       trace := trace s @ failed_attempts (tx_id tx) d k\<rparr>"

lemma upload_call_fail:
  "fst (take_fault (rl_upload_faults (remote s))) \<Longrightarrow>
   upload_call tx s =
     (Inl UploadFailed,
      s\<lparr>remote := (remote s)\<lparr>rl_upload_faults := tl (rl_upload_faults (remote s))\<rparr>,
        trace := trace s @ [Ev_Upload (tx_id tx)]\<rparr>)"
  by (cases "rl_upload_faults (remote s)") (auto simp: upload_call_def sync_simps)

lemma upload_call_ok_result:
  "\<not> fst (take_fault (rl_upload_faults (remote s))) \<Longrightarrow> fst (upload_call tx s) = Inr ()"
  by (simp add: upload_call_def sync_simps)

lemma attempt_loop_stop [sync_simps]:
  "\<not> (attempt < MAX_RETRIES \<and> \<not> success) \<Longrightarrow> attempt_loop tx attempt success delay s = s"
  by (subst attempt_loop.simps) (simp only: if_False)

lemma attempt_loop_ok [sync_simps]:
  assumes "attempt < MAX_RETRIES" and "\<not> fst (take_fault (rl_upload_faults (remote s)))"
  shows "attempt_loop tx attempt False delay s =
           show_toast (Toast_UploadSuccessful (tx_id tx)) (markTransactionAsSynced (tx_id tx) (snd (upload_call tx s)))"
  using assms by (simp add: attempt_loop.simps [of tx attempt] upload_call_ok_result sync_simps)

lemma attempt_loop_retry:
  assumes "Suc attempt < MAX_RETRIES" and "fst (take_fault (rl_upload_faults (remote s)))"
  shows "attempt_loop tx attempt False delay s =
           attempt_loop tx (Suc attempt) False (delay * 2) (sleep delay (snd (upload_call tx s)))"
  using assms by (simp add: attempt_loop.simps [of tx attempt] upload_call_fail)

lemma attempt_loop_last:
  assumes "Suc attempt = MAX_RETRIES" and "fst (take_fault (rl_upload_faults (remote s)))"
  shows "attempt_loop tx attempt False delay s =
           show_toast (Toast_SyncError (tx_id tx)) (snd (upload_call tx s))"
  using assms by (simp add: attempt_loop.simps [of tx attempt] upload_call_fail sync_simps)

lemma fail_phase_0 [simp]:
  "fail_phase tx d 0 s = s"
  by (simp add: fail_phase_def)

lemma backoff_total_plus:
  "backoff_total d k + d = d * 2 ^ k"
proof (induction k arbitrary: d)
  case 0
  then show ?case by simp
next
  case (Suc k)
  have "backoff_total (d * 2) k + d * 2 = d * 2 * 2 ^ k" by (rule Suc.IH)
  then show ?case by (simp add: algebra_simps)
qed

lemma backoff_total_closed:
  "backoff_total d k = d * (2 ^ k - 1)"
  using backoff_total_plus [of d k] by (simp add: diff_mult_distrib2)

lemma fail_phase_Suc:
  assumes "fst (take_fault (rl_upload_faults (remote s)))"
  shows "fail_phase tx (d * 2) k (sleep d (snd (upload_call tx s))) = fail_phase tx d (Suc k) s"
  using assms by (simp add: fail_phase_def sleep_def upload_call_fail drop_Suc)

lemma take_Suc_replicate_hd:
  "take (Suc k) fs = replicate (Suc k) True \<Longrightarrow> fst (take_fault fs) \<and> take k (tl fs) = replicate k True"
  by (cases fs) auto

text \<open>All attempts rejected: after the last one, the error toast; nothing is marked.\<close>

lemma attempt_loop_exhausted:
  "a + k = MAX_RETRIES - 1 \<Longrightarrow> take (Suc k) (rl_upload_faults (remote s)) = replicate (Suc k) True \<Longrightarrow>
   attempt_loop tx a False d s = show_toast (Toast_SyncError (tx_id tx)) (snd (upload_call tx (fail_phase tx d k s)))"
proof (induction k arbitrary: a d s)
  case 0
  from "0.prems"(2) have "fst (take_fault (rl_upload_faults (remote s)))"
    by (blast dest: take_Suc_replicate_hd)
  moreover from "0.prems"(1) have "Suc a = MAX_RETRIES" by (simp add: MAX_RETRIES_def)
  ultimately show ?case by (simp add: attempt_loop_last)
next
  case (Suc k)
  from Suc.prems(2) have fault: "fst (take_fault (rl_upload_faults (remote s)))"
    by (blast dest: take_Suc_replicate_hd)
  from Suc.prems(2) have rest: "take (Suc k) (tl (rl_upload_faults (remote s))) = replicate (Suc k) True"
    by (blast dest: take_Suc_replicate_hd)
  from Suc.prems have "Suc a < MAX_RETRIES" by (simp add: MAX_RETRIES_def)
  then have "attempt_loop tx a False d s = attempt_loop tx (Suc a) False (d * 2) (sleep d (snd (upload_call tx s)))"
    using fault by (rule attempt_loop_retry)
  also have "\<dots> = show_toast (Toast_SyncError (tx_id tx))
                    (snd (upload_call tx (fail_phase tx (d * 2) k (sleep d (snd (upload_call tx s))))))"
    using Suc.prems fault rest by (intro Suc.IH) (auto simp: upload_call_fail)
  finally show ?case using fault by (simp add: fail_phase_Suc)
qed

text \<open>\<open>k\<close> rejections then an accepted upload: the transaction is marked and the success toast shown.\<close>

lemma attempt_loop_succeeds:
  "a + k < MAX_RETRIES \<Longrightarrow> take k (rl_upload_faults (remote s)) = replicate k True \<Longrightarrow>
   \<not> fst (take_fault (drop k (rl_upload_faults (remote s)))) \<Longrightarrow>
   attempt_loop tx a False d s =
     show_toast (Toast_UploadSuccessful (tx_id tx))
       (markTransactionAsSynced (tx_id tx) (snd (upload_call tx (fail_phase tx d k s))))"
proof (induction k arbitrary: a d s)
  case 0
  then show ?case by (simp add: attempt_loop_ok)
next
  case (Suc k)
  from Suc.prems(2) have fault: "fst (take_fault (rl_upload_faults (remote s)))"
    by (blast dest: take_Suc_replicate_hd)
  from Suc.prems(2) have rest: "take k (tl (rl_upload_faults (remote s))) = replicate k True"
    by (blast dest: take_Suc_replicate_hd)
  from Suc.prems have "Suc a < MAX_RETRIES" by simp
  then have "attempt_loop tx a False d s = attempt_loop tx (Suc a) False (d * 2) (sleep d (snd (upload_call tx s)))"
    using fault by (rule attempt_loop_retry)
  also have "\<dots> = show_toast (Toast_UploadSuccessful (tx_id tx))
       (markTransactionAsSynced (tx_id tx) (snd (upload_call tx (fail_phase tx (d * 2) k (sleep d (snd (upload_call tx s)))))))"
    using Suc.prems fault rest by (intro Suc.IH) (auto simp: upload_call_fail drop_Suc)
  finally show ?case using fault by (simp add: fail_phase_Suc)
qed

text \<open>Every fault script falls in one of the two cases: five leading rejections, or fewer
  followed by an accepted call.\<close>

lemma fault_prefix_cases:
  "take 5 fs = replicate 5 True \<or> (\<exists>k<5. take k fs = replicate k True \<and> \<not> fst (take_fault (drop k fs)))"
proof (cases "5 \<le> length (takeWhile id fs)")
  case True
  have "take 5 fs = take 5 (takeWhile id fs @ dropWhile id fs)"
    by simp
  also have "\<dots> = take 5 (takeWhile id fs)"
    using True by (simp only: take_append) simp
  also have "\<dots> = replicate 5 True"
  proof (rule replicate_eqI)
    show "length (take 5 (takeWhile id fs)) = 5" using True by simp
  next
    fix y assume "y \<in> set (take 5 (takeWhile id fs))"
    then have "y \<in> set (takeWhile id fs)" by (rule in_set_takeD)
    then have "id y" by (rule set_takeWhileD [THEN conjunct2])
    then show "y = True" by simp
  qed
  finally show ?thesis by blast
next
  case False
  let ?k = "length (takeWhile id fs)"
  have "take ?k fs = takeWhile id fs"
    by (metis append_eq_conv_conj takeWhile_dropWhile_id)
  moreover have "takeWhile id fs = replicate ?k True"
    by (intro replicate_eqI) (auto dest: set_takeWhileD)
  moreover have "drop ?k fs = dropWhile id fs"
    by (metis append_eq_conv_conj takeWhile_dropWhile_id)
  moreover have "\<not> fst (take_fault (dropWhile id fs))"
  proof (cases "dropWhile id fs")
    case Nil
    show ?thesis by (simp only: Nil take_fault.simps fst_conv not_False_eq_True)
  next
    case (Cons a rest)
    then have "\<not> id a" using hd_dropWhile [of id fs] by simp
    with Cons show ?thesis by simp
  qed
  ultimately have "take ?k fs = replicate ?k True \<and> \<not> fst (take_fault (drop ?k fs))"
    by simp
  moreover have "?k < 5" using False by simp
  ultimately show ?thesis by blast
qed

section \<open>Observations of the loop\<close>

lemma upload_call_fields [simp]:
  "heap (snd (upload_call tx s)) = heap s" "cur (snd (upload_call tx s)) = cur s"
  "store (snd (upload_call tx s)) = store s" "now (snd (upload_call tx s)) = now s"
  "trace (snd (upload_call tx s)) = trace s @ [Ev_Upload (tx_id tx)]"
  "transactions (snd (upload_call tx s)) = transactions s"
  "isSyncing (snd (upload_call tx s)) = isSyncing s" "connected (snd (upload_call tx s)) = connected s"
  "listener (snd (upload_call tx s)) = listener s" "loading (snd (upload_call tx s)) = loading s"
  by (simp_all add: upload_call_def transactions_def split: prod.split)

lemma fail_phase_fields [simp]:
  "heap (fail_phase tx d k s) = heap s" "cur (fail_phase tx d k s) = cur s"
  "store (fail_phase tx d k s) = store s" "now (fail_phase tx d k s) = now s + int (backoff_total d k)"
  "trace (fail_phase tx d k s) = trace s @ failed_attempts (tx_id tx) d k"
  "transactions (fail_phase tx d k s) = transactions s"
  "isSyncing (fail_phase tx d k s) = isSyncing s" "connected (fail_phase tx d k s) = connected s"
  "listener (fail_phase tx d k s) = listener s" "loading (fail_phase tx d k s) = loading s"
  by (simp_all add: fail_phase_def transactions_def)

lemma markTransactionAsSynced_fields [simp]:
  "transactions (markTransactionAsSynced i s) = mark_synced_list i (transactions s)"
  "cur (markTransactionAsSynced i s) = length (heap s)"
  "length (heap (markTransactionAsSynced i s)) = Suc (length (heap s))"
  "now (markTransactionAsSynced i s) = now s" "trace (markTransactionAsSynced i s) = trace s"
  "remote (markTransactionAsSynced i s) = remote s"
  "isSyncing (markTransactionAsSynced i s) = isSyncing s" "connected (markTransactionAsSynced i s) = connected s"
  "listener (markTransactionAsSynced i s) = listener s" "loading (markTransactionAsSynced i s) = loading s"
  by (simp_all add: markTransactionAsSynced_def Let_def transactions_def setTransactions_def)

lemma heap_markTransactionAsSynced_old [simp]:
  "a < length (heap s) \<Longrightarrow> heap (markTransactionAsSynced i s) ! a = heap s ! a"
  by (simp add: markTransactionAsSynced_def Let_def)

lemma failed_attempts_observed [simp]:
  "[i'. Ev_Upload i' \<leftarrow> failed_attempts i d k] = replicate k i"
  "[t. Ev_Toast t \<leftarrow> failed_attempts i d k] = []"
  "[ms. Ev_Sleep ms \<leftarrow> failed_attempts i d k] = map (\<lambda>j. d * 2 ^ j) [0..<k]"
proof (induction k arbitrary: d)
  case 0
  { case 1 show ?case by simp }
  { case 2 show ?case by simp }
  { case 3 show ?case by simp }
next
  case (Suc k)
  { case 1 show ?case using Suc.IH(1) by simp }
  { case 2 show ?case using Suc.IH(2) by simp }
  { case 3
    have "map (\<lambda>j. d * 2 ^ j) [0..<Suc k] = d # map (\<lambda>j. d * 2 * 2 ^ j) [0..<k]"
      by (induction k) (simp_all add: algebra_simps)
    then show ?case using Suc.IH(3) [of "d * 2"] by simp }
qed

text \<open>The loop from its start, in the two cases of the fault script.\<close>

lemma attemptSync_exhausted_eq:
  "take 5 (rl_upload_faults (remote s)) = replicate 5 True \<Longrightarrow>
   attemptSyncTransaction tx s = show_toast (Toast_SyncError (tx_id tx)) (snd (upload_call tx (fail_phase tx 1000 4 s)))"
  unfolding attemptSyncTransaction_def
  by (rule attempt_loop_exhausted) (simp_all add: MAX_RETRIES_def)

lemma attemptSync_succeeds_eq:
  "k < 5 \<Longrightarrow> take k (rl_upload_faults (remote s)) = replicate k True \<Longrightarrow>
   \<not> fst (take_fault (drop k (rl_upload_faults (remote s)))) \<Longrightarrow>
   attemptSyncTransaction tx s =
     show_toast (Toast_UploadSuccessful (tx_id tx))
       (markTransactionAsSynced (tx_id tx) (snd (upload_call tx (fail_phase tx 1000 k s))))"
  unfolding attemptSyncTransaction_def
  by (rule attempt_loop_succeeds) (simp_all add: MAX_RETRIES_def)

section \<open>Properties of the retry policy\<close>

text \<open>C1: an upload that is rejected every time is attempted exactly five times, with
  sleeps of 1s, 2s, 4s and 8s between the attempts (15s in all, no sleep after the last),
  one error toast, and the transaction stays as it was (unsynced).\<close>

theorem retry_exhausted:
  assumes "take 5 (rl_upload_faults (remote s)) = replicate 5 True"
  shows "uploads (attemptSyncTransaction tx s) = uploads s @ replicate 5 (tx_id tx)
       \<and> sleeps (attemptSyncTransaction tx s) = sleeps s @ [1000, 2000, 4000, 8000]
       \<and> toasts (attemptSyncTransaction tx s) = toasts s @ [Toast_SyncError (tx_id tx)]
       \<and> transactions (attemptSyncTransaction tx s) = transactions s
       \<and> now (attemptSyncTransaction tx s) = now s + 15000"
  using assms by (simp add: attemptSync_exhausted_eq uploads_def sleeps_def toasts_def
      replicate_Suc [symmetric] eval_nat_numeral upt_rec)

text \<open>C2: \<open>k < 5\<close> rejections followed by an accepted upload: \<open>k + 1\<close> attempts, the
  sleeps \<open>1000 * 2^j\<close> for \<open>j < k\<close>, one success toast, and the transaction marked synced.\<close>

theorem retry_succeeds:
  assumes "k < 5" and "take k (rl_upload_faults (remote s)) = replicate k True"
    and "\<not> fst (take_fault (drop k (rl_upload_faults (remote s))))"
  shows "transactions (attemptSyncTransaction tx s) = mark_synced_list (tx_id tx) (transactions s)
       \<and> uploads (attemptSyncTransaction tx s) = uploads s @ replicate (Suc k) (tx_id tx)
       \<and> sleeps (attemptSyncTransaction tx s) = sleeps s @ map (\<lambda>j. 1000 * 2 ^ j) [0..<k]
       \<and> toasts (attemptSyncTransaction tx s) = toasts s @ [Toast_UploadSuccessful (tx_id tx)]"
  using assms by (simp add: attemptSync_succeeds_eq uploads_def sleeps_def toasts_def replicate_append_same)

lemma attemptSync_cases:
  obtains (exhausted) "take 5 (rl_upload_faults (remote s)) = replicate 5 True"
  | (succeeds) k where "k < 5" "take k (rl_upload_faults (remote s)) = replicate k True"
      "\<not> fst (take_fault (drop k (rl_upload_faults (remote s))))"
  using fault_prefix_cases [of "rl_upload_faults (remote s)"] by blast

text \<open>C3: whatever the network does, \<open>attemptSyncTransaction\<close> returns after between one
  and five upload calls, and shows exactly one toast: success or error.\<close>

theorem retry_bounded:
  "\<exists>n. 1 \<le> n \<and> n \<le> MAX_RETRIES \<and> uploads (attemptSyncTransaction tx s) = uploads s @ replicate n (tx_id tx)
      \<and> (toasts (attemptSyncTransaction tx s) = toasts s @ [Toast_UploadSuccessful (tx_id tx)]
         \<or> toasts (attemptSyncTransaction tx s) = toasts s @ [Toast_SyncError (tx_id tx)])"
proof (cases s rule: attemptSync_cases)
  case exhausted
  then show ?thesis
    by (intro exI [of _ 5]) (simp add: attemptSync_exhausted_eq uploads_def toasts_def MAX_RETRIES_def
        replicate_Suc [symmetric] eval_nat_numeral)
next
  case (succeeds k)
  then show ?thesis
    by (intro exI [of _ "Suc k"]) (simp add: attemptSync_succeeds_eq uploads_def toasts_def MAX_RETRIES_def
        replicate_append_same)
qed

end
