(* ===== verification/Sync_Engine.thy ===== *)
theory Sync_Engine
  imports Sync_Retry
begin

text \<open>
  The provider's entry points and the sync cycle of \<open>src/context/TransactionContext.tsx\<close>:
  \<open>addTransaction\<close>, \<open>syncSingleTransaction\<close>, \<open>syncAllTransactions\<close> with its
  sequential upload pass, \<open>fetchAndMergeServerTransactions\<close> and the in-place
  \<open>mergeTransactions\<close>, \<open>loadTransactions\<close>, and the NetInfo listener with the effect
  that subscribes it. Each function takes the closure of the render it belongs to: the
  single-flight guard reads that closure's \<open>isSyncing\<close>, the upload pass and the merge read
  and mutate that closure's \<open>transactions\<close> array. Every \<open>await\<close> runs to completion
  before the next step: one cycle at a time, no other handler running at an await point.
\<close>

section \<open>Single-transaction sync\<close>

text \<open>
  \<open>syncSingleTransaction\<close>: dropped when the closure's \<open>isSyncing\<close> is set; otherwise set
  the flag, and offline show the offline notice, online run the retry loop; the
  \<open>finally\<close> clears the flag. The \<open>catch\<close> (toast "Sync Failed") is not a branch of
  the model: \<open>NetInfo.fetch\<close> resolves, and \<open>attemptSyncTransaction\<close> catches every
  rejection itself.
\<close>

definition syncSingleTransaction :: "closure \<Rightarrow> transaction \<Rightarrow> app \<Rightarrow> app" where
  "syncSingleTransaction c tx s =
     (if cl_isSyncing c then s
      else
        let s1 = s\<lparr>isSyncing := True\<rparr>;
            s2 = (if \<not> connected s1 then show_toast Toast_Offline s1 else attemptSyncTransaction tx s1)
        in s2\<lparr>isSyncing := False\<rparr>)"

text \<open>
  \<open>addTransaction\<close>: build the transaction with the fresh id, write the closure's array
  plus it to AsyncStorage, and only if that resolves append it to the state and sync it.
  A rejected write shows the error toast and adds nothing.
\<close>

definition addTransaction :: "closure \<Rightarrow> new_transaction \<Rightarrow> txid \<Rightarrow> app \<Rightarrow> app" where
  "addTransaction c nt uid s =
     (let tx = with_id nt uid;
          w = setItem_transactions (heap s ! cl_transactions c @ [tx]) (store s);
          s1 = s\<lparr>store := snd w\<rparr>
      in case fst w of
           Inl _ \<Rightarrow> show_toast Toast_AddFailed s1
         | Inr _ \<Rightarrow> syncSingleTransaction c tx (setTransactions (\<lambda>prev. prev @ [tx]) s1))"

section \<open>Pull and merge\<close>

text \<open>
  \<open>mergeTransactions\<close>: the loop pushes onto the closure's \<open>transactions\<close> array in place;
  there is no \<open>setTransactions\<close> and no write to AsyncStorage.
\<close>

definition mergeTransactions :: "closure \<Rightarrow> transaction list \<Rightarrow> app \<Rightarrow> app" where
  "mergeTransactions c server s =
     (let a = cl_transactions c; arr = heap s ! a
      in s\<lparr>heap := (heap s)[a := merge_loop (local_map arr) server arr]\<rparr>)"

text \<open>
  \<open>fetchAndMergeServerTransactions\<close>: pull what is newer than the cursor; a rejected query
  shows the error toast; a non-empty answer is merged, the cursor set to now and the
  completion toast shown; an empty answer changes nothing.
\<close>

definition fetchAndMergeServerTransactions :: "closure \<Rightarrow> app \<Rightarrow> app" where
  "fetchAndMergeServerTransactions c s =
     (let q = fetchServerTransactions (getLastSyncTime (store s)) (remote s);
          s1 = s\<lparr>remote := snd q\<rparr>
      in case fst q of
           Inl _ \<Rightarrow> show_toast Toast_ServerSyncError s1
         | Inr server \<Rightarrow>
             (if 0 < length server then
                let s2 = mergeTransactions c server s1;
                    s3 = s2\<lparr>store := updateLastSyncTime (now s2) (store s2)\<rparr>
                in show_toast (Toast_SyncComplete (length server)) s3
              else s1))"

section \<open>Bulk sync\<close>

text \<open>\<open>for (const transaction of unsyncedTransactions) await attemptSyncTransaction(transaction)\<close>.\<close>

primrec sync_each :: "transaction list \<Rightarrow> app \<Rightarrow> app" where
  "sync_each [] s = s"
| "sync_each (tx # txs) s = sync_each txs (attemptSyncTransaction tx s)"

text \<open>
  \<open>syncAllTransactions\<close>: the same guard and flag as the single sync; offline, the notice;
  online, the unsynced transactions of the closure's array are uploaded one after the
  other (announced by a toast when there are any), then the pull-and-merge runs whatever
  the uploads did. Its \<open>catch\<close> is unreachable for the same reason as above.
\<close>

definition syncAllTransactions :: "closure \<Rightarrow> app \<Rightarrow> app" where
  "syncAllTransactions c s =
     (if cl_isSyncing c then s
      else
        let s1 = s\<lparr>isSyncing := True\<rparr>;
            s2 = (if \<not> connected s1 then show_toast Toast_Offline s1
                  else
                    let unsynced = getUnsyncedTransactions (heap s1 ! cl_transactions c);
                        s1' = (if 0 < length unsynced
                               then sync_each unsynced (show_toast (Toast_Syncing (length unsynced)) s1)
                               else s1)
                    in fetchAndMergeServerTransactions c s1')
        in s2\<lparr>isSyncing := False\<rparr>)"

section \<open>Connectivity and start-up\<close>

text \<open>
  The NetInfo listener: NetInfo delivers a state, and the subscribed callback starts a bulk
  sync when \<open>state.isConnected\<close> holds and its closure's \<open>loading\<close> is false. It fires on
  every delivered state, not only on a change from offline to online.
\<close>

definition netinfo_event :: "bool \<Rightarrow> app \<Rightarrow> app" where
  "netinfo_event isConnected s =
     (let s1 = s\<lparr>connected := isConnected\<rparr>
      in case listener s1 of
           None \<Rightarrow> s1
         | Some c \<Rightarrow> (if isConnected \<and> \<not> cl_loading c then syncAllTransactions c s1 else s1))"

text \<open>
  \<open>loadTransactions\<close>: a stored array replaces the state; with none, the sample
  transactions marked unsynced become the state and are written; a rejected write shows
  the load error toast (the state keeps the samples).
\<close>

definition loadTransactions :: "transaction list \<Rightarrow> app \<Rightarrow> app" where
  "loadTransactions samples s =
     (case ls_transactions (store s) of
        Some stored \<Rightarrow> setTransactions (\<lambda>_. stored) s
      | None \<Rightarrow>
          let init = map (\<lambda>tx. tx\<lparr>tx_synced := False\<rparr>) samples;
              s1 = setTransactions (\<lambda>_. init) s;
              w = setItem_transactions init (store s1);
              s2 = s1\<lparr>store := snd w\<rparr>
          in case fst w of Inl _ \<Rightarrow> show_toast Toast_LoadFailed s2 | Inr _ \<Rightarrow> s2)"

text \<open>
  One run of the provider's \<open>useEffect\<close> (on mount and whenever \<open>loading\<close> changes):
  the previous subscription is replaced by one whose callback closes over this render;
  \<open>initialize\<close> loads and clears \<open>loading\<close>; NetInfo then delivers the current state to
  the new subscription.
\<close>

definition provider_effect :: "transaction list \<Rightarrow> app \<Rightarrow> app" where
  "provider_effect samples s =
     (let c = render s;
          s1 = loadTransactions samples (s\<lparr>listener := Some c\<rparr>);
          s2 = s1\<lparr>loading := False\<rparr>
      in netinfo_event (connected s2) s2)"

text \<open>
  Mounting: the effect runs with \<open>loading = true\<close>, and, because it sets \<open>loading\<close> to
  false, runs once more.
\<close>

definition provider_mount :: "transaction list \<Rightarrow> app \<Rightarrow> app" where
  "provider_mount samples s = provider_effect samples (provider_effect samples (s\<lparr>loading := True\<rparr>))"

section \<open>The upload pass: frame\<close>

text \<open>
  What an upload pass may change: it only allocates arrays (old ones stay as they were),
  the state array afterwards is either the old one or a new one, the state keeps its ids
  and only gains synced flags, and the remote collection stays well formed.
\<close>

definition upload_frame :: "app \<Rightarrow> app \<Rightarrow> bool" where
  "upload_frame s s' \<longleftrightarrow>
     length (heap s) \<le> length (heap s') \<and> (\<forall>a < length (heap s). heap s' ! a = heap s ! a)
     \<and> (cur s' = cur s \<or> length (heap s) \<le> cur s') \<and> cur s' < length (heap s')
     \<and> map tx_id (transactions s') = map tx_id (transactions s)
     \<and> synced_ids (transactions s) \<subseteq> synced_ids (transactions s')
     \<and> (wf_remote (remote s) \<longrightarrow> wf_remote (remote s'))
     \<and> isSyncing s' = isSyncing s \<and> connected s' = connected s \<and> listener s' = listener s
     \<and> loading s' = loading s"

lemma upload_frame_refl:
  "cur s < length (heap s) \<Longrightarrow> upload_frame s s"
  by (simp add: upload_frame_def)

lemma upload_frame_trans:
  "upload_frame s s' \<Longrightarrow> upload_frame s' s'' \<Longrightarrow> upload_frame s s''"
  unfolding upload_frame_def
proof (elim conjE, intro conjI)
  assume l1: "length (heap s) \<le> length (heap s')" and l2: "length (heap s') \<le> length (heap s'')"
    and h1: "\<forall>a<length (heap s). heap s' ! a = heap s ! a"
    and h2: "\<forall>a<length (heap s'). heap s'' ! a = heap s' ! a"
    and c1: "cur s' = cur s \<or> length (heap s) \<le> cur s'"
    and c2: "cur s'' = cur s' \<or> length (heap s') \<le> cur s''"
  show "length (heap s) \<le> length (heap s'')" using l1 l2 by simp
  show "\<forall>a<length (heap s). heap s'' ! a = heap s ! a" using l1 h1 h2 by simp
  show "cur s'' = cur s \<or> length (heap s) \<le> cur s''" using l1 c1 c2 by auto
qed auto

lemma remote_upload_call [simp]:
  "remote (snd (upload_call tx s)) = snd (uploadTransaction tx (remote s))"
  by (simp add: upload_call_def split: prod.split)

lemma wf_remote_fail_phase [simp]:
  "wf_remote (remote (fail_phase tx d k s)) = wf_remote (remote s)"
  by (simp add: fail_phase_def wf_remote_def)

lemma attemptSync_frame:
  assumes "cur s < length (heap s)"
  shows "upload_frame s (attemptSyncTransaction tx s)"
proof (cases s rule: attemptSync_cases)
  case exhausted
  then show ?thesis using assms
    by (simp add: attemptSync_exhausted_eq upload_frame_def uploadTransaction_wf)
next
  case (succeeds k)
  then show ?thesis using assms
    by (simp add: attemptSync_succeeds_eq upload_frame_def uploadTransaction_wf synced_ids_mark_mono)
qed

lemma sync_each_frame:
  "cur s < length (heap s) \<Longrightarrow> upload_frame s (sync_each txs s)"
proof (induction txs arbitrary: s)
  case Nil
  then show ?case by (simp add: upload_frame_refl)
next
  case (Cons tx txs)
  have f: "upload_frame s (attemptSyncTransaction tx s)" using Cons.prems by (rule attemptSync_frame)
  then have "cur (attemptSyncTransaction tx s) < length (heap (attemptSyncTransaction tx s))"
    by (simp add: upload_frame_def)
  then have "upload_frame (attemptSyncTransaction tx s) (sync_each txs (attemptSyncTransaction tx s))"
    by (rule Cons.IH)
  with f show ?case by (simp add: upload_frame_trans)
qed

section \<open>Pull and merge: characteristic facts\<close>

lemma mergeTransactions_fields [simp]:
  "cur (mergeTransactions c server s) = cur s" "store (mergeTransactions c server s) = store s"
  "remote (mergeTransactions c server s) = remote s" "trace (mergeTransactions c server s) = trace s"
  "now (mergeTransactions c server s) = now s" "length (heap (mergeTransactions c server s)) = length (heap s)"
  "isSyncing (mergeTransactions c server s) = isSyncing s" "connected (mergeTransactions c server s) = connected s"
  "listener (mergeTransactions c server s) = listener s" "loading (mergeTransactions c server s) = loading s"
  by (simp_all add: mergeTransactions_def Let_def)

text \<open>The merge reaches the state only if the closure's array is the state's array.\<close>

lemma transactions_mergeTransactions:
  "cl_transactions c < length (heap s) \<Longrightarrow>
   transactions (mergeTransactions c server s) =
     (if cl_transactions c = cur s then transactions s @ merge_new (transactions s) server else transactions s)"
  by (simp add: mergeTransactions_def transactions_def merge_loop_append Let_def nth_list_update)

lemma fetchAndMerge_query_fails:
  "fst (take_fault (rl_query_faults (remote s))) \<Longrightarrow>
   fetchAndMergeServerTransactions c s =
     show_toast Toast_ServerSyncError (s\<lparr>remote := (remote s)\<lparr>rl_query_faults := snd (take_fault (rl_query_faults (remote s)))\<rparr>\<rparr>)"
  by (simp add: fetchAndMergeServerTransactions_def sync_simps)

lemma fetchAndMerge_answer:
  "fst (fetchServerTransactions (getLastSyncTime (store s)) (remote s)) = Inr server \<Longrightarrow>
   fetchAndMergeServerTransactions c s =
     (let s1 = s\<lparr>remote := snd (fetchServerTransactions (getLastSyncTime (store s)) (remote s))\<rparr>
      in if 0 < length server then
           show_toast (Toast_SyncComplete (length server))
             ((mergeTransactions c server s1)\<lparr>store := updateLastSyncTime (now s) (store s)\<rparr>)
         else s1)"
  by (simp add: fetchAndMergeServerTransactions_def Let_def)

lemma fetch_outcome_cases:
  obtains (fails) "fst (take_fault (rl_query_faults (remote s)))"
  | (answers) server where "fst (fetchServerTransactions (getLastSyncTime (store s)) (remote s)) = Inr server"
  by (cases "fst (take_fault (rl_query_faults (remote s)))") (auto simp: sync_simps)

lemma fetchAndMerge_fields [simp]:
  "cur (fetchAndMergeServerTransactions c s) = cur s"
  "length (heap (fetchAndMergeServerTransactions c s)) = length (heap s)"
  "isSyncing (fetchAndMergeServerTransactions c s) = isSyncing s"
  "connected (fetchAndMergeServerTransactions c s) = connected s"
  "listener (fetchAndMergeServerTransactions c s) = listener s"
  "loading (fetchAndMergeServerTransactions c s) = loading s"
  "rl_docs (remote (fetchAndMergeServerTransactions c s)) = rl_docs (remote s)"
  "rl_upload_faults (remote (fetchAndMergeServerTransactions c s)) = rl_upload_faults (remote s)"
  by (cases s rule: fetch_outcome_cases; simp add: fetchAndMerge_query_fails fetchAndMerge_answer Let_def)+

section \<open>Properties of the sync cycle\<close>

text \<open>C7: the single-flight guard: a sync whose render saw \<open>isSyncing\<close> set is dropped,
  single or bulk, and changes nothing at all (no upload, no toast).\<close>

theorem sync_guard_drops:
  assumes "cl_isSyncing c"
  shows "syncAllTransactions c s = s \<and> syncSingleTransaction c tx s = s"
  using assms by (simp add: syncAllTransactions_def syncSingleTransaction_def)

text \<open>the guard reads only the render's snapshot of \<open>isSyncing\<close>, never the current
  state: whether a sync is in progress in the state makes no difference to what a bulk
  sync from an older render does.\<close>

theorem sync_guard_reads_snapshot:
  "\<not> cl_isSyncing c \<Longrightarrow> syncAllTransactions c (s\<lparr>isSyncing := b\<rparr>) = syncAllTransactions c s"
  by (simp add: syncAllTransactions_def Let_def)

text \<open>offline, a bulk sync shows one offline notice and changes no transaction, no
  array, no stored value and uploads nothing.\<close>

theorem sync_all_offline:
  assumes "\<not> cl_isSyncing c" and "\<not> connected s"
  shows "syncAllTransactions c s = (show_toast Toast_Offline s)\<lparr>isSyncing := False\<rparr>"
  using assms by (simp add: syncAllTransactions_def)

text \<open>a pull that answers nothing leaves the cursor and the stored data as they were,
  changes no array, and shows nothing.\<close>

theorem empty_pull_keeps_cursor:
  assumes "fst (fetchServerTransactions (getLastSyncTime (store s)) (remote s)) = Inr []"
  shows "store (fetchAndMergeServerTransactions c s) = store s
       \<and> heap (fetchAndMergeServerTransactions c s) = heap s
       \<and> trace (fetchAndMergeServerTransactions c s) = trace s"
  using assms by (simp add: fetchAndMerge_answer)

text \<open>C17: a rejected query is reported by one error toast and leaves the stored data (the
  cursor included) and every array as they were.\<close>

theorem query_failure_keeps_state:
  assumes "fst (take_fault (rl_query_faults (remote s)))"
  shows "store (fetchAndMergeServerTransactions c s) = store s
       \<and> heap (fetchAndMergeServerTransactions c s) = heap s
       \<and> toasts (fetchAndMergeServerTransactions c s) = toasts s @ [Toast_ServerSyncError]"
  using assms by (simp add: fetchAndMerge_query_fails toasts_def)

text \<open>C21: the pull and merge never writes the transactions key: merged remote records
  are not persisted.\<close>

theorem merge_not_persisted:
  "ls_transactions (store (fetchAndMergeServerTransactions c s)) = ls_transactions (store s)"
  by (cases s rule: fetch_outcome_cases) (simp_all add: fetchAndMerge_query_fails fetchAndMerge_answer Let_def)

section \<open>Bulk sync: the upload pass and the merge target\<close>

lemma attemptSync_ok_eq:
  "\<not> fst (take_fault (rl_upload_faults (remote s))) \<Longrightarrow>
   attemptSyncTransaction tx s =
     show_toast (Toast_UploadSuccessful (tx_id tx)) (markTransactionAsSynced (tx_id tx) (snd (upload_call tx s)))"
  using attemptSync_succeeds_eq [of 0 s tx] by simp

lemma set_synced_idem [simp]:
  "set_synced (set_synced tx) = set_synced tx"
  by (simp add: set_synced_def)

lemma fold_mark_synced:
  "fold (\<lambda>tx. mark_synced_list (tx_id tx)) u xs =
     map (\<lambda>x. if tx_id x \<in> tx_id ` set u then set_synced x else x) xs"
  by (induction u arbitrary: xs) (auto simp: mark_synced_list_def)

text \<open>The upload pass when the network accepts every upload.\<close>

lemma sync_each_accepting:
  "rl_upload_faults (remote s) = [] \<Longrightarrow>
   uploads (sync_each u s) = uploads s @ map tx_id u
   \<and> toasts (sync_each u s) = toasts s @ map (\<lambda>tx. Toast_UploadSuccessful (tx_id tx)) u
   \<and> transactions (sync_each u s) = fold (\<lambda>tx. mark_synced_list (tx_id tx)) u (transactions s)
   \<and> rl_upload_faults (remote (sync_each u s)) = []"
proof (induction u arbitrary: s)
  case Nil
  then show ?case by simp
next
  case (Cons tx u)
  let ?s = "attemptSyncTransaction tx s"
  have eq: "?s = show_toast (Toast_UploadSuccessful (tx_id tx)) (markTransactionAsSynced (tx_id tx) (snd (upload_call tx s)))"
    using Cons.prems by (simp add: attemptSync_ok_eq)
  have "rl_upload_faults (remote ?s) = []"
    using Cons.prems by (simp add: eq sync_simps)
  then have IH: "uploads (sync_each u ?s) = uploads ?s @ map tx_id u
      \<and> toasts (sync_each u ?s) = toasts ?s @ map (\<lambda>tx. Toast_UploadSuccessful (tx_id tx)) u
      \<and> transactions (sync_each u ?s) = fold (\<lambda>tx. mark_synced_list (tx_id tx)) u (transactions ?s)
      \<and> rl_upload_faults (remote (sync_each u ?s)) = []"
    by (rule Cons.IH)
  show ?case using IH by (simp add: eq uploads_def toasts_def)
qed

text \<open>After the first accepted upload the state's array is a new one, never the array the
  bulk sync's closure captured.\<close>

lemma sync_each_moves_state:
  assumes "\<not> fst (take_fault (rl_upload_faults (remote s)))" and "cur s < length (heap s)"
  shows "length (heap s) \<le> cur (sync_each (tx # u) s)"
proof -
  let ?s = "attemptSyncTransaction tx s"
  have c: "cur ?s = length (heap s)"
    using assms(1) by (simp add: attemptSync_ok_eq)
  then have "cur ?s < length (heap ?s)"
    using attemptSync_frame [OF assms(2), of tx] by (simp add: upload_frame_def)
  then have "upload_frame ?s (sync_each u ?s)" by (rule sync_each_frame)
  then have "cur (sync_each u ?s) = cur ?s \<or> length (heap ?s) \<le> cur (sync_each u ?s)"
    by (simp add: upload_frame_def)
  moreover have "length (heap s) \<le> length (heap ?s)"
    using attemptSync_frame [OF assms(2), of tx] by (simp add: upload_frame_def)
  ultimately show ?thesis using c by auto
qed

lemma transactions_fetchAndMerge_other:
  "cl_transactions c < length (heap s) \<Longrightarrow> cl_transactions c \<noteq> cur s \<Longrightarrow>
   transactions (fetchAndMergeServerTransactions c s) = transactions s"
  by (cases s rule: fetch_outcome_cases)
     (simp_all add: fetchAndMerge_query_fails fetchAndMerge_answer Let_def transactions_mergeTransactions)

lemma transactions_fetchAndMerge_same:
  "cl_transactions c = cur s \<Longrightarrow> cur s < length (heap s) \<Longrightarrow>
   fst (fetchServerTransactions (getLastSyncTime (store s)) (remote s)) = Inr server \<Longrightarrow>
   transactions (fetchAndMergeServerTransactions c s) = transactions s @ merge_new (transactions s) server"
  by (simp add: fetchAndMerge_answer Let_def transactions_mergeTransactions merge_new_def)

lemma fetchAndMerge_trace:
  "trace (fetchAndMergeServerTransactions c s) = trace s
   \<or> (\<exists>t. trace (fetchAndMergeServerTransactions c s) = trace s @ [Ev_Toast t])"
  by (cases s rule: fetch_outcome_cases) (simp_all add: fetchAndMerge_query_fails fetchAndMerge_answer Let_def)

lemma syncAll_online_eq:
  "\<not> cl_isSyncing c \<Longrightarrow> connected s \<Longrightarrow>
   syncAllTransactions c s =
     (let s1 = s\<lparr>isSyncing := True\<rparr>; u = getUnsyncedTransactions (heap s ! cl_transactions c)
      in (fetchAndMergeServerTransactions c
            (if 0 < length u then sync_each u (show_toast (Toast_Syncing (length u)) s1) else s1))\<lparr>isSyncing := False\<rparr>)"
  by (simp add: syncAllTransactions_def Let_def)

lemma fold_mark_unsynced_all_synced:
  "\<forall>x\<in>set (map (\<lambda>x. if tx_id x \<in> tx_id ` set (getUnsyncedTransactions xs) then set_synced x else x) xs). tx_synced x"
  by (auto simp: getUnsyncedTransactions_def)

lemma synced_ids_append:
  "synced_ids xs \<subseteq> synced_ids (xs @ ys)"
  by (auto simp: synced_ids_def)

text \<open>The shape of an online bulk sync: an upload pass, then the pull and merge.\<close>

lemma syncAll_shape:
  assumes "\<not> cl_isSyncing c" and "connected s" and "cur s < length (heap s)"
  shows "\<exists>p. upload_frame (s\<lparr>isSyncing := True\<rparr>) p
           \<and> syncAllTransactions c s = (fetchAndMergeServerTransactions c p)\<lparr>isSyncing := False\<rparr>"
proof (cases "0 < length (getUnsyncedTransactions (heap s ! cl_transactions c))")
  case True
  let ?u = "getUnsyncedTransactions (heap s ! cl_transactions c)"
  let ?t = "show_toast (Toast_Syncing (length ?u)) (s\<lparr>isSyncing := True\<rparr>)"
  have "upload_frame ?t (sync_each ?u ?t)" using assms(3) by (intro sync_each_frame) simp
  moreover have "upload_frame (s\<lparr>isSyncing := True\<rparr>) ?t"
    using assms(3) by (simp add: upload_frame_def transactions_def)
  ultimately show ?thesis using True assms
    by (intro exI [of _ "sync_each ?u ?t"]) (auto simp: syncAll_online_eq Let_def intro: upload_frame_trans)
next
  case False
  then show ?thesis using assms
    by (intro exI [of _ "s\<lparr>isSyncing := True\<rparr>"]) (simp add: syncAll_online_eq upload_frame_refl)
qed

lemma fetchAndMerge_transactions_shape:
  assumes "cl_transactions c < length (heap p)" and "cur p < length (heap p)"
  shows "transactions (fetchAndMergeServerTransactions c p) = transactions p
         \<or> (\<exists>server. fst (fetchServerTransactions (getLastSyncTime (store p)) (remote p)) = Inr server
              \<and> transactions (fetchAndMergeServerTransactions c p) = transactions p @ merge_new (transactions p) server)"
proof (cases "cl_transactions c = cur p")
  case True
  then show ?thesis
  proof (cases p rule: fetch_outcome_cases)
    case fails
    then show ?thesis by (simp add: fetchAndMerge_query_fails)
  next
    case (answers server)
    then show ?thesis using True assms(2) by (blast intro: transactions_fetchAndMerge_same)
  qed
next
  case False
  then show ?thesis using assms(1) by (simp add: transactions_fetchAndMerge_other)
qed

text \<open>C4: a bulk sync whose upload pass has its first upload accepted never brings a
  pulled record into the state: the merge pushes into the array the sync's render
  captured, which is no longer the state's array once \<open>markTransactionAsSynced\<close> has run.
  The ids of the state after the sync are exactly those before it.\<close>

theorem bulk_sync_merge_unreachable:
  assumes "\<not> isSyncing s" and "connected s" and "cur s < length (heap s)"
    and "getUnsyncedTransactions (transactions s) \<noteq> []"
    and "\<not> fst (take_fault (rl_upload_faults (remote s)))"
  shows "map tx_id (transactions (syncAllTransactions (render s) s)) = map tx_id (transactions s)"
proof -
  obtain tx u where u: "getUnsyncedTransactions (transactions s) = tx # u"
    using assms(4) by (cases "getUnsyncedTransactions (transactions s)") auto
  let ?t = "show_toast (Toast_Syncing (Suc (length u))) (s\<lparr>isSyncing := True\<rparr>)"
  let ?p = "sync_each (tx # u) ?t"
  have eq: "syncAllTransactions (render s) s = (fetchAndMergeServerTransactions (render s) ?p)\<lparr>isSyncing := False\<rparr>"
    using assms(1,2) u by (simp add: syncAll_online_eq heap_cur_transactions Let_def)
  have t: "cur ?t < length (heap ?t)" "\<not> fst (take_fault (rl_upload_faults (remote ?t)))"
    using assms(3,5) by simp_all
  have moved: "length (heap ?t) \<le> cur ?p" by (rule sync_each_moves_state [OF t(2) t(1)])
  have fr: "upload_frame ?t ?p" using t(1) by (rule sync_each_frame)
  have "cur s \<noteq> cur ?p" and "cur s < length (heap ?p)"
    using moved fr assms(3) by (auto simp: upload_frame_def)
  then have "transactions (fetchAndMergeServerTransactions (render s) ?p) = transactions ?p"
    by (simp add: transactions_fetchAndMerge_other)
  then show ?thesis using fr by (simp add: eq upload_frame_def)
qed

text \<open>C6: with nothing unsynced, the pull reaches the state: the state's array gains the
  pulled records whose id is new, marked synced.\<close>

theorem bulk_sync_merges_when_clean:
  assumes "\<not> isSyncing s" and "connected s" and "cur s < length (heap s)"
    and "getUnsyncedTransactions (transactions s) = []"
    and "fst (fetchServerTransactions (getLastSyncTime (store s)) (remote s)) = Inr server"
  shows "transactions (syncAllTransactions (render s) s) = transactions s @ merge_new (transactions s) server"
proof -
  have eq: "syncAllTransactions (render s) s = (fetchAndMergeServerTransactions (render s) (s\<lparr>isSyncing := True\<rparr>))\<lparr>isSyncing := False\<rparr>"
    using assms(1,2,4) by (simp add: syncAll_online_eq heap_cur_transactions Let_def)
  have "transactions (fetchAndMergeServerTransactions (render s) (s\<lparr>isSyncing := True\<rparr>)) =
          transactions s @ merge_new (transactions s) server"
    using assms(3,5) transactions_fetchAndMerge_same [of "render s" "s\<lparr>isSyncing := True\<rparr>" server] by simp
  then show ?thesis by (simp add: eq)
qed

text \<open>C12: online, with every upload accepted, a bulk sync uploads each unsynced
  transaction once, in order, announces them and shows one success toast each (and at
  most one toast for the pull), and leaves every transaction of the state synced.\<close>

theorem bulk_sync_accepting:
  assumes "\<not> isSyncing s" and "connected s" and "cur s < length (heap s)"
    and "rl_upload_faults (remote s) = []"
    and "getUnsyncedTransactions (transactions s) \<noteq> []"
  shows "uploads (syncAllTransactions (render s) s) = uploads s @ map tx_id (getUnsyncedTransactions (transactions s))
       \<and> (\<forall>tx\<in>set (transactions (syncAllTransactions (render s) s)). tx_synced tx)
       \<and> (\<exists>rest. length rest \<le> 1 \<and> toasts (syncAllTransactions (render s) s) =
             toasts s @ Toast_Syncing (length (getUnsyncedTransactions (transactions s)))
               # map (\<lambda>tx. Toast_UploadSuccessful (tx_id tx)) (getUnsyncedTransactions (transactions s)) @ rest)"
proof -
  let ?u = "getUnsyncedTransactions (transactions s)"
  let ?t = "show_toast (Toast_Syncing (length ?u)) (s\<lparr>isSyncing := True\<rparr>)"
  let ?p = "sync_each ?u ?t"
  have eq: "syncAllTransactions (render s) s = (fetchAndMergeServerTransactions (render s) ?p)\<lparr>isSyncing := False\<rparr>"
    using assms(1,2,5) by (simp add: syncAll_online_eq heap_cur_transactions Let_def)
  have acc: "uploads ?p = uploads s @ map tx_id ?u
      \<and> toasts ?p = toasts s @ Toast_Syncing (length ?u) # map (\<lambda>tx. Toast_UploadSuccessful (tx_id tx)) ?u
      \<and> transactions ?p = fold (\<lambda>tx. mark_synced_list (tx_id tx)) ?u (transactions s)"
    using sync_each_accepting [of ?t ?u] assms(4) by (simp add: uploads_def toasts_def)
  obtain tx u where u: "?u = tx # u" using assms(5) by (cases ?u) auto
  have t: "cur ?t < length (heap ?t)" "\<not> fst (take_fault (rl_upload_faults (remote ?t)))"
    using assms(3,4) by simp_all
  have "length (heap ?t) \<le> cur ?p" using sync_each_moves_state [OF t(2) t(1)] u by simp
  moreover have fr: "upload_frame ?t ?p" using t(1) by (rule sync_each_frame)
  ultimately have "cur s \<noteq> cur ?p" and "cur s < length (heap ?p)"
    using assms(3) by (auto simp: upload_frame_def)
  then have tr: "transactions (fetchAndMergeServerTransactions (render s) ?p) = transactions ?p"
    by (simp add: transactions_fetchAndMerge_other)
  have all: "\<forall>tx\<in>set (transactions ?p). tx_synced tx"
    using acc fold_mark_unsynced_all_synced [of "transactions s"] by (simp add: fold_mark_synced)
  show ?thesis
  proof (cases "trace (fetchAndMergeServerTransactions (render s) ?p) = trace ?p")
    case True
    then show ?thesis using acc all tr
      by (simp add: eq uploads_def toasts_def)
  next
    case False
    then obtain x where "trace (fetchAndMergeServerTransactions (render s) ?p) = trace ?p @ [Ev_Toast x]"
      using fetchAndMerge_trace by blast
    then show ?thesis using acc all tr
      by (simp add: eq uploads_def toasts_def)
  qed
qed

section \<open>Invariants of the sync cycle\<close>

lemma wf_app_isSyncing [simp]:
  "wf_app (s\<lparr>isSyncing := b\<rparr>) = wf_app s"
  by (simp add: wf_app_def valid_closure_def)

lemma upload_frame_wf:
  "wf_app s \<Longrightarrow> upload_frame s p \<Longrightarrow> wf_app p"
  by (auto simp: wf_app_def upload_frame_def valid_closure_def ids_unique_def)

lemma fetchAndMerge_wf:
  assumes "wf_app p" and "valid_closure c p"
  shows "wf_app (fetchAndMergeServerTransactions c p)"
proof -
  have p: "cur p < length (heap p)" "cl_transactions c < length (heap p)" "wf_remote (remote p)"
    "ids_unique (transactions p)"
    using assms by (simp_all add: wf_app_def valid_closure_def)
  have "ids_unique (transactions (fetchAndMergeServerTransactions c p))"
    using fetchAndMerge_transactions_shape [OF p(2) p(1)]
  proof
    assume "transactions (fetchAndMergeServerTransactions c p) = transactions p"
    then show ?thesis using p(4) by simp
  next
    assume "\<exists>server. fst (fetchServerTransactions (getLastSyncTime (store p)) (remote p)) = Inr server
              \<and> transactions (fetchAndMergeServerTransactions c p) = transactions p @ merge_new (transactions p) server"
    then obtain server where q: "fst (fetchServerTransactions (getLastSyncTime (store p)) (remote p)) = Inr server"
      and t: "transactions (fetchAndMergeServerTransactions c p) = transactions p @ merge_new (transactions p) server"
      by blast
    have d: "distinct (map tx_id server)" using p(3) q by (rule fetch_distinct_ids)
    have "distinct (map tx_id (transactions p @ merge_new (transactions p) server)) = distinct (map tx_id (transactions p))"
      by (rule merge_new_distinct [OF d])
    then show ?thesis using p(4) by (metis ids_unique_def t)
  qed
  then show ?thesis using assms by (simp add: wf_app_def wf_remote_def valid_closure_def)
qed

text \<open>C8: a bulk sync from any valid render keeps the state well formed: ids stay unique
  in the state's array, the remote collection keeps one document per id, and the arrays the
  state and the listener refer to exist.\<close>

theorem sync_all_preserves_wf:
  assumes "wf_app s" and "valid_closure c s"
  shows "wf_app (syncAllTransactions c s)"
proof (cases "\<not> cl_isSyncing c \<and> connected s")
  case True
  have cur: "cur s < length (heap s)" using assms(1) by (simp add: wf_app_def)
  obtain p where fr: "upload_frame (s\<lparr>isSyncing := True\<rparr>) p"
    and eq: "syncAllTransactions c s = (fetchAndMergeServerTransactions c p)\<lparr>isSyncing := False\<rparr>"
    using syncAll_shape [OF _ _ cur] True by blast
  have "wf_app p" using upload_frame_wf [OF _ fr] assms(1) by simp
  moreover have "valid_closure c p" using assms(2) fr by (auto simp: valid_closure_def upload_frame_def)
  ultimately show ?thesis by (simp add: eq fetchAndMerge_wf)
next
  case False
  then show ?thesis using assms(1)
    by (auto simp: syncAllTransactions_def wf_app_def valid_closure_def)
qed

text \<open>C9: in the state, \<open>synced\<close> only goes from false to true during a bulk sync: every
  id synced before is synced after.\<close>

theorem sync_all_synced_monotone:
  assumes "cur s < length (heap s)" and "valid_closure c s"
  shows "synced_ids (transactions s) \<subseteq> synced_ids (transactions (syncAllTransactions c s))"
proof (cases "\<not> cl_isSyncing c \<and> connected s")
  case True
  obtain p where fr: "upload_frame (s\<lparr>isSyncing := True\<rparr>) p"
    and eq: "syncAllTransactions c s = (fetchAndMergeServerTransactions c p)\<lparr>isSyncing := False\<rparr>"
    using syncAll_shape [OF _ _ assms(1)] True by blast
  have p: "cl_transactions c < length (heap p)" "cur p < length (heap p)"
    and sub: "synced_ids (transactions s) \<subseteq> synced_ids (transactions p)"
    using fr assms(2) by (auto simp: valid_closure_def upload_frame_def)
  have "synced_ids (transactions p) \<subseteq> synced_ids (transactions (fetchAndMergeServerTransactions c p))"
    using fetchAndMerge_transactions_shape [OF p]
  proof
    assume "transactions (fetchAndMergeServerTransactions c p) = transactions p"
    then show ?thesis by simp
  next
    assume "\<exists>server. fst (fetchServerTransactions (getLastSyncTime (store p)) (remote p)) = Inr server
              \<and> transactions (fetchAndMergeServerTransactions c p) = transactions p @ merge_new (transactions p) server"
    then show ?thesis using synced_ids_append by metis
  qed
  then show ?thesis using sub by (simp add: eq)
next
  case False
  then show ?thesis by (auto simp: syncAllTransactions_def)
qed

section \<open>Adding a transaction\<close>

lemma attemptSync_transactions:
  "transactions (attemptSyncTransaction tx s) = transactions s
   \<or> transactions (attemptSyncTransaction tx s) = mark_synced_list (tx_id tx) (transactions s)"
  by (cases s rule: attemptSync_cases) (simp_all add: attemptSync_exhausted_eq attemptSync_succeeds_eq)

lemma mark_synced_fresh_append:
  "tx_id tx \<notin> set (map tx_id xs) \<Longrightarrow> mark_synced_list (tx_id tx) (xs @ [tx]) = xs @ [set_synced tx]"
  by (induction xs) (auto simp: mark_synced_list_def)

lemma syncSingle_transactions:
  "transactions (syncSingleTransaction c tx s) = transactions s
   \<or> transactions (syncSingleTransaction c tx s) = mark_synced_list (tx_id tx) (transactions s)"
  using attemptSync_transactions [of tx "s\<lparr>isSyncing := True\<rparr>"]
  by (auto simp: syncSingleTransaction_def Let_def)

lemma addTransaction_written:
  "\<not> fst (take_fault (ls_faults (store s))) \<Longrightarrow>
   addTransaction c nt uid s =
     syncSingleTransaction c (with_id nt uid)
       (setTransactions (\<lambda>prev. prev @ [with_id nt uid])
         (s\<lparr>store := snd (setItem_transactions (heap s ! cl_transactions c @ [with_id nt uid]) (store s))\<rparr>))"
  by (simp add: addTransaction_def Let_def sync_simps)

lemma addTransaction_appends_new:
  assumes "\<not> fst (take_fault (ls_faults (store s)))" and "uid \<notin> set (map tx_id (transactions s))"
  shows "transactions (addTransaction c nt uid s) = transactions s @ [with_id nt uid]
       \<or> transactions (addTransaction c nt uid s) = transactions s @ [set_synced (with_id nt uid)]"
proof -
  let ?s2 = "setTransactions (\<lambda>prev. prev @ [with_id nt uid])
         (s\<lparr>store := snd (setItem_transactions (heap s ! cl_transactions c @ [with_id nt uid]) (store s))\<rparr>)"
  have t2: "transactions ?s2 = transactions s @ [with_id nt uid]" by simp
  have eq: "addTransaction c nt uid s = syncSingleTransaction c (with_id nt uid) ?s2"
    using assms(1) by (rule addTransaction_written)
  have fresh: "tx_id (with_id nt uid) \<notin> set (map tx_id (transactions s))" using assms(2) by simp
  show ?thesis
    using syncSingle_transactions [of c "with_id nt uid" ?s2]
    by (simp only: eq t2 mark_synced_fresh_append [OF fresh])
qed

lemma all_rejected_nth:
  assumes "take 5 xs = replicate 5 True" and "k < 5"
  shows "fst (take_fault (drop k xs))"
proof -
  have len: "k < length xs" using assms by (metis length_replicate length_take min_less_iff_conj)
  have "xs ! k = True" using assms by (metis nth_replicate nth_take)
  then show ?thesis using len by (simp add: Cons_nth_drop_Suc [symmetric])
qed

text \<open>The retry loop writes the transaction's document and marks it synced exactly when
  some attempt is accepted, that is unless the first five uploads are all rejected.\<close>

lemma attemptSync_accepted:
  "rl_docs (remote (attemptSyncTransaction tx s)) =
     (if take 5 (rl_upload_faults (remote s)) = replicate 5 True then rl_docs (remote s)
      else AList.update (tx_id tx) (doc_of tx) (rl_docs (remote s)))
   \<and> transactions (attemptSyncTransaction tx s) =
     (if take 5 (rl_upload_faults (remote s)) = replicate 5 True then transactions s
      else mark_synced_list (tx_id tx) (transactions s))"
proof (cases s rule: attemptSync_cases)
  case exhausted
  then have "fst (take_fault (drop 4 (rl_upload_faults (remote s))))" by (rule all_rejected_nth) simp
  then obtain fs where "take_fault (drop 4 (rl_upload_faults (remote s))) = (True, fs)"
    by (metis prod.collapse)
  with exhausted have "rl_docs (remote (attemptSyncTransaction tx s)) = rl_docs (remote s)"
    by (simp add: attemptSync_exhausted_eq upload_call_def uploadTransaction_def fail_phase_def)
  with exhausted show ?thesis by (simp add: attemptSync_exhausted_eq)
next
  case (succeeds k)
  then have "take 5 (rl_upload_faults (remote s)) \<noteq> replicate 5 True" by (metis all_rejected_nth)
  moreover from succeeds have "rl_docs (remote (attemptSyncTransaction tx s)) =
      AList.update (tx_id tx) (doc_of tx) (rl_docs (remote s))"
    by (simp add: attemptSync_succeeds_eq upload_call_def sync_simps fail_phase_def split: prod.split)
  ultimately show ?thesis using succeeds by (simp add: attemptSync_succeeds_eq)
qed

text \<open>C14: \<open>addTransaction\<close> with a fresh id whose write succeeds appends exactly the new
  transaction, and marks it synced exactly when its upload reached Firestore: the document
  with its id exists afterwards. That happens exactly when the device is connected, the
  render's guard lets the single sync run, and not all five attempts are rejected. Ids stay
  unique.\<close>

theorem add_transaction_appends:
  assumes "\<not> fst (take_fault (ls_faults (store s)))" and "uid \<notin> set (map tx_id (transactions s))"
    and "uid \<notin> set (map fst (rl_docs (remote s)))"
  shows "transactions (addTransaction c nt uid s) =
           transactions s @ [if uid \<in> set (map fst (rl_docs (remote (addTransaction c nt uid s))))
                             then set_synced (with_id nt uid) else with_id nt uid]
         \<and> (uid \<in> set (map fst (rl_docs (remote (addTransaction c nt uid s))))
              \<longleftrightarrow> connected s \<and> \<not> cl_isSyncing c \<and> take 5 (rl_upload_faults (remote s)) \<noteq> replicate 5 True)
         \<and> (ids_unique (transactions s) \<longrightarrow> ids_unique (transactions (addTransaction c nt uid s)))"
proof -
  let ?tx = "with_id nt uid"
  let ?s2 = "setTransactions (\<lambda>prev. prev @ [?tx])
         (s\<lparr>store := snd (setItem_transactions (heap s ! cl_transactions c @ [?tx]) (store s))\<rparr>)"
  have eq: "addTransaction c nt uid s = syncSingleTransaction c ?tx ?s2"
    using assms(1) by (rule addTransaction_written)
  have fresh: "tx_id ?tx \<notin> set (map tx_id (transactions s))" using assms(2) by simp
  let ?ok = "connected s \<and> \<not> cl_isSyncing c \<and> take 5 (rl_upload_faults (remote s)) \<noteq> replicate 5 True"
  have acc: "rl_docs (remote (attemptSyncTransaction ?tx (?s2\<lparr>isSyncing := True\<rparr>))) =
       (if take 5 (rl_upload_faults (remote s)) = replicate 5 True then rl_docs (remote s)
        else AList.update uid (doc_of ?tx) (rl_docs (remote s)))
     \<and> transactions (attemptSyncTransaction ?tx (?s2\<lparr>isSyncing := True\<rparr>)) =
       (if take 5 (rl_upload_faults (remote s)) = replicate 5 True then transactions s @ [?tx]
        else mark_synced_list uid (transactions s @ [?tx]))"
    using attemptSync_accepted [of ?tx "?s2\<lparr>isSyncing := True\<rparr>"] by simp
  have docs: "rl_docs (remote (addTransaction c nt uid s)) =
      (if ?ok then AList.update uid (doc_of ?tx) (rl_docs (remote s)) else rl_docs (remote s))"
    using acc by (auto simp: eq syncSingleTransaction_def Let_def)
  have txs: "transactions (addTransaction c nt uid s) =
      (if ?ok then transactions s @ [set_synced ?tx] else transactions s @ [?tx])"
    using acc mark_synced_fresh_append [OF fresh] by (auto simp: eq syncSingleTransaction_def Let_def)
  have mem: "uid \<in> set (map fst (rl_docs (remote (addTransaction c nt uid s)))) \<longleftrightarrow> ?ok"
    using assms(3) by (simp add: docs dom_update)
  have "ids_unique (transactions s) \<Longrightarrow> ids_unique (transactions (addTransaction c nt uid s))"
    using assms(2) by (simp add: txs ids_unique_def)
  with txs mem show ?thesis by auto
qed

text \<open>offline, \<open>addTransaction\<close> persists and shows the new transaction unsynced,
  shows the offline notice and uploads nothing.\<close>

theorem add_transaction_offline:
  assumes "\<not> fst (take_fault (ls_faults (store s)))" and "\<not> connected s" and "\<not> isSyncing s"
  shows "transactions (addTransaction (render s) nt uid s) = transactions s @ [with_id nt uid]
       \<and> ls_transactions (store (addTransaction (render s) nt uid s)) = Some (transactions s @ [with_id nt uid])
       \<and> toasts (addTransaction (render s) nt uid s) = toasts s @ [Toast_Offline]
       \<and> uploads (addTransaction (render s) nt uid s) = uploads s"
  using assms by (simp add: addTransaction_written syncSingleTransaction_def heap_cur_transactions
      sync_simps toasts_def uploads_def)

text \<open>C15: when the write of the new array is rejected, \<open>addTransaction\<close> shows one error
  toast and changes neither the state nor the stored array, and uploads nothing.\<close>

theorem add_transaction_write_fails:
  assumes "fst (take_fault (ls_faults (store s)))"
  shows "transactions (addTransaction c nt uid s) = transactions s
       \<and> ls_transactions (store (addTransaction c nt uid s)) = ls_transactions (store s)
       \<and> toasts (addTransaction c nt uid s) = toasts s @ [Toast_AddFailed]
       \<and> uploads (addTransaction c nt uid s) = uploads s"
  using assms by (simp add: addTransaction_def Let_def sync_simps toasts_def uploads_def)

section \<open>Connectivity events, start-up and loading\<close>

lemma attemptSync_flags [simp]:
  "isSyncing (attemptSyncTransaction tx s) = isSyncing s"
  "listener (attemptSyncTransaction tx s) = listener s"
  "loading (attemptSyncTransaction tx s) = loading s"
  "connected (attemptSyncTransaction tx s) = connected s"
  by (cases s rule: attemptSync_cases; simp add: attemptSync_exhausted_eq attemptSync_succeeds_eq)+

lemma sync_each_flags [simp]:
  "isSyncing (sync_each u s) = isSyncing s" "listener (sync_each u s) = listener s"
  "loading (sync_each u s) = loading s" "connected (sync_each u s) = connected s"
  by (induction u arbitrary: s) simp_all

lemma syncAll_flags [simp]:
  "listener (syncAllTransactions c s) = listener s" "loading (syncAllTransactions c s) = loading s"
  "isSyncing (syncAllTransactions c s) = (if cl_isSyncing c then isSyncing s else False)"
  by (simp_all add: syncAllTransactions_def Let_def)

lemma netinfo_flags [simp]:
  "listener (netinfo_event b s) = listener s" "loading (netinfo_event b s) = loading s"
  by (simp_all add: netinfo_event_def Let_def split: option.split)

lemma netinfo_isSyncing:
  "\<not> isSyncing s \<Longrightarrow> \<not> isSyncing (netinfo_event b s)"
  by (simp add: netinfo_event_def Let_def split: option.split)

lemma loadTransactions_flags [simp]:
  "isSyncing (loadTransactions samples s) = isSyncing s" "listener (loadTransactions samples s) = listener s"
  "loading (loadTransactions samples s) = loading s" "connected (loadTransactions samples s) = connected s"
  by (simp_all add: loadTransactions_def Let_def split: option.split sum.split)

lemma provider_effect_flags:
  "listener (provider_effect samples s) = Some (render s)"
  "\<not> loading (provider_effect samples s)"
  "\<not> isSyncing s \<Longrightarrow> \<not> isSyncing (provider_effect samples s)"
  by (simp_all add: provider_effect_def Let_def netinfo_isSyncing)

text \<open>the NetInfo callback starts a full bulk sync on every delivered state that is
  connected, also when the device was already online (no offline-to-online transition);
  a disconnected state only records the connectivity.\<close>

theorem listener_syncs_without_transition:
  assumes "listener s = Some c" and "\<not> cl_loading c" and "connected s"
  shows "netinfo_event True s = syncAllTransactions c s
       \<and> netinfo_event False s = s\<lparr>connected := False\<rparr>"
proof -
  have "s\<lparr>connected := True\<rparr> = s" using assms(3) by simp
  then show ?thesis using assms(1,2) by (simp add: netinfo_event_def Let_def)
qed

text \<open>after mounting, the NetInfo subscription is the closure of a render in which no
  sync was running and loading was over; it is never replaced afterwards, so every later
  connectivity event runs its bulk sync past the single-flight guard.\<close>

theorem mount_listener_stale:
  assumes "\<not> isSyncing s"
  shows "\<exists>c. listener (provider_mount samples s) = Some c \<and> \<not> cl_isSyncing c \<and> \<not> cl_loading c"
proof -
  let ?s1 = "provider_effect samples (s\<lparr>loading := True\<rparr>)"
  have "\<not> isSyncing ?s1" and "\<not> loading ?s1"
    using assms by (simp_all add: provider_effect_flags)
  then show ?thesis by (simp add: provider_mount_def provider_effect_flags)
qed

text \<open>C16: a rejected AsyncStorage write in \<open>markTransactionAsSynced\<close> is swallowed. When
  an upload is accepted after \<open>k < 5\<close> rejections but the write of the marked array is
  rejected, the document is in Firestore and the state shows the transaction synced, yet
  the stored array is the one from before; a reload restores exactly that array, so a
  transaction stored unsynced is unsynced again and will be uploaded a second time.\<close>

theorem reload_forgets_synced_flag:
  assumes "k < 5" and "take k (rl_upload_faults (remote s)) = replicate k True"
    and "\<not> fst (take_fault (drop k (rl_upload_faults (remote s))))"
    and "fst (take_fault (ls_faults (store s)))" and "ls_transactions (store s) = Some stored"
  shows "tx_id tx \<in> set (map fst (rl_docs (remote (attemptSyncTransaction tx s))))
         \<and> transactions (attemptSyncTransaction tx s) = mark_synced_list (tx_id tx) (transactions s)
         \<and> ls_transactions (store (attemptSyncTransaction tx s)) = Some stored
         \<and> transactions (loadTransactions samples (attemptSyncTransaction tx s)) = stored"
proof -
  have "take 5 (rl_upload_faults (remote s)) \<noteq> replicate 5 True" using assms(1,3) by (metis all_rejected_nth)
  then have acc: "tx_id tx \<in> set (map fst (rl_docs (remote (attemptSyncTransaction tx s))))
      \<and> transactions (attemptSyncTransaction tx s) = mark_synced_list (tx_id tx) (transactions s)"
    using attemptSync_accepted [of tx s] by (simp add: dom_update)
  have st: "ls_transactions (store (attemptSyncTransaction tx s)) = Some stored"
    using assms by (simp add: attemptSync_succeeds_eq markTransactionAsSynced_def Let_def sync_simps)
  with acc show ?thesis by (simp add: loadTransactions_def)
qed

text \<open>a stored array is restored as the state and the store is left as it is.\<close>

theorem load_restores_stored:
  assumes "ls_transactions (store s) = Some xs"
  shows "transactions (loadTransactions samples s) = xs \<and> store (loadTransactions samples s) = store s"
  using assms by (simp add: loadTransactions_def)

text \<open>with nothing stored, the samples become the state, all unsynced, and are written
  to the store when the write resolves.\<close>

theorem load_seeds_samples:
  assumes "ls_transactions (store s) = None" and "\<not> fst (take_fault (ls_faults (store s)))"
  shows "transactions (loadTransactions samples s) = map (\<lambda>tx. tx\<lparr>tx_synced := False\<rparr>) samples
       \<and> ls_transactions (store (loadTransactions samples s)) = Some (map (\<lambda>tx. tx\<lparr>tx_synced := False\<rparr>) samples)
       \<and> getUnsyncedTransactions (transactions (loadTransactions samples s)) = transactions (loadTransactions samples s)"
  using assms by (simp add: loadTransactions_def Let_def sync_simps getUnsyncedTransactions_def comp_def)

end
