(* ===== verification/Number_Format.thy ===== *)
theory Number_Format
  imports Sync_Prelude
begin

text \<open>
  The two conversions between strings and numbers the screens perform: \<open>parseFloat\<close>
  on the amount typed into the add form (\<open>src/app/add.tsx\<close>) and
  \<open>Number.prototype.toFixed(2)\<close> on every amount shown (\<open>src/app/index.tsx\<close>,
  \<open>src/components/HistoryItem.tsx\<close>, \<open>src/components/TransactionItem.tsx\<close>). They follow
  the ECMAScript algorithms (StrDecimalLiteral, longest valid prefix; toFixed's "n with
  n / 10^f - x closest to zero, the larger on a tie") on exact reals: a JavaScript number
  is a real, NaN or an infinity, and rounding to binary64 is not modelled. Characters are
  bytes, so the whitespace that \<open>parseFloat\<close> skips is the ASCII part of StrWhiteSpaceChar.
\<close>

section \<open>JavaScript numbers\<close>

datatype js_number = Num real | NaN | Infinity | NegInfinity

fun js_negate :: "js_number \<Rightarrow> js_number" where
  "js_negate (Num x) = Num (- x)"
| "js_negate NaN = NaN"
| "js_negate Infinity = NegInfinity"
| "js_negate NegInfinity = Infinity"

section \<open>Digits\<close>

definition is_digit :: "char \<Rightarrow> bool" where
  "is_digit c \<longleftrightarrow> (48::nat) \<le> of_char c \<and> of_char c \<le> (57::nat)"

definition digit_val :: "char \<Rightarrow> nat" where
  "digit_val c = of_char c - 48"

definition digit_char :: "nat \<Rightarrow> char" where
  "digit_char d = char_of (48 + d)"

text \<open>The value of a string of decimal digits, most significant first.\<close>

definition nat_of_digits :: "string \<Rightarrow> nat" where
  "nat_of_digits ds = foldl (\<lambda>n d. 10 * n + digit_val d) 0 ds"

text \<open>The decimal digits of a natural number, no leading zeros.\<close>

fun string_of_nat :: "nat \<Rightarrow> string" where
  "string_of_nat n =
     (if n < 10 then [digit_char n] else string_of_nat (n div 10) @ [digit_char (n mod 10)])"

declare string_of_nat.simps [simp del]

text \<open>StrWhiteSpaceChar restricted to bytes: TAB, LF, VT, FF, CR and SPACE.\<close>

definition is_js_space :: "char \<Rightarrow> bool" where
  "is_js_space c \<longleftrightarrow> of_char c \<in> {9, 10, 11, 12, 13, 32::nat}"

definition pow10 :: "int \<Rightarrow> real" where
  "pow10 e = (if 0 \<le> e then 10 ^ nat e else inverse (10 ^ nat (- e)))"

section \<open>\<open>parseFloat\<close>\<close>

text \<open>An optional sign.\<close>

definition sign_prefix :: "string \<Rightarrow> int \<times> string" where
  "sign_prefix s =
     (case s of
        c # r \<Rightarrow> if c = CHR ''+'' then (1, r) else if c = CHR ''-'' then (-1, r) else (1, s)
      | [] \<Rightarrow> (1, []))"

text \<open>ExponentPart: \<open>e\<close> or \<open>E\<close>, a sign, at least one digit; absent (exponent 0)
  when the longest prefix has none.\<close>

definition exponent_part :: "string \<Rightarrow> int" where
  "exponent_part s =
     (case s of
        c # r \<Rightarrow>
          if c = CHR ''e'' \<or> c = CHR ''E'' then
            (let (sg, r') = sign_prefix r; ds = takeWhile is_digit r'
             in if ds = [] then 0 else sg * int (nat_of_digits ds))
          else 0
      | [] \<Rightarrow> 0)"

text \<open>StrUnsignedDecimalLiteral: \<open>Infinity\<close>, or digits with an optional fraction and
  exponent, at least one digit before or after the point.\<close>

definition parse_unsigned :: "string \<Rightarrow> js_number" where
  "parse_unsigned s =
     (if take 8 s = ''Infinity'' then Infinity
      else
        let ip = takeWhile is_digit s;
            r1 = dropWhile is_digit s;
            dot = (r1 \<noteq> [] \<and> hd r1 = CHR ''.'');
            fp = (if dot then takeWhile is_digit (tl r1) else []);
            r2 = (if dot then dropWhile is_digit (tl r1) else r1)
        in if ip = [] \<and> fp = [] then NaN
           else Num (of_nat (nat_of_digits (ip @ fp)) / 10 ^ length fp * pow10 (exponent_part r2)))"

definition parseFloat :: "string \<Rightarrow> js_number" where
  "parseFloat s =
     (let (sg, r) = sign_prefix (dropWhile is_js_space s)
      in if sg < 0 then js_negate (parse_unsigned r) else parse_unsigned r)"

section \<open>\<open>toFixed(2)\<close>\<close>

text \<open>
  \<open>x.toFixed(2)\<close> for a finite \<open>x\<close>: the sign, then \<open>n = round(|x| * 100)\<close> (ties
  upwards) with at least three digits and a point before the last two. For
  \<open>|x| \<ge> 10^21\<close> the source's result is \<open>ToString(x)\<close>, exponential notation, which is
  not modelled (\<open>None\<close>).
\<close>

definition cents_of :: "real \<Rightarrow> nat" where
  "cents_of x = nat \<lfloor>\<bar>x\<bar> * 100 + 1 / 2\<rfloor>"

definition fixed2_digits :: "nat \<Rightarrow> string" where
  "fixed2_digits n =
     (let m = replicate (3 - length (string_of_nat n)) CHR ''0'' @ string_of_nat n;
          k = length m
      in take (k - 2) m @ ''.'' @ drop (k - 2) m)"

definition toFixed2 :: "real \<Rightarrow> string option" where
  "toFixed2 x =
     (if 10 ^ 21 \<le> \<bar>x\<bar> then None
      else Some ((if x < 0 then ''-'' else '''') @ fixed2_digits (cents_of x)))"

text \<open>The value \<open>toFixed(2)\<close> denotes: \<open>x\<close> rounded to cents, half away from zero.\<close>

definition round_cents :: "real \<Rightarrow> real" where
  "round_cents x = sgn x * of_nat (cents_of x) / 100"

section \<open>Digit lemmas\<close>

lemma is_digit_digit_char [simp]: "d < 10 \<Longrightarrow> is_digit (digit_char d)"
  by (simp add: is_digit_def digit_char_def of_char_of)

lemma digit_val_digit_char [simp]: "d < 10 \<Longrightarrow> digit_val (digit_char d) = d"
  by (simp add: digit_val_def digit_char_def of_char_of)

lemma not_digit_dot [simp]: "\<not> is_digit CHR ''.''"
  by (simp add: is_digit_def)

lemma not_space_minus [simp]: "\<not> is_js_space CHR ''-''"
  by (simp add: is_js_space_def)

lemma digit_not_space: "is_digit c \<Longrightarrow> \<not> is_js_space c"
  by (auto simp: is_digit_def is_js_space_def)

lemma nat_of_digits_snoc [simp]:
  "nat_of_digits (ds @ [d]) = 10 * nat_of_digits ds + digit_val d"
  by (simp add: nat_of_digits_def)

lemma nat_of_digits_append:
  "nat_of_digits (ds @ es) = nat_of_digits ds * 10 ^ length es + nat_of_digits es"
proof (induction es rule: rev_induct)
  case (snoc e es)
  then show ?case by (simp add: append_assoc [symmetric] algebra_simps del: append_assoc)
qed (simp add: nat_of_digits_def)

lemma nat_of_digits_replicate_0: "nat_of_digits (replicate k CHR ''0'') = 0"
  by (induction k) (simp_all add: nat_of_digits_def digit_val_def)

lemma nat_of_digits_zeros [simp]:
  "nat_of_digits (replicate k CHR ''0'' @ ds) = nat_of_digits ds"
  by (simp add: nat_of_digits_append nat_of_digits_replicate_0)

lemma string_of_nat_digits: "c \<in> set (string_of_nat n) \<Longrightarrow> is_digit c"
proof (induction n rule: string_of_nat.induct)
  case (1 n)
  then show ?case by (subst (asm) string_of_nat.simps) (auto split: if_splits)
qed

lemma string_of_nat_not_Nil [simp]: "string_of_nat n \<noteq> []"
  by (subst string_of_nat.simps) simp

lemma nat_of_digits_string_of_nat [simp]: "nat_of_digits (string_of_nat n) = n"
proof (induction n rule: string_of_nat.induct)
  case (1 n)
  show ?case
  proof (cases "n < 10")
    case True
    then show ?thesis by (subst string_of_nat.simps) (simp add: nat_of_digits_def)
  next
    case False
    then show ?thesis using 1 by (subst string_of_nat.simps) simp
  qed
qed

lemma is_digit_zero [simp]: "is_digit CHR ''0''"
  by (simp add: is_digit_def)

section \<open>Printing then parsing\<close>

text \<open>The digits \<open>toFixed(2)\<close> prints: an integer part of at least one digit, the point,
  two fraction digits, together denoting the number of cents.\<close>

lemma fixed2_digits_split:
  obtains a b where "fixed2_digits n = a @ CHR ''.'' # b" and "a \<noteq> []"
    and "\<forall>c\<in>set a. is_digit c" and "\<forall>c\<in>set b. is_digit c" and "length b = 2"
    and "nat_of_digits (a @ b) = n"
proof -
  define m where "m = replicate (3 - length (string_of_nat n)) CHR ''0'' @ string_of_nat n"
  have len: "3 \<le> length m" by (simp add: m_def)
  have dig: "\<forall>c\<in>set m. is_digit c" by (auto simp: m_def string_of_nat_digits)
  have val: "nat_of_digits m = n" by (simp add: m_def)
  let ?a = "take (length m - 2) m" and ?b = "drop (length m - 2) m"
  have "fixed2_digits n = ?a @ CHR ''.'' # ?b" by (simp add: fixed2_digits_def m_def Let_def)
  moreover have "?a \<noteq> []" using len by (cases m) simp_all
  moreover have "\<forall>c\<in>set ?a. is_digit c" "\<forall>c\<in>set ?b. is_digit c"
    using dig by (auto dest: in_set_takeD in_set_dropD)
  moreover have "length ?b = 2" using len by simp
  moreover have "nat_of_digits (?a @ ?b) = n" using val by simp
  ultimately show ?thesis by (rule that)
qed

lemma take_Infinity_digit:
  assumes "s \<noteq> []" and "is_digit (hd s)"
  shows "take 8 s \<noteq> ''Infinity''"
proof
  assume "take 8 s = ''Infinity''"
  then have "hd (take 8 s) = CHR ''I''" by simp
  then have "hd s = CHR ''I''" using assms(1) by (cases s) simp_all
  then show False using assms(2) by (simp add: is_digit_def)
qed

lemma parse_unsigned_fixed:
  assumes "a \<noteq> []" and "\<forall>c\<in>set a. is_digit c" and "\<forall>c\<in>set b. is_digit c"
  shows "parse_unsigned (a @ CHR ''.'' # b) = Num (of_nat (nat_of_digits (a @ b)) / 10 ^ length b)"
proof -
  have ninf: "take 8 (a @ CHR ''.'' # b) \<noteq> ''Infinity''"
    using assms(1,2) by (intro take_Infinity_digit) (simp_all add: hd_append)
  have tw: "takeWhile is_digit (a @ CHR ''.'' # b) = a" and dw: "dropWhile is_digit (a @ CHR ''.'' # b) = CHR ''.'' # b"
    using assms(2) by (simp_all add: takeWhile_append2 dropWhile_append2)
  have tb: "takeWhile is_digit b = b" and db: "dropWhile is_digit b = []"
    using assms(3) by (simp_all add: takeWhile_eq_all_conv dropWhile_eq_Nil_conv)
  show ?thesis using ninf assms(1)
    by (simp add: parse_unsigned_def Let_def tw dw tb db exponent_part_def pow10_def)
qed

lemma parseFloat_digits_first:
  assumes "s \<noteq> []" and "is_digit (hd s)"
  shows "parseFloat s = parse_unsigned s"
proof -
  obtain c r where s: "s = c # r" using assms(1) by (cases s) auto
  have "is_digit c" using assms(2) s by simp
  then have "\<not> is_js_space c" "c \<noteq> CHR ''+''" "c \<noteq> CHR ''-''"
    by (auto simp: digit_not_space is_digit_def)
  then show ?thesis by (simp add: s parseFloat_def sign_prefix_def)
qed

lemma parseFloat_minus:
  "parseFloat (CHR ''-'' # s) = js_negate (parse_unsigned s)"
  by (simp add: parseFloat_def sign_prefix_def)

lemma parseFloat_fixed2_digits:
  "parseFloat (fixed2_digits n) = Num (of_nat n / 100)"
  "parseFloat (CHR ''-'' # fixed2_digits n) = Num (- (of_nat n / 100))"
proof -
  obtain a b where f: "fixed2_digits n = a @ CHR ''.'' # b" and a: "a \<noteq> []" "\<forall>c\<in>set a. is_digit c"
    and b: "\<forall>c\<in>set b. is_digit c" "length b = 2" and v: "nat_of_digits (a @ b) = n"
    by (rule fixed2_digits_split)
  have p: "parse_unsigned (fixed2_digits n) = Num (of_nat n / 100)"
    using parse_unsigned_fixed [OF a b(1)] f b(2) v by simp
  have "parseFloat (fixed2_digits n) = parse_unsigned (fixed2_digits n)"
    using a by (intro parseFloat_digits_first) (simp_all add: f hd_append)
  then show "parseFloat (fixed2_digits n) = Num (of_nat n / 100)" using p by simp
  show "parseFloat (CHR ''-'' # fixed2_digits n) = Num (- (of_nat n / 100))"
    using p by (simp add: parseFloat_minus)
qed

lemma cents_of_zero [simp]: "cents_of 0 = 0"
  by (simp add: cents_of_def)

lemma cents_of_cents [simp]: "cents_of (of_int c / 100) = nat \<bar>c\<bar>"
proof -
  have "\<bar>of_int c / 100 :: real\<bar> * 100 + 1 / 2 = of_int \<bar>c\<bar> + 1 / 2" by simp
  moreover have "\<lfloor>of_int \<bar>c\<bar> + 1 / 2 :: real\<rfloor> = \<bar>c\<bar>" by linarith
  ultimately show ?thesis by (simp add: cents_of_def)
qed

lemma round_cents_cents [simp]: "round_cents (of_int c / 100) = of_int c / 100"
  by (cases "0 \<le> c") (simp_all add: round_cents_def sgn_real_def)

lemma toFixed2_Some:
  "\<bar>x\<bar> < 10 ^ 21 \<Longrightarrow> toFixed2 x = Some ((if x < 0 then ''-'' else '''') @ fixed2_digits (cents_of x))"
  by (simp add: toFixed2_def)

lemma round_cents_sign:
  "round_cents x = (if x < 0 then - (of_nat (cents_of x) / 100) else of_nat (cents_of x) / 100)"
  by (cases "x = 0") (auto simp: round_cents_def sgn_real_def)

lemma cents_of_fixed: "cents_of (of_nat n / 100) = n"
  using cents_of_cents [of "int n"] by simp

text \<open>\<open>toFixed(2)\<close> and \<open>parseFloat\<close> round-trip. Every amount below \<open>10^21\<close>
  prints, and the printed string parses back to the amount rounded to cents (half away
  from zero). Conversely a canonical two-decimal string \<open>d.dd\<close>, parsed and printed
  again, is unchanged.\<close>

theorem toFixed2_parseFloat:
  assumes "\<bar>x\<bar> < 10 ^ 21"
  shows "(\<exists>str. toFixed2 x = Some str \<and> parseFloat str = Num (round_cents x))
       \<and> (of_nat n / 100 < (10 ^ 21 :: real) \<longrightarrow>
            parseFloat (fixed2_digits n) = Num (of_nat n / 100)
            \<and> toFixed2 (of_nat n / 100) = Some (fixed2_digits n))"
proof -
  have "parseFloat ((if x < 0 then ''-'' else '''') @ fixed2_digits (cents_of x)) = Num (round_cents x)"
    by (simp add: round_cents_sign parseFloat_fixed2_digits)
  moreover have "of_nat n / 100 < (10 ^ 21 :: real) \<Longrightarrow> toFixed2 (of_nat n / 100) = Some (fixed2_digits n)"
    by (simp add: toFixed2_Some cents_of_fixed)
  ultimately show ?thesis using assms by (simp add: toFixed2_Some parseFloat_fixed2_digits)
qed

text \<open>\<open>parseFloat\<close> of a string with no numeric prefix is NaN. After the skipped
  whitespace, the first character is not a digit, a sign, a point or the \<open>I\<close> of
  \<open>Infinity\<close>.\<close>

lemma parseFloat_no_numeric_prefix:
  assumes "dropWhile is_js_space s = c # r" and "\<not> is_digit c"
    and "c \<notin> {CHR ''+'', CHR ''-'', CHR ''.'', CHR ''I''}"
  shows "parseFloat s = NaN"
proof -
  have "take 8 (c # r) \<noteq> ''Infinity''" using assms(3) by auto
  then show ?thesis using assms
    by (simp add: parseFloat_def sign_prefix_def parse_unsigned_def Let_def)
qed

end
