(* ===== verification/Home_Screen.thy ===== *)
theory Home_Screen
  imports Sync_Engine Number_Format "HOL-Library.Multiset"
begin

text \<open>
  The home screen \<open>src/app/index.tsx\<close> and the row component
  \<open>src/components/TransactionItem.tsx\<close>: the income and expense totals (two
  filter/reduce pipelines), the balance, and the five most recent transactions.
  \<open>transactions.sort(...)\<close> sorts the array React holds as state in place: rendering the
  screen reorders the provider's state array. So the render is modelled as an operation on
  the provider state (\<open>HomeScreen\<close>), which writes the sorted array at the state's
  address in the heap, next to the view it produces.
\<close>

section \<open>Row views\<close>

datatype icon = Arrow_Up_Circle | Arrow_Down_Circle

datatype theme_colour = Colour_Primary | Colour_Error

text \<open>\<open>type === 'income' ? ... : ...\<close>, the two choices every row makes.\<close>

fun kind_icon :: "tx_kind \<Rightarrow> icon" where
  "kind_icon Income = Arrow_Up_Circle"
| "kind_icon Expense = Arrow_Down_Circle"

fun kind_colour :: "tx_kind \<Rightarrow> theme_colour" where
  "kind_colour Income = Colour_Primary"
| "kind_colour Expense = Colour_Error"

text \<open>\<open>$\<close> followed by \<open>amount.toFixed(2)\<close>.\<close>

definition amount_text :: "real \<Rightarrow> string option" where
  "amount_text x = map_option (\<lambda>t. ''$'' @ t) (toFixed2 x)"

text \<open>\<open>TransactionItem\<close>: icon and colour by type, the category, the date (its
  locale formatting \<open>toLocaleDateString\<close> is not modelled: the instant is kept) and
  the amount.\<close>

record transaction_item =
  ti_icon :: icon
  ti_icon_colour :: theme_colour
  ti_category :: string
  ti_date :: instant
  ti_amount :: "string option"
  ti_amount_colour :: theme_colour

definition TransactionItem :: "transaction \<Rightarrow> transaction_item" where
  "TransactionItem tx =
     \<lparr>ti_icon = kind_icon (tx_type tx), ti_icon_colour = kind_colour (tx_type tx),
      ti_category = tx_category tx, ti_date = tx_date tx, ti_amount = amount_text (tx_amount tx),
      ti_amount_colour = kind_colour (tx_type tx)\<rparr>"

section \<open>Totals\<close>

text \<open>\<open>.filter((t) => t.type === k).reduce((sum, t) => sum + t.amount, 0)\<close>.\<close>

definition total_of_kind :: "tx_kind \<Rightarrow> transaction list \<Rightarrow> real" where
  "total_of_kind k txs = foldl (\<lambda>sum t. sum + tx_amount t) 0 (filter (\<lambda>t. tx_type t = k) txs)"

definition totalIncome :: "transaction list \<Rightarrow> real" where
  "totalIncome txs = total_of_kind Income txs"

definition totalExpenses :: "transaction list \<Rightarrow> real" where
  "totalExpenses txs = total_of_kind Expense txs"

definition balance :: "transaction list \<Rightarrow> real" where
  "balance txs = totalIncome txs - totalExpenses txs"

text \<open>The balance as the spec describes it: income counts positive, expense negative.\<close>

fun signed_amount :: "transaction \<Rightarrow> real" where
  "signed_amount tx = (case tx_type tx of Income \<Rightarrow> tx_amount tx | Expense \<Rightarrow> - tx_amount tx)"

section \<open>Recent transactions\<close>

text \<open>
  \<open>sort((a, b) => new Date(b.date).getTime() - new Date(a.date).getTime())\<close>: newest
  first. \<open>Array.prototype.sort\<close> is stable, so equal dates keep their order; that is
  \<open>sort_key\<close> on the negated date.
\<close>

definition sort_by_date_desc :: "transaction list \<Rightarrow> transaction list" where
  "sort_by_date_desc txs = sort_key (\<lambda>t. - tx_date t) txs"

definition recentTransactions :: "transaction list \<Rightarrow> transaction list" where
  "recentTransactions txs = take 5 (sort_by_date_desc txs)"

section \<open>The screen\<close>

record home_view =
  hv_balance :: "string option"
  hv_income :: "string option"
  hv_expenses :: "string option"
  hv_recent :: "transaction_item list"

text \<open>
  One render of \<open>HomeScreen\<close>: the totals are computed from the state's array, then
  the array is sorted in place (the state now holds it sorted) and its first five become
  the recent list.
\<close>

definition HomeScreen :: "app \<Rightarrow> app \<times> home_view" where
  "HomeScreen s =
     (let txs = transactions s;
          inc = totalIncome txs;
          exp = totalExpenses txs;
          sorted = sort_by_date_desc txs;
          s' = s\<lparr>heap := (heap s)[cur s := sorted]\<rparr>
      in (s', \<lparr>hv_balance = amount_text (inc - exp), hv_income = amount_text inc,
               hv_expenses = amount_text exp, hv_recent = map TransactionItem (recentTransactions txs)\<rparr>))"

section \<open>Totals: lemmas\<close>

lemma foldl_plus_sum_list:
  "foldl (\<lambda>s t. s + f t) a xs = a + sum_list (map f xs)"
  by (induction xs arbitrary: a) (simp_all add: algebra_simps)

lemma total_of_kind_sum:
  "total_of_kind k txs = sum_list (map tx_amount (filter (\<lambda>t. tx_type t = k) txs))"
  by (simp add: total_of_kind_def foldl_plus_sum_list)

lemma sum_list_mset:
  assumes "mset xs = mset ys" shows "sum_list xs = sum_list (ys :: real list)"
proof -
  have "sum_mset (mset xs) = sum_mset (mset ys)" using assms by (simp only:)
  then show ?thesis by (simp only: sum_mset_sum_list)
qed

lemma total_of_kind_mset:
  assumes "mset xs = mset ys" shows "total_of_kind k xs = total_of_kind k ys"
proof -
  have "mset (map tx_amount (filter (\<lambda>t. tx_type t = k) xs)) = mset (map tx_amount (filter (\<lambda>t. tx_type t = k) ys))"
    by (simp only: mset_map mset_filter assms)
  then show ?thesis unfolding total_of_kind_sum by (rule sum_list_mset)
qed

lemma balance_mset:
  assumes "mset xs = mset ys" shows "balance xs = balance ys"
  unfolding balance_def totalIncome_def totalExpenses_def using total_of_kind_mset [OF assms] by simp

section \<open>Sorting: lemmas\<close>

lemma mset_sort_by_date_desc [simp]: "mset (sort_by_date_desc txs) = mset txs"
  by (simp add: sort_by_date_desc_def)

lemma length_sort_by_date_desc [simp]: "length (sort_by_date_desc txs) = length txs"
  by (simp add: sort_by_date_desc_def)

lemma sorted_sort_by_date_desc: "sorted (map (\<lambda>t. - tx_date t) (sort_by_date_desc txs))"
  by (simp add: sort_by_date_desc_def)

lemma filter_sort_by_date_desc:
  "filter P (sort_by_date_desc txs) = sort_by_date_desc (filter P txs)"
  by (simp add: sort_by_date_desc_def filter_sort)

lemma ids_unique_mset:
  assumes "mset xs = mset ys" shows "ids_unique xs = ids_unique ys"
proof -
  have "mset (map tx_id xs) = mset (map tx_id ys)" using assms by simp
  then show ?thesis unfolding ids_unique_def by (rule mset_eq_imp_distinct_iff)
qed

lemma mset_take_drop:
  "mset (take n xs) + mset (drop n xs) = mset xs"
proof -
  have "mset (take n xs @ drop n xs) = mset xs" by simp
  then show ?thesis by (simp only: mset_append)
qed

lemma sorted_append_le:
  "sorted (map f (xs @ ys)) \<Longrightarrow> x \<in> set xs \<Longrightarrow> y \<in> set ys \<Longrightarrow> f x \<le> f y"
  by (auto simp: sorted_append)

section \<open>The screen: lemmas\<close>

lemma HomeScreen_fields [simp]:
  "heap (fst (HomeScreen s)) = (heap s)[cur s := sort_by_date_desc (transactions s)]"
  "cur (fst (HomeScreen s)) = cur s" "store (fst (HomeScreen s)) = store s"
  "remote (fst (HomeScreen s)) = remote s" "listener (fst (HomeScreen s)) = listener s"
  "trace (fst (HomeScreen s)) = trace s" "isSyncing (fst (HomeScreen s)) = isSyncing s"
  "connected (fst (HomeScreen s)) = connected s"
  by (simp_all add: HomeScreen_def Let_def)

lemma transactions_HomeScreen:
  "cur s < length (heap s) \<Longrightarrow> transactions (fst (HomeScreen s)) = sort_by_date_desc (transactions s)"
  by (simp add: transactions_def)

text \<open>C13: rendering the home screen reorders the provider's state in place. Afterwards
  the state's array holds the same transactions (as a multiset), newest first. The state
  stays well formed and the balance is unchanged. The stored array is left in the old
  order. The bulk sync's next upload pass takes the unsynced transactions newest first.\<close>

theorem home_render_sorts_state:
  assumes "wf_app s"
  shows "mset (transactions (fst (HomeScreen s))) = mset (transactions s)
       \<and> sorted (map (\<lambda>t. - tx_date t) (transactions (fst (HomeScreen s))))
       \<and> wf_app (fst (HomeScreen s))
       \<and> balance (transactions (fst (HomeScreen s))) = balance (transactions s)
       \<and> store (fst (HomeScreen s)) = store s
       \<and> getUnsyncedTransactions (transactions (fst (HomeScreen s)))
           = sort_by_date_desc (getUnsyncedTransactions (transactions s))"
proof -
  have c: "cur s < length (heap s)" using assms by (simp add: wf_app_def)
  let ?s' = "fst (HomeScreen s)"
  have t: "transactions ?s' = sort_by_date_desc (transactions s)"
    using c by (rule transactions_HomeScreen)
  have m: "mset (transactions ?s') = mset (transactions s)" by (simp add: t)
  have "wf_app ?s'"
    using assms c ids_unique_mset [OF m] by (simp add: wf_app_def valid_closure_def)
  then show ?thesis
    using m balance_mset [OF m]
    by (simp add: t sorted_sort_by_date_desc getUnsyncedTransactions_def filter_sort_by_date_desc)
qed

text \<open>the recent list holds the five newest transactions: \<open>min 5 n\<close> of them, newest
  first, taken from the state, and no transaction left out is newer than one shown.\<close>

theorem recent_is_latest:
  "length (recentTransactions txs) = min 5 (length txs)
   \<and> sorted (map (\<lambda>t. - tx_date t) (recentTransactions txs))
   \<and> mset (recentTransactions txs) \<subseteq># mset txs
   \<and> (\<forall>t\<in>set (recentTransactions txs). \<forall>u\<in>#mset txs - mset (recentTransactions txs). tx_date u \<le> tx_date t)"
proof -
  let ?ys = "sort_by_date_desc txs"
  have srt: "sorted (map (\<lambda>t. - tx_date t) (take 5 ?ys @ drop 5 ?ys))"
    using sorted_sort_by_date_desc [of txs] by simp
  have e: "mset (take 5 ?ys) + mset (drop 5 ?ys) = mset txs"
    using mset_take_drop [of 5 ?ys] by simp
  have rest: "mset txs - mset (take 5 ?ys) = mset (drop 5 ?ys)"
    by (simp add: e [symmetric])
  have "\<forall>t\<in>set (take 5 ?ys). \<forall>u\<in>set (drop 5 ?ys). tx_date u \<le> tx_date t"
    using sorted_append_le [OF srt] by fastforce
  moreover have "mset (take 5 ?ys) \<subseteq># mset txs"
    by (simp add: e [symmetric])
  moreover have "sorted (map (\<lambda>t. - tx_date t) (take 5 ?ys))"
    using srt by (simp only: map_append sorted_append)
  ultimately show ?thesis using rest
    by (simp add: recentTransactions_def min.commute)
qed

text \<open>the balance card shows the sum of the signed amounts, income positive and
  expenses negative.\<close>

theorem balance_signed_sum:
  "balance txs = sum_list (map signed_amount txs)"
proof (induction txs)
  case (Cons t txs)
  then show ?case
    by (cases "tx_type t") (simp_all add: balance_def totalIncome_def totalExpenses_def total_of_kind_sum)
qed (simp add: balance_def totalIncome_def totalExpenses_def total_of_kind_def)

end
