(* ===== verification/Charts_Screen.thy ===== *)
theory Charts_Screen
  imports Home_Screen "HOL-Library.Stream"
begin

text \<open>
  The analytics screen \<open>src/app/charts.tsx\<close>. \<open>expensesByCategory\<close> folds the expenses
  into a plain object keyed by category, which is modelled as an association list in key
  insertion order (\<open>AList.update\<close> keeps a key's position and appends a new key last). That
  is the order \<open>Object.entries\<close>, \<open>Object.keys\<close> and \<open>Object.values\<close> enumerate,
  provided no category is an array index such as \<open>"12"\<close> (those come first, in numeric
  order) or the name of a property \<open>{}\<close> inherits (\<open>acc["constructor"]\<close> is a function).
  The pie slices, the bar chart's parallel arrays and the \<open>switch\<close> of \<open>renderChart\<close> are
  built from it. The line chart plots six \<open>Math.random()\<close> values drawn by every render,
  whichever chart is shown; the draws are an input stream, as in \<open>Sample_Data\<close>.
\<close>

section \<open>Expenses by category\<close>

text \<open>\<open>acc[t.category] = (acc[t.category] || 0) + t.amount\<close>.\<close>

definition add_expense :: "(string \<times> real) list \<Rightarrow> transaction \<Rightarrow> (string \<times> real) list" where
  "add_expense acc t =
     AList.update (tx_category t)
       ((case map_of acc (tx_category t) of None \<Rightarrow> 0 | Some a \<Rightarrow> a) + tx_amount t) acc"

definition expensesByCategory :: "transaction list \<Rightarrow> (string \<times> real) list" where
  "expensesByCategory txs = foldl add_expense [] (filter (\<lambda>t. tx_type t = Expense) txs)"

text \<open>What the chart promises for each category: the sum of the amounts of its expenses.\<close>

definition category_total :: "transaction list \<Rightarrow> string \<Rightarrow> real" where
  "category_total txs k =
     sum_list (map tx_amount (filter (\<lambda>t. tx_type t = Expense \<and> tx_category t = k) txs))"

section \<open>Charts\<close>

record chart_data =
  cd_name :: string
  cd_amount :: real
  cd_color :: string
  cd_legendFontColor :: string
  cd_legendFontSize :: nat

text \<open>\<open>hsl(${index * 37}, 70%, 50%)\<close>.\<close>

definition slice_color :: "nat \<Rightarrow> string" where
  "slice_color i = ''hsl('' @ string_of_nat (i * 37) @ '', 70%, 50%)''"

definition pieChartData :: "(string \<times> real) list \<Rightarrow> chart_data list" where
  "pieChartData ebc =
     map (\<lambda>((category, amount), index).
            \<lparr>cd_name = category, cd_amount = amount, cd_color = slice_color index,
             cd_legendFontColor = ''#7F7F7F'', cd_legendFontSize = 12\<rparr>)
       (zip ebc [0..<length ebc])"

text \<open>\<open>labels: Object.keys(...)\<close> and \<open>datasets[0].data: Object.values(...)\<close>.\<close>

definition barChartData :: "(string \<times> real) list \<Rightarrow> string list \<times> real list" where
  "barChartData ebc = (map fst ebc, map snd ebc)"

text \<open>The hue a CSS engine draws for \<open>hsl(h, ...)\<close>: angles are taken modulo 360.\<close>

definition css_hue :: "nat \<Rightarrow> nat" where
  "css_hue h = h mod 360"

datatype chart_type = Chart_Pie | Chart_Bar | Chart_Line

record line_chart_data =
  lc_labels :: "string list"
  lc_data :: "real list"

text \<open>\<open>lineChartData\<close>: six calls \<open>Math.random() * 100\<close>, in array order.\<close>

definition lineChartData :: "real stream \<Rightarrow> line_chart_data \<times> real stream" where
  "lineChartData rs =
     (\<lparr>lc_labels = [''Jan'', ''Feb'', ''Mar'', ''Apr'', ''May'', ''Jun''],
       lc_data = map (\<lambda>r. r * 100) (stake 6 rs)\<rparr>, sdrop 6 rs)"

datatype chart = PieChart "chart_data list" | BarChart "string list" "real list" | LineChart line_chart_data

definition renderChart :: "chart_type \<Rightarrow> chart_data list \<Rightarrow> string list \<times> real list \<Rightarrow> line_chart_data \<Rightarrow> chart" where
  "renderChart ct pie bar line =
     (case ct of
        Chart_Pie \<Rightarrow> PieChart pie
      | Chart_Bar \<Rightarrow> BarChart (fst bar) (snd bar)
      | Chart_Line \<Rightarrow> LineChart line)"

text \<open>One render of \<open>ChartsScreen\<close> with the selected \<open>chartType\<close>: the three data sets
  are computed in the component body, then \<open>renderChart()\<close> picks one. The stream left
  over is what the next render draws from.\<close>

definition ChartsScreen :: "chart_type \<Rightarrow> transaction list \<Rightarrow> real stream \<Rightarrow> chart \<times> real stream" where
  "ChartsScreen ct txs rs =
     (let ebc = expensesByCategory txs;
          (line, rs') = lineChartData rs
      in (renderChart ct (pieChartData ebc) (barChartData ebc) line, rs'))"

section \<open>Lemmas on the fold\<close>

lemma map_of_add_expense:
  "map_of (add_expense acc t) =
     (map_of acc)(tx_category t \<mapsto> (case map_of acc (tx_category t) of None \<Rightarrow> 0 | Some a \<Rightarrow> a) + tx_amount t)"
  by (simp add: add_expense_def update_conv')

lemma keys_add_expense:
  "map fst (add_expense acc t) = (if tx_category t \<in> set (map fst acc) then map fst acc else map fst acc @ [tx_category t])"
  by (induction acc) (auto simp: add_expense_def)

lemma foldl_add_expense_map_of:
  "map_of (foldl add_expense acc ts) k =
     (if k \<in> set (map fst acc) \<or> k \<in> tx_category ` set ts
      then Some ((case map_of acc k of None \<Rightarrow> 0 | Some a \<Rightarrow> a)
                 + sum_list (map tx_amount (filter (\<lambda>t. tx_category t = k) ts)))
      else None)"
proof (induction ts arbitrary: acc)
  case Nil
  then show ?case by (auto simp: map_of_eq_None_iff dest: weak_map_of_SomeI split: option.split)
next
  case (Cons t ts)
  have keys: "set (map fst (add_expense acc t)) = insert (tx_category t) (set (map fst acc))"
    by (simp only: keys_add_expense) auto
  note ih = Cons [of "add_expense acc t", unfolded keys]
  show ?case
  proof (cases "k = tx_category t")
    case True
    then show ?thesis using ih by (simp add: map_of_add_expense)
  next
    case False
    then show ?thesis using ih by (simp add: map_of_add_expense)
  qed
qed

lemma remdups_snoc:
  "remdups (ys @ [x]) = filter (\<lambda>y. y \<noteq> x) (remdups ys) @ [x]"
  by (induction ys) auto

lemma rev_remdups_rev_Cons:
  "rev (remdups (rev (x # xs))) = x # filter (\<lambda>y. y \<noteq> x) (rev (remdups (rev xs)))"
  by (simp add: remdups_snoc rev_filter)

text \<open>The keys in order of first occurrence, which is the order they were inserted.\<close>

lemma foldl_add_expense_keys:
  "map fst (foldl add_expense acc ts) =
     map fst acc @ filter (\<lambda>k. k \<notin> set (map fst acc)) (rev (remdups (rev (map tx_category ts))))"
proof (induction ts arbitrary: acc)
  case (Cons t ts)
  show ?case
    by (simp only: foldl_Cons Cons list.map rev_remdups_rev_Cons keys_add_expense)
       (auto simp: filter_filter intro!: filter_cong)
qed simp

lemma sum_update:
  "sum_list (map snd (AList.update k v acc)) =
     sum_list (map snd acc) - (case map_of acc k of None \<Rightarrow> 0 | Some a \<Rightarrow> a) + (v :: real)"
  by (induction acc) (auto split: option.split simp: algebra_simps)

lemma foldl_add_expense_sum:
  "sum_list (map snd (foldl add_expense acc ts)) = sum_list (map snd acc) + sum_list (map tx_amount ts)"
  by (induction ts arbitrary: acc) (simp_all add: add_expense_def sum_update)

lemma distinct_keys_foldl_add_expense:
  "distinct (map fst acc) \<Longrightarrow> distinct (map fst (foldl add_expense acc ts))"
  by (simp add: foldl_add_expense_keys) blast

lemma expense_filter_category:
  "filter (\<lambda>t. tx_category t = k) (filter (\<lambda>t. tx_type t = Expense) txs)
   = filter (\<lambda>t. tx_type t = Expense \<and> tx_category t = k) txs"
  by (simp add: filter_filter conj_commute)

text \<open>C25: \<open>expensesByCategory\<close> implements the per-category totals. It has one entry
  per category that has an expense, in order of first occurrence, and each entry holds
  the sum of that category's expense amounts. Income is never counted.\<close>

theorem expenses_by_category_refines:
  "distinct (map fst (expensesByCategory txs))
   \<and> map fst (expensesByCategory txs) = rev (remdups (rev (map tx_category (filter (\<lambda>t. tx_type t = Expense) txs))))
   \<and> map_of (expensesByCategory txs) k =
       (if k \<in> tx_category ` set (filter (\<lambda>t. tx_type t = Expense) txs)
        then Some (category_total txs k) else None)"
  by (simp add: expensesByCategory_def foldl_add_expense_keys foldl_add_expense_map_of
      category_total_def expense_filter_category)

text \<open>the chart and the home screen agree: the category totals add up to the
  expenses total of the home screen's Expenses card.\<close>

theorem chart_total_is_expenses:
  "sum_list (map snd (expensesByCategory txs)) = totalExpenses txs"
  by (simp add: expensesByCategory_def foldl_add_expense_sum totalExpenses_def total_of_kind_sum)

lemma mod_360_37_inj:
  assumes "i < 360" and "j < 360" and "(i * 37) mod 360 = (j * 37) mod (360 :: nat)"
  shows "i = j"
proof -
  have inv: "\<And>n::nat. n < 360 \<Longrightarrow> ((n * 37) mod 360 * 253) mod 360 = n"
  proof -
    fix n :: nat assume "n < 360"
    have e: "n * 37 * 253 = n + 360 * (26 * n)" by simp
    have "((n * 37) mod 360 * 253) mod 360 = (n * 37 * 253) mod 360" by (simp only: mod_mult_left_eq)
    also have "\<dots> = (n + 360 * (26 * n)) mod 360" by (simp only: e)
    also have "\<dots> = n mod 360" by (rule mod_mult_self2)
    also have "\<dots> = n" using \<open>n < 360\<close> by simp
    finally show "((n * 37) mod 360 * 253) mod 360 = n" .
  qed
  have "i = ((i * 37) mod 360 * 253) mod 360" using inv [OF assms(1)] by (rule sym)
  also have "\<dots> = ((j * 37) mod 360 * 253) mod 360" by (simp only: assms(3))
  also have "\<dots> = j" by (rule inv [OF assms(2)])
  finally show ?thesis .
qed

lemma nth_pieChartData:
  "i < length ebc \<Longrightarrow> cd_color (pieChartData ebc ! i) = slice_color i
     \<and> cd_name (pieChartData ebc ! i) = fst (ebc ! i) \<and> cd_amount (pieChartData ebc ! i) = snd (ebc ! i)"
  by (simp add: pieChartData_def case_prod_beta)

text \<open>slice \<open>i\<close> of the pie is coloured \<open>hsl(i * 37, ...)\<close>. Since 37 and 360 are
  coprime, the first 360 slices get pairwise different hues, and slice \<open>i + 360\<close> repeats
  slice \<open>i\<close>.\<close>

theorem pie_hues_distinct:
  assumes "i < length ebc" and "j < length ebc" and "i < 360" and "j < 360" and "i \<noteq> j"
  shows "cd_color (pieChartData ebc ! i) = slice_color i
       \<and> css_hue (i * 37) \<noteq> css_hue (j * 37)
       \<and> css_hue ((i + 360) * 37) = css_hue (i * 37)"
proof -
  have "css_hue (i * 37) \<noteq> css_hue (j * 37)"
    using mod_360_37_inj [OF assms(3,4)] assms(5) by (auto simp: css_hue_def)
  moreover have "css_hue ((i + 360) * 37) = css_hue (i * 37)"
  proof -
    have "(i + 360) * 37 = i * 37 + 360 * 37" by (simp only: add_mult_distrib)
    then show ?thesis unfolding css_hue_def by (simp only: mod_mult_self2)
  qed
  ultimately show ?thesis using nth_pieChartData [OF assms(1)] by simp
qed

text \<open>the bar chart's two arrays are parallel. The labels and the values have the
  same length, pair up to the category totals, and the labels are distinct. The pie
  slices carry the same names and amounts in the same order.\<close>

theorem bar_chart_parallel:
  "length (fst (barChartData (expensesByCategory txs))) = length (snd (barChartData (expensesByCategory txs)))
   \<and> zip (fst (barChartData (expensesByCategory txs))) (snd (barChartData (expensesByCategory txs))) = expensesByCategory txs
   \<and> distinct (fst (barChartData (expensesByCategory txs)))
   \<and> map cd_name (pieChartData (expensesByCategory txs)) = fst (barChartData (expensesByCategory txs))
   \<and> map cd_amount (pieChartData (expensesByCategory txs)) = snd (barChartData (expensesByCategory txs))"
proof -
  let ?e = "expensesByCategory txs"
  have d: "distinct (map fst ?e)"
    unfolding expensesByCategory_def by (rule distinct_keys_foldl_add_expense) simp
  have l: "length (pieChartData ?e) = length ?e" by (simp add: pieChartData_def)
  have n: "map cd_name (pieChartData ?e) = map fst ?e"
    by (rule nth_equalityI) (simp_all add: l nth_pieChartData)
  have a: "map cd_amount (pieChartData ?e) = map snd ?e"
    by (rule nth_equalityI) (simp_all add: l nth_pieChartData)
  show ?thesis using d n a by (simp only: barChartData_def fst_conv snd_conv zip_map_fst_snd length_map)
qed


lemma set_stake_sset: "x \<in> set (stake n s) \<Longrightarrow> x \<in> sset s"
  by (metis UnI1 sset_shift stake_sdrop)

text \<open>C35: every render of the charts screen draws six new random numbers, whichever chart
  is selected. The line chart shows those numbers times 100, values in \<open>[0, 100)\<close> for draws
  in \<open>[0, 1)\<close>, under the month labels. They do not depend on the transactions. The pie
  chart shows the expenses by category.\<close>

theorem charts_render_draws:
  "snd (ChartsScreen ct txs rs) = sdrop 6 rs
   \<and> fst (ChartsScreen Chart_Line txs rs) = fst (ChartsScreen Chart_Line txs' rs)
   \<and> fst (ChartsScreen Chart_Pie txs rs) = PieChart (pieChartData (expensesByCategory txs))
   \<and> (sset rs \<subseteq> {0..<1} \<longrightarrow>
        (\<exists>ds. fst (ChartsScreen Chart_Line txs rs)
                = LineChart \<lparr>lc_labels = [''Jan'', ''Feb'', ''Mar'', ''Apr'', ''May'', ''Jun''], lc_data = ds\<rparr>
              \<and> length ds = 6 \<and> (\<forall>d\<in>set ds. 0 \<le> d \<and> d < 100)))"
proof -
  have "sset rs \<subseteq> {0..<1} \<Longrightarrow> d \<in> set (map (\<lambda>r. r * 100) (stake 6 rs)) \<Longrightarrow> 0 \<le> d \<and> d < 100" for d
    by (auto dest!: set_stake_sset)
  then show ?thesis by (auto simp: ChartsScreen_def lineChartData_def renderChart_def Let_def)
qed

end
