(* ===== verification/History_Screen.thy ===== *)
theory History_Screen
  imports Home_Screen "HOL-Library.Sublist"
begin

text \<open>
  The history screen \<open>src/app/history.tsx\<close> and its row \<open>src/components/HistoryItem.tsx\<close>.
  The list is the transactions whose category or notes contain the search query, ignoring
  case, restricted by the type chip, newest first. \<open>filter\<close> builds a new array, so
  here the in-place \<open>sort\<close> does not touch the provider's state (unlike the home screen).
  \<open>toLowerCase\<close> is modelled on ASCII letters, since characters are bytes in the model;
  \<open>String.prototype.includes\<close> is \<open>sublist\<close> (a contiguous occurrence).
\<close>

datatype type_filter = Filter_All | Filter_Income | Filter_Expense

text \<open>The transaction type a chip selects, \<open>None\<close> for \<open>'all'\<close>.\<close>

fun filter_kind :: "type_filter \<Rightarrow> tx_kind option" where
  "filter_kind Filter_All = None"
| "filter_kind Filter_Income = Some Income"
| "filter_kind Filter_Expense = Some Expense"

definition lower_char :: "char \<Rightarrow> char" where
  "lower_char c = (if (65::nat) \<le> of_char c \<and> of_char c \<le> (90::nat) then char_of (of_char c + (32::nat)) else c)"

definition toLowerCase :: "string \<Rightarrow> string" where
  "toLowerCase s = map lower_char s"

definition js_includes :: "string \<Rightarrow> string \<Rightarrow> bool" where
  "js_includes haystack needle = sublist needle haystack"

definition matchesSearch :: "string \<Rightarrow> transaction \<Rightarrow> bool" where
  "matchesSearch q t =
     (js_includes (toLowerCase (tx_category t)) (toLowerCase q) \<or> js_includes (toLowerCase (tx_notes t)) (toLowerCase q))"

definition matchesType :: "type_filter \<Rightarrow> transaction \<Rightarrow> bool" where
  "matchesType sel t = (filter_kind sel = None \<or> filter_kind sel = Some (tx_type t))"

definition filteredTransactions :: "string \<Rightarrow> type_filter \<Rightarrow> transaction list \<Rightarrow> transaction list" where
  "filteredTransactions q sel txs = filter (\<lambda>t. matchesSearch q t \<and> matchesType sel t) txs"

datatype sync_badge = Badge_Synced | Badge_Pending

record history_item =
  hi_title :: string
  hi_description :: string
  hi_icon :: icon
  hi_colour :: theme_colour
  hi_amount :: "string option"
  hi_date :: instant
  hi_badge :: sync_badge

definition HistoryItem :: "transaction \<Rightarrow> history_item" where
  "HistoryItem t =
     \<lparr>hi_title = tx_category t, hi_description = tx_notes t, hi_icon = kind_icon (tx_type t),
      hi_colour = kind_colour (tx_type t), hi_amount = amount_text (tx_amount t), hi_date = tx_date t,
      hi_badge = (if tx_synced t then Badge_Synced else Badge_Pending)\<rparr>"

text \<open>The rows the \<open>FlatList\<close> shows.\<close>

definition history_rows :: "string \<Rightarrow> type_filter \<Rightarrow> transaction list \<Rightarrow> history_item list" where
  "history_rows q sel txs = map HistoryItem (sort_by_date_desc (filteredTransactions q sel txs))"

section \<open>The screen's state and view\<close>

text \<open>\<open>useState('')\<close> for the search query and \<open>useState('all')\<close> for the chip.\<close>

record history_screen =
  searchQuery :: string
  selectedType :: type_filter

definition history_init :: history_screen where
  "history_init = \<lparr>searchQuery = [], selectedType = Filter_All\<rparr>"

text \<open>The screen's inputs: the search bar's \<open>onChangeText={setSearchQuery}\<close> and the three
  chips' \<open>onPress\<close>.\<close>

datatype history_input = Search_Text string | Chip_Press type_filter

fun history_event :: "history_input \<Rightarrow> history_screen \<Rightarrow> history_screen" where
  "history_event (Search_Text q) h = h\<lparr>searchQuery := q\<rparr>"
| "history_event (Chip_Press sel) h = h\<lparr>selectedType := sel\<rparr>"

text \<open>\<open>renderItem\<close>: the row inside an \<open>Animated.View\<close> that fades in after
  \<open>index * 100\<close> ms for 500 ms; \<open>keyExtractor\<close>: the row's React key.\<close>

record animated_row =
  ar_delay :: nat
  ar_duration :: nat
  ar_item :: history_item

definition renderItem :: "transaction \<Rightarrow> nat \<Rightarrow> animated_row" where
  "renderItem item index = \<lparr>ar_delay = index * 100, ar_duration = 500, ar_item = HistoryItem item\<rparr>"

definition keyExtractor :: "transaction \<Rightarrow> txid" where
  "keyExtractor item = tx_id item"

text \<open>The \<open>FlatList\<close>: each item of \<open>data\<close> with its index, keyed.\<close>

definition flat_list :: "transaction list \<Rightarrow> (txid \<times> animated_row) list" where
  "flat_list data = map (\<lambda>(index, item). (keyExtractor item, renderItem item index)) (enumerate 0 data)"

record history_view =
  hv_search :: string
  hv_chips :: "(string \<times> bool) list"
  hv_list :: "(txid \<times> animated_row) list"

text \<open>\<open>TransactionHistoryScreen\<close> rendered with the provider's current state.\<close>

definition TransactionHistoryScreen :: "history_screen \<Rightarrow> app \<Rightarrow> history_view" where
  "TransactionHistoryScreen h s =
     (let data = sort_by_date_desc (filteredTransactions (searchQuery h) (selectedType h) (transactions s))
      in \<lparr>hv_search = searchQuery h,
          hv_chips = [(''All'', selectedType h = Filter_All), (''Income'', selectedType h = Filter_Income),
                      (''Expense'', selectedType h = Filter_Expense)],
          hv_list = flat_list data\<rparr>)"

section \<open>Lemmas\<close>

lemma matchesSearch_empty [simp]: "matchesSearch [] t"
  by (simp add: matchesSearch_def js_includes_def toLowerCase_def)

lemma matchesSearch_narrow:
  "sublist (toLowerCase q) (toLowerCase q') \<Longrightarrow> matchesSearch q' t \<Longrightarrow> matchesSearch q t"
  unfolding matchesSearch_def js_includes_def by (meson sublist_order.order_trans)

lemma filter_subseq_weaker:
  "(\<And>x. P x \<Longrightarrow> Q x) \<Longrightarrow> subseq (filter P xs) (filter Q xs)"
proof -
  assume "\<And>x. P x \<Longrightarrow> Q x"
  then have "filter P xs = filter P (filter Q xs)" by (auto simp: filter_filter intro: filter_cong)
  then show ?thesis by (metis subseq_filter_left)
qed

lemma mset_filter_kinds:
  "mset (filter (\<lambda>t. P t \<and> tx_type t = Income) xs) + mset (filter (\<lambda>t. P t \<and> tx_type t = Expense) xs)
   = mset (filter P xs)"
proof (induction xs)
  case (Cons a xs)
  then show ?case by (cases "tx_type a") auto
qed simp

lemma matchesType_simps [simp]:
  "matchesType Filter_All t" "matchesType Filter_Income t \<longleftrightarrow> tx_type t = Income"
  "matchesType Filter_Expense t \<longleftrightarrow> tx_type t = Expense"
  by (auto simp: matchesType_def)

text \<open>the history list is a filtered view of the state, newest first. Initially
  (empty query, chip "All") it shows every transaction. Typing more of a query only
  removes rows and keeps the order of the rest. The "Income" and "Expense" chips split
  the "All" list between them.\<close>

theorem history_filter:
  "sort_by_date_desc (filteredTransactions [] Filter_All txs) = sort_by_date_desc txs
   \<and> sorted (map (\<lambda>t. - tx_date t) (sort_by_date_desc (filteredTransactions q sel txs)))
   \<and> (sublist (toLowerCase q) (toLowerCase q') \<longrightarrow>
        subseq (filteredTransactions q' sel txs) (filteredTransactions q sel txs))
   \<and> mset (filteredTransactions q Filter_Income txs) + mset (filteredTransactions q Filter_Expense txs)
       = mset (filteredTransactions q Filter_All txs)"
proof -
  have "sublist (toLowerCase q) (toLowerCase q') \<Longrightarrow>
        subseq (filteredTransactions q' sel txs) (filteredTransactions q sel txs)"
    unfolding filteredTransactions_def by (rule filter_subseq_weaker) (auto intro: matchesSearch_narrow)
  moreover have "mset (filteredTransactions q Filter_Income txs) + mset (filteredTransactions q Filter_Expense txs)
       = mset (filteredTransactions q Filter_All txs)"
    using mset_filter_kinds [of "matchesSearch q" txs]
    by (simp add: filteredTransactions_def)
  ultimately show ?thesis
    by (simp add: filteredTransactions_def sorted_sort_by_date_desc)
qed

lemma map_snd_enumerate_app: "map (\<lambda>p. f (snd p)) (enumerate n xs) = map f xs"
  by (induction xs arbitrary: n) simp_all

lemma map_fst_enumerate_app: "map (\<lambda>p. g (fst p)) (enumerate n xs) = map g [n..<n + length xs]"
  by (induction xs arbitrary: n) (simp_all add: upt_rec)

lemma flat_list_keys: "map fst (flat_list data) = map tx_id data"
  by (simp add: flat_list_def keyExtractor_def split_def comp_def map_snd_enumerate_app)

lemma flat_list_items: "map (\<lambda>r. ar_item (snd r)) (flat_list data) = map HistoryItem data"
  by (simp add: flat_list_def renderItem_def split_def comp_def map_snd_enumerate_app)

lemma flat_list_delays: "map (\<lambda>r. ar_delay (snd r)) (flat_list data) = map (\<lambda>i. i * 100) [0..<length data]"
proof -
  have "map (\<lambda>p. (\<lambda>i. i * 100) (fst p)) (enumerate 0 data) = map (\<lambda>i. i * 100) [0..<0 + length data]"
    by (rule map_fst_enumerate_app)
  then show ?thesis by (simp add: flat_list_def renderItem_def split_def comp_def)
qed

lemma length_flat_list [simp]: "length (flat_list data) = length data"
  by (simp add: flat_list_def)

lemma distinct_ids_sorted_filter:
  "ids_unique txs \<Longrightarrow> distinct (map tx_id (sort_by_date_desc (filter P txs)))"
proof -
  assume "ids_unique txs"
  then have "distinct (map tx_id (filter P txs))" by (simp add: ids_unique_def distinct_map_filter)
  moreover have "mset (map tx_id (sort_by_date_desc (filter P txs))) = mset (map tx_id (filter P txs))"
    by simp
  ultimately show ?thesis using mset_eq_imp_distinct_iff by metis
qed

text \<open>C30: the history list is well keyed and staggered. In any well-formed provider state,
  whatever has been typed and pressed, the \<open>FlatList\<close>'s keys are distinct, so React
  keeps each row's identity; row \<open>i\<close> fades in after \<open>100 i\<close> ms; the rows are the
  filtered, newest-first transactions; and exactly one chip is shown selected.\<close>

theorem history_screen_view:
  assumes "wf_app s"
  shows "distinct (map fst (hv_list (TransactionHistoryScreen h s)))
         \<and> map (\<lambda>r. ar_delay (snd r)) (hv_list (TransactionHistoryScreen h s))
             = map (\<lambda>i. i * 100) [0..<length (hv_list (TransactionHistoryScreen h s))]
         \<and> map (\<lambda>r. ar_item (snd r)) (hv_list (TransactionHistoryScreen h s))
             = history_rows (searchQuery h) (selectedType h) (transactions s)
         \<and> length (filter snd (hv_chips (TransactionHistoryScreen h s))) = 1"
proof -
  have "ids_unique (transactions s)" using assms by (simp add: wf_app_def)
  then have "distinct (map tx_id (sort_by_date_desc (filteredTransactions (searchQuery h) (selectedType h) (transactions s))))"
    unfolding filteredTransactions_def by (rule distinct_ids_sorted_filter)
  moreover have "length (filter snd (hv_chips (TransactionHistoryScreen h s))) = 1"
    by (cases "selectedType h") (simp_all add: TransactionHistoryScreen_def)
  ultimately show ?thesis
    by (simp add: TransactionHistoryScreen_def Let_def flat_list_keys flat_list_items flat_list_delays history_rows_def)
qed

end
