(* ===== verification/Sample_Data.thy ===== *)
theory Sample_Data
  imports Home_Screen "HOL-Library.Stream"
begin

text \<open>
  The sample data \<open>src/data/sampleTransactions.ts\<close>: \<open>generateRandomTransaction\<close>
  draws a type (60\% income), a category, an amount printed with \<open>toFixed(2)\<close> and read
  back with \<open>parseFloat\<close>, and a date up to 90 days before \<open>Date.now()\<close>; the
  module's IIFE builds 100 of them with \<open>Array.from\<close> and draws again, in a do-while
  loop, until their income exceeds their expenses.

  \<open>Math.random()\<close> and \<open>Date.now()\<close> are inputs: the environment holds the stream of
  values each will return, and each call takes the head and leaves the tail. Arithmetic
  on the draws is exact (no floating-point rounding). The loop has no termination
  argument, since a stream of draws may make every batch fail the test, so it is a
  \<open>partial_function (option)\<close>, \<open>None\<close> when it runs forever.
\<close>

section \<open>The random source and the clock\<close>

record sample_env =
  rnd :: "real stream"
  clock :: "instant stream"

text \<open>\<open>Math.random()\<close>: its contract is a value in \<open>[0, 1)\<close>; theorems assume it of the stream.\<close>

definition math_random :: "sample_env \<Rightarrow> real \<times> sample_env" where
  "math_random e = (shd (rnd e), e\<lparr>rnd := stl (rnd e)\<rparr>)"

definition date_now :: "sample_env \<Rightarrow> instant \<times> sample_env" where
  "date_now e = (shd (clock e), e\<lparr>clock := stl (clock e)\<rparr>)"

section \<open>One transaction\<close>

definition categories :: "string list" where
  "categories = [''Food'', ''Transportation'', ''Housing'', ''Utilities'', ''Entertainment'',
     ''Healthcare'', ''Education'', ''Shopping'', ''Personal Care'', ''Gifts'', ''Investments'',
     ''Salary'', ''Freelance'', ''Dividends'', ''Rental Income'']"

text \<open>
  \<open>parseFloat(x.toFixed(2))\<close>. At \<open>10^21\<close> and above \<open>toFixed\<close> returns
  \<open>String(x)\<close>, which \<open>parseFloat\<close> reads back as \<open>x\<close>. The printed digits always
  parse to a finite number (lemma \<open>parse_toFixed2_round\<close>), so the last branch is never taken.
\<close>

definition parse_toFixed2 :: "real \<Rightarrow> real" where
  "parse_toFixed2 x =
     (case toFixed2 x of
        Some str \<Rightarrow> (case parseFloat str of Num r \<Rightarrow> r | _ \<Rightarrow> x)
      | None \<Rightarrow> x)"

definition getRandomAmount :: "tx_kind \<Rightarrow> sample_env \<Rightarrow> real \<times> sample_env" where
  "getRandomAmount type e =
     (let (r, e1) = math_random e
      in (if type = Income then parse_toFixed2 (r * 2000 + 500) else parse_toFixed2 (r * 1000), e1))"

text \<open>
  The draws in source order: the type, the category index
  \<open>Math.floor(Math.random() * categories.length)\<close> (in range for a draw in \<open>[0, 1)\<close>),
  the amount, then \<open>Date.now()\<close> and the offset
  \<open>Math.floor(Math.random() * 90 * 24 * 60 * 60 * 1000)\<close> milliseconds. \<open>toISOString\<close>
  keeps the instant.
\<close>

definition generateRandomTransaction :: "nat \<Rightarrow> sample_env \<Rightarrow> transaction \<times> sample_env" where
  "generateRandomTransaction i e =
     (let (r1, e1) = math_random e;
          type = (if r1 < 0.6 then Income else Expense);
          (r2, e2) = math_random e1;
          category = categories ! nat \<lfloor>r2 * real (length categories)\<rfloor>;
          (amount, e3) = getRandomAmount type e2;
          (t, e4) = date_now e3;
          (r4, e5) = math_random e4;
          date = t - \<lfloor>r4 * 90 * 24 * 60 * 60 * 1000\<rfloor>;
          notes = ''Sample '' @ kind_name type @ '' for '' @ category
      in (\<lparr>tx_id = string_of_nat i, tx_amount = amount, tx_category = category, tx_type = type,
           tx_date = date, tx_notes = notes, tx_synced = False\<rparr>, e5))"

section \<open>The batch and the regeneration loop\<close>

text \<open>\<open>Array.from({ length: n }, (_, i) => generateRandomTransaction(i + 1))\<close>, from
  index \<open>i\<close> on: the callback runs in index order.\<close>

primrec array_from :: "nat \<Rightarrow> nat \<Rightarrow> sample_env \<Rightarrow> transaction list \<times> sample_env" where
  "array_from i 0 e = ([], e)"
| "array_from i (Suc n) e =
     (let (tx, e1) = generateRandomTransaction (i + 1) e;
          (txs, e2) = array_from (Suc i) n e1
      in (tx # txs, e2))"

text \<open>The do-while loop: draw 100, total them with the filter/reduce pipelines, and
  draw again while \<open>totalIncome <= totalExpenses\<close>.\<close>

partial_function (option) sample_loop :: "sample_env \<Rightarrow> transaction list option" where
  "sample_loop e =
     (case array_from 0 100 e of
        (txs, e1) \<Rightarrow>
          if total_of_kind Income txs \<le> total_of_kind Expense txs then sample_loop e1 else Some txs)"

definition sampleTransactions :: "sample_env \<Rightarrow> transaction list option" where
  "sampleTransactions e = sample_loop e"

text \<open>The environment after \<open>k\<close> failed batches, and the test the loop exits on.\<close>

definition after_batches :: "nat \<Rightarrow> sample_env \<Rightarrow> sample_env" where
  "after_batches k e = ((\<lambda>e. snd (array_from 0 100 e)) ^^ k) e"

definition income_exceeds :: "transaction list \<Rightarrow> bool" where
  "income_exceeds txs \<longleftrightarrow> total_of_kind Expense txs < total_of_kind Income txs"

text \<open>The batch the loop tests after \<open>k\<close> failed ones.\<close>

definition sample_batch :: "nat \<Rightarrow> sample_env \<Rightarrow> transaction list" where
  "sample_batch k e = fst (array_from 0 100 (after_batches k e))"

text \<open>What every generated transaction looks like: unsynced, a listed category, the
  notes naming type and category, and a whole number of cents in the type's range.\<close>

definition sample_shape :: "transaction \<Rightarrow> bool" where
  "sample_shape tx \<longleftrightarrow> \<not> tx_synced tx \<and> tx_category tx \<in> set categories
     \<and> tx_notes tx = ''Sample '' @ kind_name (tx_type tx) @ '' for '' @ tx_category tx
     \<and> (\<exists>c. tx_amount tx = of_nat c / 100)
     \<and> (case tx_type tx of
          Income \<Rightarrow> 500 \<le> tx_amount tx \<and> tx_amount tx \<le> 2500
        | Expense \<Rightarrow> 0 \<le> tx_amount tx \<and> tx_amount tx \<le> 1000)"

section \<open>Lemmas: draws and amounts\<close>

lemma sset_sdrop: "x \<in> sset (sdrop n s) \<Longrightarrow> x \<in> sset s"
  by (induction n arbitrary: s) (auto dest: stl_sset)

lemma parse_toFixed2_round: "\<bar>x\<bar> < 10 ^ 21 \<Longrightarrow> parse_toFixed2 x = round_cents x"
  by (simp add: parse_toFixed2_def toFixed2_Some round_cents_sign parseFloat_fixed2_digits)

lemma round_cents_between:
  fixes x :: real
  assumes "0 \<le> x" and "of_int m \<le> x * 100" and "x * 100 < of_int M"
  shows "of_int m / 100 \<le> round_cents x \<and> round_cents x \<le> of_int M / 100
         \<and> round_cents x = of_nat (cents_of x) / 100"
proof -
  have lo: "m \<le> \<lfloor>x * 100 + 1 / 2\<rfloor>" and hi: "\<lfloor>x * 100 + 1 / 2\<rfloor> \<le> M"
    using assms by linarith+
  have nn: "0 \<le> \<lfloor>x * 100 + 1 / 2\<rfloor>" using assms(1) by simp
  have c: "real (cents_of x) = of_int \<lfloor>x * 100 + 1 / 2\<rfloor>"
    using assms(1) nn by (simp add: cents_of_def)
  have r: "round_cents x = of_nat (cents_of x) / 100"
    using assms(1) by (simp add: round_cents_sign)
  have "real_of_int m \<le> of_int \<lfloor>x * 100 + 1 / 2\<rfloor>" "real_of_int \<lfloor>x * 100 + 1 / 2\<rfloor> \<le> of_int M"
    using lo hi by simp_all
  then show ?thesis using r c by (simp add: divide_right_mono)
qed

lemma random_amount_range:
  fixes r :: real
  assumes "0 \<le> r" and "r < 1"
  shows "500 \<le> parse_toFixed2 (r * 2000 + 500) \<and> parse_toFixed2 (r * 2000 + 500) \<le> 2500
           \<and> (\<exists>c. parse_toFixed2 (r * 2000 + 500) = of_nat c / 100)"
    and "0 \<le> parse_toFixed2 (r * 1000) \<and> parse_toFixed2 (r * 1000) \<le> 1000
           \<and> (\<exists>c. parse_toFixed2 (r * 1000) = of_nat c / 100)"
proof -
  have "\<bar>r * 2000 + 500\<bar> < 10 ^ 21" "\<bar>r * 1000\<bar> < 10 ^ 21" using assms by simp_all
  moreover have "of_int 50000 / 100 \<le> round_cents (r * 2000 + 500) \<and> round_cents (r * 2000 + 500) \<le> of_int 250000 / 100
      \<and> round_cents (r * 2000 + 500) = of_nat (cents_of (r * 2000 + 500)) / 100"
    using assms by (intro round_cents_between) simp_all
  moreover have "of_int 0 / 100 \<le> round_cents (r * 1000) \<and> round_cents (r * 1000) \<le> of_int 100000 / 100
      \<and> round_cents (r * 1000) = of_nat (cents_of (r * 1000)) / 100"
    using assms by (intro round_cents_between) simp_all
  ultimately show "500 \<le> parse_toFixed2 (r * 2000 + 500) \<and> parse_toFixed2 (r * 2000 + 500) \<le> 2500
           \<and> (\<exists>c. parse_toFixed2 (r * 2000 + 500) = of_nat c / 100)"
    and "0 \<le> parse_toFixed2 (r * 1000) \<and> parse_toFixed2 (r * 1000) \<le> 1000
           \<and> (\<exists>c. parse_toFixed2 (r * 1000) = of_nat c / 100)"
    by (auto simp: parse_toFixed2_round)
qed

lemma category_index:
  fixes r :: real
  assumes "0 \<le> r" and "r < 1"
  shows "categories ! nat \<lfloor>r * real (length categories)\<rfloor> \<in> set categories"
proof -
  have len: "length categories = 15" by (simp add: categories_def)
  have "\<lfloor>r * 15\<rfloor> < 15" using assms by linarith
  then have "nat \<lfloor>r * real (length categories)\<rfloor> < length categories" unfolding len by linarith
  then show ?thesis by (rule nth_mem)
qed

section \<open>Lemmas: one transaction and a batch\<close>

lemma string_of_nat_inj: "string_of_nat a = string_of_nat b \<longleftrightarrow> a = b"
  by (metis nat_of_digits_string_of_nat)

lemma generate_id [simp]: "tx_id (fst (generateRandomTransaction i e)) = string_of_nat i"
  by (simp add: generateRandomTransaction_def Let_def split_def)

lemma generate_streams [simp]:
  "rnd (snd (generateRandomTransaction i e)) = sdrop 4 (rnd e)"
  "clock (snd (generateRandomTransaction i e)) = stl (clock e)"
  by (simp_all add: generateRandomTransaction_def getRandomAmount_def math_random_def date_now_def
      Let_def split_def eval_nat_numeral)

lemma generate_shape:
  assumes "sset (rnd e) \<subseteq> {0..<1}"
  shows "sample_shape (fst (generateRandomTransaction i e))
         \<and> shd (clock e) - 90 * 24 * 60 * 60 * 1000 < tx_date (fst (generateRandomTransaction i e))
         \<and> tx_date (fst (generateRandomTransaction i e)) \<le> shd (clock e)"
proof -
  obtain r1 r2 r3 r4 rs where rs: "rnd e = r1 ## r2 ## r3 ## r4 ## rs"
    by (metis stream.collapse)
  have r: "0 \<le> r2" "r2 < 1" "0 \<le> r3" "r3 < 1" "0 \<le> r4" "r4 < 1"
    using assms unfolding rs by auto
  have d: "0 \<le> \<lfloor>r4 * 7776000000\<rfloor>" "\<lfloor>r4 * 7776000000\<rfloor> < 7776000000"
    using r(5,6) by linarith+
  have c: "categories ! nat \<lfloor>r2 * real (length categories)\<rfloor> \<in> set categories"
    using r(1,2) by (rule category_index)
  have a: "500 \<le> parse_toFixed2 (r3 * 2000 + 500) \<and> parse_toFixed2 (r3 * 2000 + 500) \<le> 2500
           \<and> (\<exists>c. parse_toFixed2 (r3 * 2000 + 500) = of_nat c / 100)"
          "0 \<le> parse_toFixed2 (r3 * 1000) \<and> parse_toFixed2 (r3 * 1000) \<le> 1000
           \<and> (\<exists>c. parse_toFixed2 (r3 * 1000) = of_nat c / 100)"
    using r(3,4) by (rule random_amount_range)+
  show ?thesis
    using c a d
    by (simp add: generateRandomTransaction_def getRandomAmount_def math_random_def date_now_def
        rs Let_def split_def sample_shape_def)
qed

lemma array_from_ids:
  "map tx_id (fst (array_from i n e)) = map (\<lambda>j. string_of_nat (Suc j)) [i..<i + n]"
  by (induction n arbitrary: i e) (simp_all add: Let_def split_def upt_conv_Cons del: upt_Suc)

lemma array_from_length [simp]: "length (fst (array_from i n e)) = n"
  using arg_cong [OF array_from_ids, of length] by simp

lemma array_from_streams:
  "rnd (snd (array_from i n e)) = sdrop (4 * n) (rnd e)
   \<and> clock (snd (array_from i n e)) = sdrop n (clock e)"
  by (induction n arbitrary: i e) (simp_all add: Let_def split_def)

lemma array_from_shape:
  "sset (rnd e) \<subseteq> {0..<1} \<Longrightarrow> tx \<in> set (fst (array_from i n e)) \<Longrightarrow>
   sample_shape tx \<and> (\<exists>t\<in>sset (clock e). t - 90 * 24 * 60 * 60 * 1000 < tx_date tx \<and> tx_date tx \<le> t)"
proof (induction n arbitrary: i e)
  case (Suc n)
  let ?g = "generateRandomTransaction (i + 1) e"
  have tl: "sset (rnd (snd ?g)) \<subseteq> {0..<1}" using Suc.prems(1) by (auto dest: sset_sdrop)
  have "tx = fst ?g \<or> tx \<in> set (fst (array_from (Suc i) n (snd ?g)))"
    using Suc.prems(2) by (simp add: Let_def split_def)
  then show ?case
  proof
    assume "tx = fst ?g"
    then show ?thesis using generate_shape [OF Suc.prems(1), of "i + 1"] shd_sset [of "clock e"] by auto
  next
    assume "tx \<in> set (fst (array_from (Suc i) n (snd ?g)))"
    then have "sample_shape tx \<and> (\<exists>t\<in>sset (stl (clock e)). t - 90 * 24 * 60 * 60 * 1000 < tx_date tx \<and> tx_date tx \<le> t)"
      using Suc.IH [OF tl] by simp
    then show ?thesis by (auto dest: stl_sset)
  qed
qed simp

lemma after_batches_streams:
  "rnd (after_batches k e) = sdrop (400 * k) (rnd e) \<and> clock (after_batches k e) = sdrop (100 * k) (clock e)"
  by (induction k) (simp_all add: after_batches_def array_from_streams add.commute)

lemma after_batches_Suc: "after_batches (Suc k) e = after_batches k (snd (array_from 0 100 e))"
  by (simp only: after_batches_def funpow_Suc_right comp_def)

lemma ids_unique_batch: "ids_unique (fst (array_from i n e))"
proof -
  have "inj_on (\<lambda>j. string_of_nat (Suc j)) (set [i..<i + n])" by (simp add: inj_on_def string_of_nat_inj)
  then show ?thesis by (simp add: ids_unique_def array_from_ids distinct_map)
qed

lemma generate_type:
  "tx_type (fst (generateRandomTransaction i e)) = (if shd (rnd e) < 0.6 then Income else Expense)"
  by (simp add: generateRandomTransaction_def getRandomAmount_def math_random_def date_now_def Let_def split_def)

lemma array_from_income_only:
  "sset (rnd e) \<subseteq> {0..<0.6} \<Longrightarrow> tx \<in> set (fst (array_from i n e)) \<Longrightarrow> tx_type tx = Income"
proof (induction n arbitrary: i e)
  case (Suc n)
  let ?g = "generateRandomTransaction (i + 1) e"
  have tl: "sset (rnd (snd ?g)) \<subseteq> {0..<0.6}" using Suc.prems(1) by (auto dest: sset_sdrop)
  have "shd (rnd e) < 0.6" using Suc.prems(1) shd_sset [of "rnd e"] by auto
  then show ?case using Suc.prems(2) Suc.IH [OF tl] by (auto simp: Let_def split_def generate_type)
qed simp

lemma sum_list_pos:
  "(\<And>x. x \<in> set xs \<Longrightarrow> (0::real) < f x) \<Longrightarrow> xs \<noteq> [] \<Longrightarrow> 0 < sum_list (map f xs)"
proof (induction xs)
  case (Cons a xs)
  have "0 \<le> sum_list (map f xs)" using Cons.prems(1) by (intro sum_list_nonneg) (fastforce intro: less_imp_le)
  then show ?case using Cons.prems(1) [of a] by simp
qed simp

text \<open>Draws below 0.6 make every transaction of a batch income, so the batch passes the test.\<close>

lemma income_exceeds_low_draws:
  assumes "sset (rnd e) \<subseteq> {0..<0.6}" and "0 < n"
  shows "income_exceeds (fst (array_from i n e))"
proof -
  let ?txs = "fst (array_from i n e)"
  have r: "sset (rnd e) \<subseteq> {0..<1}" using assms(1) by auto
  have inc: "tx_type tx = Income" if "tx \<in> set ?txs" for tx
    using assms(1) that by (rule array_from_income_only)
  have a500: "500 \<le> tx_amount tx" if "tx \<in> set ?txs" for tx
    using array_from_shape [OF r that] inc [OF that] by (simp add: sample_shape_def)
  have ne: "?txs \<noteq> []" using assms(2) by (metis array_from_length length_greater_0_conv)
  have "0 < sum_list (map tx_amount ?txs)"
  proof (rule sum_list_pos)
    fix tx assume "tx \<in> set ?txs"
    then show "0 < tx_amount tx" using a500 [of tx] by simp
  next
    show "?txs \<noteq> []" by (rule ne)
  qed
  moreover have "filter (\<lambda>t. tx_type t = Expense) ?txs = []" "filter (\<lambda>t. tx_type t = Income) ?txs = ?txs"
    using inc by (auto simp: filter_empty_conv)
  ultimately show ?thesis by (simp add: income_exceeds_def total_of_kind_sum)
qed

section \<open>Lemmas: the loop\<close>

lemma sample_loop_unfold:
  "sample_loop e =
     (if income_exceeds (fst (array_from 0 100 e)) then Some (fst (array_from 0 100 e))
      else sample_loop (snd (array_from 0 100 e)))"
  by (subst sample_loop.simps) (simp add: income_exceeds_def split_def not_le)

lemma sample_batch_0: "sample_batch 0 e = fst (array_from 0 100 e)"
  by (simp add: sample_batch_def after_batches_def)

lemma sample_batch_Suc: "sample_batch (Suc k) e = sample_batch k (snd (array_from 0 100 e))"
  by (simp add: sample_batch_def after_batches_Suc)

lemma sample_loop_first:
  "(\<forall>j<k. \<not> income_exceeds (sample_batch j e)) \<Longrightarrow> income_exceeds (sample_batch k e) \<Longrightarrow>
   sample_loop e = Some (sample_batch k e)"
proof (induction k arbitrary: e)
  case 0
  then show ?case by (subst sample_loop_unfold) (simp add: sample_batch_0)
next
  case (Suc k)
  have "\<not> income_exceeds (fst (array_from 0 100 e))" using Suc.prems(1) by (auto simp: sample_batch_0)
  then have "sample_loop e = sample_loop (snd (array_from 0 100 e))" by (subst sample_loop_unfold) simp
  also have "\<dots> = Some (sample_batch k (snd (array_from 0 100 e)))"
    using Suc.prems by (intro Suc.IH) (auto simp: sample_batch_Suc)
  finally show ?case by (simp add: sample_batch_Suc)
qed

lemma sample_loop_Some:
  assumes ret: "sample_loop e = Some txs"
  shows "\<exists>k. txs = sample_batch k e \<and> income_exceeds txs \<and> (\<forall>j<k. \<not> income_exceeds (sample_batch j e))"
proof (rule sample_loop.raw_induct
    [where P = "\<lambda>e txs. \<exists>k. txs = sample_batch k e \<and> income_exceeds txs \<and> (\<forall>j<k. \<not> income_exceeds (sample_batch j e))",
     OF _ ret])
  fix f e txs
  assume IH: "\<And>e txs. f e = Some txs \<Longrightarrow>
      \<exists>k. txs = sample_batch k e \<and> income_exceeds txs \<and> (\<forall>j<k. \<not> income_exceeds (sample_batch j e))"
    and eq: "(case array_from 0 100 e of (txs, e1) \<Rightarrow>
      if total_of_kind Income txs \<le> total_of_kind Expense txs then f e1 else Some txs) = Some txs"
  show "\<exists>k. txs = sample_batch k e \<and> income_exceeds txs \<and> (\<forall>j<k. \<not> income_exceeds (sample_batch j e))"
  proof (cases "income_exceeds (fst (array_from 0 100 e))")
    case True
    with eq have "txs = sample_batch 0 e" by (simp add: sample_batch_0 split_def income_exceeds_def not_le)
    with True show ?thesis by (intro exI [of _ 0]) (simp add: sample_batch_0)
  next
    case False
    with eq have "f (snd (array_from 0 100 e)) = Some txs" by (simp add: split_def income_exceeds_def not_le)
    then obtain k where k: "txs = sample_batch k (snd (array_from 0 100 e))" "income_exceeds txs"
        "\<forall>j<k. \<not> income_exceeds (sample_batch j (snd (array_from 0 100 e)))"
      by (blast dest: IH)
    have "\<forall>j<Suc k. \<not> income_exceeds (sample_batch j e)"
    proof (intro allI impI)
      fix j assume "j < Suc k"
      then show "\<not> income_exceeds (sample_batch j e)" using False k(3)
        by (cases j) (simp_all add: sample_batch_0 sample_batch_Suc)
    qed
    with k show ?thesis by (intro exI [of _ "Suc k"]) (simp add: sample_batch_Suc)
  qed
qed

lemma sampleTransactions_Some_iff:
  "sampleTransactions e = Some txs \<longleftrightarrow>
      (\<exists>k. txs = sample_batch k e \<and> income_exceeds txs \<and> (\<forall>j<k. \<not> income_exceeds (sample_batch j e)))"
proof
  assume "sampleTransactions e = Some txs"
  then show "\<exists>k. txs = sample_batch k e \<and> income_exceeds txs \<and> (\<forall>j<k. \<not> income_exceeds (sample_batch j e))"
    unfolding sampleTransactions_def by (rule sample_loop_Some)
next
  assume "\<exists>k. txs = sample_batch k e \<and> income_exceeds txs \<and> (\<forall>j<k. \<not> income_exceeds (sample_batch j e))"
  then obtain k where k: "txs = sample_batch k e" "income_exceeds txs" "\<forall>j<k. \<not> income_exceeds (sample_batch j e)"
    by blast
  have "sample_loop e = Some (sample_batch k e)" using k by (intro sample_loop_first) simp_all
  then show "sampleTransactions e = Some txs" using k(1) by (simp add: sampleTransactions_def)
qed

lemma total_of_kind_unsynced:
  "total_of_kind k (map (\<lambda>tx. tx\<lparr>tx_synced := False\<rparr>) txs) = total_of_kind k txs"
  by (simp add: total_of_kind_sum filter_map comp_def)

lemma loadTransactions_seeds:
  "ls_transactions (store s) = None \<Longrightarrow>
   transactions (loadTransactions samples s) = map (\<lambda>tx. tx\<lparr>tx_synced := False\<rparr>) samples"
  by (simp add: loadTransactions_def Let_def split: sum.split)

text \<open>every batch the sample generator draws, for draws of \<open>Math.random()\<close> in
  \<open>[0, 1)\<close>: the ids are \<open>'1'\<close> to \<open>'100'\<close> in order, hence unique; every transaction
  is unsynced, has a category of the list, notes naming its type and category, an amount in
  whole cents between 500 and 2500 for income and 0 and 1000 for an expense, and a date in
  the 90 days up to the clock reading it was made at.\<close>

theorem sample_batch_shape:
  assumes "sset (rnd e) \<subseteq> {0..<1}"
  shows "map tx_id (sample_batch k e) = map (\<lambda>j. string_of_nat (Suc j)) [0..<100]
         \<and> ids_unique (sample_batch k e)
         \<and> (\<forall>tx\<in>set (sample_batch k e). sample_shape tx
              \<and> (\<exists>t\<in>sset (clock e). t - 90 * 24 * 60 * 60 * 1000 < tx_date tx \<and> tx_date tx \<le> t))"
proof -
  have r: "sset (rnd (after_batches k e)) \<subseteq> {0..<1}"
    using assms by (auto simp: after_batches_streams dest: sset_sdrop)
  have c: "sset (clock (after_batches k e)) \<subseteq> sset (clock e)"
    by (auto simp: after_batches_streams dest: sset_sdrop)
  show ?thesis
    using array_from_shape [OF r] c
    by (fastforce simp: sample_batch_def array_from_ids ids_unique_batch)
qed

text \<open>C33: the regeneration loop returns exactly when some batch has income above its
  expenses, and then returns the first such batch; when no batch does it runs forever.\<close>

theorem sample_loop_terminates:
  "(sampleTransactions e = Some txs \<longleftrightarrow>
      (\<exists>k. txs = sample_batch k e \<and> income_exceeds txs \<and> (\<forall>j<k. \<not> income_exceeds (sample_batch j e))))
   \<and> (sampleTransactions e = None \<longleftrightarrow> (\<forall>k. \<not> income_exceeds (sample_batch k e)))"
proof (intro conjI)
  show "sampleTransactions e = Some txs \<longleftrightarrow>
      (\<exists>k. txs = sample_batch k e \<and> income_exceeds txs \<and> (\<forall>j<k. \<not> income_exceeds (sample_batch j e)))"
    by (rule sampleTransactions_Some_iff)
  show "sampleTransactions e = None \<longleftrightarrow> (\<forall>k. \<not> income_exceeds (sample_batch k e))"
  proof
    assume none: "sampleTransactions e = None"
    show "\<forall>k. \<not> income_exceeds (sample_batch k e)"
    proof (rule ccontr)
      assume "\<not> (\<forall>k. \<not> income_exceeds (sample_batch k e))"
      then have "\<exists>k. income_exceeds (sample_batch k e)" by simp
      then obtain k where "income_exceeds (sample_batch k e)" "\<forall>j<k. \<not> income_exceeds (sample_batch j e)"
        unfolding exists_least_iff [of "\<lambda>k. income_exceeds (sample_batch k e)"] by blast
      then have "sampleTransactions e = Some (sample_batch k e)"
        by (simp add: sampleTransactions_def sample_loop_first)
      with none show False by simp
    qed
  next
    assume never: "\<forall>k. \<not> income_exceeds (sample_batch k e)"
    show "sampleTransactions e = None"
    proof (cases "sampleTransactions e")
      case (Some ys)
      then obtain k where "income_exceeds (sample_batch k e)"
        using sampleTransactions_Some_iff [of e ys] by blast
      with never show ?thesis by simp
    qed
  qed
qed

text \<open>seeding the provider from the sample data: with nothing stored, the state
  becomes the 100 generated transactions, unsynced, with unique ids and a positive balance
  for the home screen.\<close>

theorem samples_seed_state:
  assumes "sset (rnd e) \<subseteq> {0..<1}" and "sampleTransactions e = Some samples"
    and "ls_transactions (store s) = None"
  shows "length (transactions (loadTransactions samples s)) = 100
         \<and> ids_unique (transactions (loadTransactions samples s))
         \<and> getUnsyncedTransactions (transactions (loadTransactions samples s)) = transactions (loadTransactions samples s)
         \<and> 0 < balance (transactions (loadTransactions samples s))"
proof -
  obtain k where k: "samples = sample_batch k e" "income_exceeds samples"
    using assms(2) sample_loop_Some unfolding sampleTransactions_def by blast
  have ids: "ids_unique samples" using k(1) by (simp add: sample_batch_def ids_unique_batch)
  have "ids_unique (map (\<lambda>tx. tx\<lparr>tx_synced := False\<rparr>) samples)"
    using ids by (simp add: ids_unique_def comp_def)
  moreover have "0 < balance (map (\<lambda>tx. tx\<lparr>tx_synced := False\<rparr>) samples)"
    using k(2) by (simp add: balance_def totalIncome_def totalExpenses_def total_of_kind_unsynced income_exceeds_def)
  moreover have "length samples = 100" using k(1) by (simp add: sample_batch_def)
  ultimately show ?thesis
    using assms(3) by (simp add: loadTransactions_seeds getUnsyncedTransactions_def)
qed

end
