(* ===== verification/Add_Form.thy ===== *)
theory Add_Form
  imports Sync_Engine Number_Format Sample_Data
begin

text \<open>
  The add screen \<open>src/app/add.tsx\<close>: a \<open>react-hook-form\<close> form with four fields, the
  \<open>required\<close> rules on amount and category, \<open>handleSubmit\<close> (validate, then call
  \<open>onSubmit\<close> only if no rule fails), \<open>onSubmit\<close> (build the new transaction with
  \<open>parseFloat(data.amount)\<close> and the clock, call the provider's \<open>addTransaction\<close>,
  reset the form), and the effect that resets the form when the route becomes
  \<open>/add\<close>. The screen's state is the form and \<open>menuVisible\<close>. The input handlers are
  events: the type buttons, the amount and notes text, and the category menu, which offers
  \<open>transactionCategories\<close> from the sample data and is the only way to set the category.
  \<open>add_reach\<close> is the set of screen states the handlers, submissions and route changes
  reach. The navigation \<open>router.replace('/')\<close> is not modelled.

  A JavaScript number may be NaN or infinite; the model's \<open>transaction\<close> holds a real
  amount. So \<open>onSubmit\<close>'s outcome for an amount that does not parse to a finite
  number is the separate value \<open>Add_NonFinite\<close>. The source adds that transaction too,
  with \<open>NaN\<close> or \<open>Infinity\<close> as its amount; what follows from that is outside the model.
\<close>

record form_values =
  fv_amount :: string
  fv_category :: string
  fv_notes :: string
  fv_type :: tx_kind

text \<open>\<open>defaultValues\<close>: empty strings and type \<open>expense\<close>.\<close>

definition defaultValues :: form_values where
  "defaultValues = \<lparr>fv_amount = '''', fv_category = '''', fv_notes = '''', fv_type = Expense\<rparr>"

datatype form_field = Field_Amount | Field_Category

text \<open>The \<open>required\<close> rules: an empty string fails, in field order.\<close>

definition form_errors :: "form_values \<Rightarrow> form_field list" where
  "form_errors f =
     (if fv_amount f = [] then [Field_Amount] else []) @ (if fv_category f = [] then [Field_Category] else [])"

datatype submit_outcome =
    Invalid "form_field list"
  | Ignored
  | Add new_transaction
  | Add_NonFinite js_number

text \<open>
  \<open>onSubmit\<close>: \<open>if (data.amount && data.category)\<close> (non-empty strings are truthy),
  then \<open>{ amount: parseFloat(data.amount), category, type, date: new Date(), notes }\<close>.
\<close>

definition onSubmit :: "form_values \<Rightarrow> instant \<Rightarrow> submit_outcome" where
  "onSubmit f t =
     (if fv_amount f \<noteq> [] \<and> fv_category f \<noteq> [] then
        (case parseFloat (fv_amount f) of
           Num r \<Rightarrow> Add \<lparr>nt_amount = r, nt_category = fv_category f, nt_type = fv_type f,
                        nt_date = t, nt_notes = fv_notes f\<rparr>
         | v \<Rightarrow> Add_NonFinite v)
      else Ignored)"

definition handleSubmit :: "form_values \<Rightarrow> instant \<Rightarrow> submit_outcome" where
  "handleSubmit f t = (case form_errors f of [] \<Rightarrow> onSubmit f t | es \<Rightarrow> Invalid es)"

text \<open>
  Pressing "Add Transaction" with the provider's render \<open>c\<close> and the fresh id \<open>uid\<close>: a
  valid, finite submission runs \<open>addTransaction\<close> and resets the form; an invalid one
  leaves state and form as they are. \<open>None\<close> is the non-finite case, outside the model.
\<close>

definition submit_add :: "closure \<Rightarrow> txid \<Rightarrow> form_values \<Rightarrow> app \<Rightarrow> (app \<times> form_values) option" where
  "submit_add c uid f s =
     (case handleSubmit f (now s) of
        Add nt \<Rightarrow> Some (addTransaction c nt uid s, defaultValues)
      | Add_NonFinite _ \<Rightarrow> None
      | _ \<Rightarrow> Some (s, f))"

text \<open>\<open>useEffect(() => { if (pathname === '/add') reset(); }, [pathname, reset])\<close>.\<close>

definition form_on_route :: "string \<Rightarrow> form_values \<Rightarrow> form_values" where
  "form_on_route pathname f = (if pathname = ''/add'' then defaultValues else f)"

section \<open>The screen's inputs\<close>

text \<open>\<open>transactionCategories\<close>, exported by the sample data.\<close>

definition transactionCategories :: "string list" where
  "transactionCategories = categories"

record add_screen =
  as_form :: form_values
  menuVisible :: bool

text \<open>The first render: \<open>useState(false)\<close> and the form's \<open>defaultValues\<close>.\<close>

definition add_screen_init :: add_screen where
  "add_screen_init = \<lparr>as_form = defaultValues, menuVisible = False\<rparr>"

text \<open>What the user does on the screen. \<open>Menu_Pick i\<close> presses the \<open>i\<close>-th
  \<open>Menu.Item\<close>. The items are shown only while the menu is visible. The category
  \<open>TextInput\<close> has no \<open>onChangeText\<close>, so it cannot be typed into.\<close>

datatype ui_event =
    Type_Choice tx_kind
  | Amount_Text string
  | Category_Focus
  | Category_Icon
  | Menu_Pick nat
  | Menu_Dismiss
  | Notes_Text string
  | Route string

fun add_screen_event :: "ui_event \<Rightarrow> add_screen \<Rightarrow> add_screen" where
  "add_screen_event (Type_Choice k) a = a\<lparr>as_form := (as_form a)\<lparr>fv_type := k\<rparr>\<rparr>"
| "add_screen_event (Amount_Text v) a = a\<lparr>as_form := (as_form a)\<lparr>fv_amount := v\<rparr>\<rparr>"
| "add_screen_event Category_Focus a = a\<lparr>menuVisible := True\<rparr>"
| "add_screen_event Category_Icon a = a\<lparr>menuVisible := True\<rparr>"
| "add_screen_event (Menu_Pick i) a =
     (if menuVisible a \<and> i < length transactionCategories
      then a\<lparr>as_form := (as_form a)\<lparr>fv_category := transactionCategories ! i\<rparr>, menuVisible := False\<rparr>
      else a)"
| "add_screen_event Menu_Dismiss a = a\<lparr>menuVisible := False\<rparr>"
| "add_screen_event (Notes_Text v) a = a\<lparr>as_form := (as_form a)\<lparr>fv_notes := v\<rparr>\<rparr>"
| "add_screen_event (Route p) a = a\<lparr>as_form := form_on_route p (as_form a)\<rparr>"

text \<open>The screen states reachable from the first render by input events and by presses
  of "Add Transaction" (\<open>submit_add\<close> on any provider state).\<close>

inductive add_reach :: "add_screen \<Rightarrow> bool" where
  init: "add_reach add_screen_init"
| event: "add_reach a \<Longrightarrow> add_reach (add_screen_event ev a)"
| submit: "add_reach a \<Longrightarrow> submit_add c uid (as_form a) s = Some (s', f') \<Longrightarrow> add_reach (a\<lparr>as_form := f'\<rparr>)"

text \<open>The category field holds nothing or a listed category.\<close>

definition category_ok :: "form_values \<Rightarrow> bool" where
  "category_ok f \<longleftrightarrow> fv_category f = [] \<or> fv_category f \<in> set transactionCategories"

section \<open>Lemmas\<close>

lemma form_errors_Nil_iff: "form_errors f = [] \<longleftrightarrow> fv_amount f \<noteq> [] \<and> fv_category f \<noteq> []"
  by (simp add: form_errors_def)

lemma handleSubmit_valid: "form_errors f = [] \<Longrightarrow> handleSubmit f t = onSubmit f t"
  by (simp add: handleSubmit_def)

lemma handleSubmit_invalid: "form_errors f \<noteq> [] \<Longrightarrow> handleSubmit f t = Invalid (form_errors f)"
  by (cases "form_errors f") (simp_all add: handleSubmit_def)

lemma onSubmit_valid:
  "form_errors f = [] \<Longrightarrow> onSubmit f t =
     (case parseFloat (fv_amount f) of
        Num r \<Rightarrow> Add \<lparr>nt_amount = r, nt_category = fv_category f, nt_type = fv_type f,
                     nt_date = t, nt_notes = fv_notes f\<rparr>
      | v \<Rightarrow> Add_NonFinite v)"
  by (simp add: onSubmit_def form_errors_Nil_iff)

text \<open>C32: \<open>handleSubmit\<close> rejects exactly the forms with an empty amount or category and
  lists those fields. \<open>onSubmit\<close>'s own check is never false when it is called, so the
  \<open>Ignored\<close> branch is unreachable. A valid form with a numeric amount submits
  the parsed amount, the form's other fields and the clock.\<close>

theorem handleSubmit_outcomes:
  "(handleSubmit f t = Invalid es \<longleftrightarrow> es \<noteq> [] \<and> form_errors f = es)
   \<and> handleSubmit f t \<noteq> Ignored
   \<and> (form_errors f = [] \<and> parseFloat (fv_amount f) = Num r \<longrightarrow>
        handleSubmit f t = Add \<lparr>nt_amount = r, nt_category = fv_category f, nt_type = fv_type f,
                                nt_date = t, nt_notes = fv_notes f\<rparr>)"
proof (cases "form_errors f = []")
  case True
  then show ?thesis
    by (auto simp: handleSubmit_valid onSubmit_valid split: js_number.split)
next
  case False
  then show ?thesis by (auto simp: handleSubmit_invalid)
qed

text \<open>C31: a non-numeric amount passes validation. Any non-empty string passes the
  \<open>required\<close> rule. If it has no numeric prefix, such as \<open>abc\<close>, \<open>parseFloat\<close> yields
  NaN and the source goes on to add a transaction whose amount is NaN.\<close>

theorem non_numeric_amount_submitted:
  assumes "fv_category f \<noteq> []" and "dropWhile is_js_space (fv_amount f) = c # r"
    and "\<not> is_digit c" and "c \<notin> {CHR ''+'', CHR ''-'', CHR ''.'', CHR ''I''}"
  shows "form_errors f = [] \<and> handleSubmit f t = Add_NonFinite NaN"
proof -
  have ne: "fv_amount f \<noteq> []" using assms(2) by auto
  have "parseFloat (fv_amount f) = NaN" using assms(2-4) by (rule parseFloat_no_numeric_prefix)
  moreover have "form_errors f = []" using ne assms(1) by (simp add: form_errors_Nil_iff)
  ultimately show ?thesis by (simp add: handleSubmit_valid onSubmit_valid)
qed

lemma handleSubmit_Add:
  "form_errors f = [] \<Longrightarrow> parseFloat (fv_amount f) = Num r \<Longrightarrow>
   handleSubmit f t = Add \<lparr>nt_amount = r, nt_category = fv_category f, nt_type = fv_type f,
                           nt_date = t, nt_notes = fv_notes f\<rparr>"
  by (simp add: handleSubmit_valid onSubmit_valid)

text \<open>submitting a valid form whose amount parses to \<open>r\<close> appends one transaction
  to the provider's state, when the id is fresh and the AsyncStorage write succeeds. It
  carries the parsed amount, the form's category, type and notes and the current time,
  and is unsynced unless its upload went through at once. The form is reset.\<close>

theorem submit_add_appends:
  assumes "form_errors f = []" and "parseFloat (fv_amount f) = Num r"
    and "\<not> fst (take_fault (ls_faults (store s)))" and "uid \<notin> set (map tx_id (transactions s))"
  shows "\<exists>s'. submit_add c uid f s = Some (s', defaultValues)
           \<and> butlast (transactions s') = transactions s
           \<and> tx_amount (last (transactions s')) = r \<and> tx_category (last (transactions s')) = fv_category f
           \<and> tx_type (last (transactions s')) = fv_type f \<and> tx_notes (last (transactions s')) = fv_notes f
           \<and> tx_date (last (transactions s')) = now s \<and> tx_id (last (transactions s')) = uid"
proof -
  let ?nt = "\<lparr>nt_amount = r, nt_category = fv_category f, nt_type = fv_type f,
              nt_date = now s, nt_notes = fv_notes f\<rparr>"
  have h: "submit_add c uid f s = Some (addTransaction c ?nt uid s, defaultValues)"
    using handleSubmit_Add [OF assms(1,2), of "now s"] by (simp add: submit_add_def)
  have "transactions (addTransaction c ?nt uid s) = transactions s @ [with_id ?nt uid]
        \<or> transactions (addTransaction c ?nt uid s) = transactions s @ [set_synced (with_id ?nt uid)]"
    using assms(3,4) by (rule addTransaction_appends_new)
  then show ?thesis using h by (auto simp: with_id_def set_synced_def)
qed


lemma category_ok_event: "category_ok (as_form a) \<Longrightarrow> category_ok (as_form (add_screen_event ev a))"
  by (cases ev) (auto simp: category_ok_def form_on_route_def defaultValues_def)

lemma category_ok_submit:
  "category_ok f \<Longrightarrow> submit_add c uid f s = Some (s', f') \<Longrightarrow> category_ok f'"
  by (auto simp: submit_add_def category_ok_def defaultValues_def split: submit_outcome.splits)

text \<open>C26: the add screen only submits listed categories. In every state the screen reaches
  (any sequence of input events, submissions and route changes from the first render), the
  category field is empty or one of \<open>transactionCategories\<close>. So a press of
  "Add Transaction" that adds a transaction adds one with a listed category.\<close>

theorem add_screen_categories:
  assumes "add_reach a"
  shows "category_ok (as_form a)
         \<and> (handleSubmit (as_form a) t = Add nt \<longrightarrow> nt_category nt \<in> set transactionCategories)"
proof -
  have ok: "category_ok (as_form a)"
    using assms
  proof (induction rule: add_reach.induct)
    case init
    then show ?case by (simp add: add_screen_init_def category_ok_def defaultValues_def)
  next
    case (event a ev)
    from event.IH show ?case by (rule category_ok_event)
  next
    case (submit a c uid s s' f')
    then show ?case using category_ok_submit by simp
  qed
  moreover have "handleSubmit (as_form a) t = Add nt \<Longrightarrow> nt_category nt = fv_category (as_form a) \<and> fv_category (as_form a) \<noteq> []"
    by (auto simp: handleSubmit_def onSubmit_def form_errors_def split: list.splits if_splits js_number.splits)
  ultimately show ?thesis by (auto simp: category_ok_def)
qed

end
