(* ===== verification/Sqlite_Helper.thy ===== *)
theory Sqlite_Helper
  imports Transaction_Model
begin

text \<open>
  The SQLite helper \<open>src/utils/database.ts\<close>. Nothing in the app calls it. Each function
  opens \<open>transactions.db\<close> with \<open>openDatabaseAsync\<close>. The file persists between calls,
  so the state the three functions share is that database's \<open>transactions\<close> table:
  \<open>None\<close> before \<open>CREATE TABLE\<close> has run, otherwise its rows in rowid order. A plain
  \<open>SELECT *\<close> scans the table in that order, which is insertion order. SQLite's answers
  are the error values of \<open>sql_error\<close>: a statement on a missing table and an
  \<open>INSERT\<close> of an existing primary key are rejected. A rejected statement leaves the table
  as it was. Opening the file is taken to succeed.
\<close>

text \<open>The table's columns: \<open>id TEXT PRIMARY KEY NOT NULL\<close>, \<open>amount REAL\<close>,
  \<open>category TEXT\<close>, \<open>type TEXT\<close>, \<open>date TEXT\<close>, \<open>notes TEXT\<close>. There is no column for
  \<open>synced\<close>.\<close>

record sql_row =
  col_id :: string
  col_amount :: real
  col_category :: string
  col_type :: string
  col_date :: instant
  col_notes :: string

datatype sql_error = No_Such_Table | Unique_Constraint_Failed

type_synonym sqlite_db = "sql_row list option"

text \<open>\<open>CREATE TABLE IF NOT EXISTS\<close>.\<close>

definition initDatabase :: "sqlite_db \<Rightarrow> (sql_error + unit) \<times> sqlite_db" where
  "initDatabase db = (Inr (), case db of None \<Rightarrow> Some [] | Some rows \<Rightarrow> Some rows)"

text \<open>The parameters bound to the \<open>INSERT\<close>, in column order.\<close>

definition insert_params :: "transaction \<Rightarrow> sql_row" where
  "insert_params tx =
     \<lparr>col_id = tx_id tx, col_amount = tx_amount tx, col_category = tx_category tx,
      col_type = kind_name (tx_type tx), col_date = tx_date tx, col_notes = tx_notes tx\<rparr>"

definition db_addTransaction :: "transaction \<Rightarrow> sqlite_db \<Rightarrow> (sql_error + unit) \<times> sqlite_db" where
  "db_addTransaction tx db =
     (case db of
        None \<Rightarrow> (Inl No_Such_Table, db)
      | Some rows \<Rightarrow>
          if tx_id tx \<in> set (map col_id rows) then (Inl Unique_Constraint_Failed, db)
          else (Inr (), Some (rows @ [insert_params tx])))"

text \<open>\<open>getAllAsync<Transaction>('SELECT * FROM transactions;')\<close>: the rows, read-only.\<close>

definition db_getTransactions :: "sqlite_db \<Rightarrow> sql_error + sql_row list" where
  "db_getTransactions db = (case db of None \<Rightarrow> Inl No_Such_Table | Some rows \<Rightarrow> Inr rows)"

text \<open>A caller that awaits \<open>addTransaction\<close> for each transaction in turn and stops at
  the first rejection.\<close>

primrec db_add_all :: "transaction list \<Rightarrow> sqlite_db \<Rightarrow> (sql_error + unit) \<times> sqlite_db" where
  "db_add_all [] db = (Inr (), db)"
| "db_add_all (tx # txs) db =
     (case db_addTransaction tx db of
        (Inl err, db') \<Rightarrow> (Inl err, db')
      | (Inr _, db') \<Rightarrow> db_add_all txs db')"

section \<open>Lemmas\<close>

lemma col_id_insert_params [simp]: "col_id (insert_params tx) = tx_id tx"
  by (simp add: insert_params_def)

lemma map_col_id_insert_params [simp]: "map col_id (map insert_params txs) = map tx_id txs"
  by (induction txs) simp_all

lemma db_add_all_fresh:
  assumes "distinct (map tx_id txs)" and "set (map tx_id txs) \<inter> set (map col_id rows) = {}"
  shows "db_add_all txs (Some rows) = (Inr (), Some (rows @ map insert_params txs))"
  using assms
proof (induction txs arbitrary: rows)
  case (Cons tx txs)
  have "tx_id tx \<notin> set (map col_id rows)" using Cons.prems(2) by auto
  then have add: "db_addTransaction tx (Some rows) = (Inr (), Some (rows @ [insert_params tx]))"
    by (simp add: db_addTransaction_def)
  have "set (map tx_id txs) \<inter> set (map col_id (rows @ [insert_params tx])) = {}"
    using Cons.prems by auto
  then show ?case using Cons.prems(1) Cons.IH add by simp
qed simp

lemma insert_params_synced: "insert_params (tx\<lparr>tx_synced := b\<rparr>) = insert_params tx"
  by (simp add: insert_params_def)

text \<open>C34: the helper's round trip. On a new database file, creating the table and then
  inserting transactions with distinct ids succeeds, and \<open>SELECT *\<close> returns one row per
  transaction, in insertion order, holding its id, amount, category, type name, date and
  notes, each in its own column. The \<open>synced\<close> flag is not stored: inserting the same
  transactions with any other flag writes the same table.\<close>

theorem sqlite_roundtrip:
  assumes "ids_unique txs"
  shows "\<exists>rows. db_add_all txs (snd (initDatabase None)) = (Inr (), Some rows)
           \<and> db_getTransactions (snd (db_add_all txs (snd (initDatabase None)))) = Inr rows
           \<and> map (\<lambda>r. (col_id r, col_amount r, col_category r, col_type r, col_date r, col_notes r)) rows
               = map (\<lambda>tx. (tx_id tx, tx_amount tx, tx_category tx, kind_name (tx_type tx), tx_date tx, tx_notes tx)) txs
           \<and> db_add_all (map (\<lambda>tx. tx\<lparr>tx_synced := b\<rparr>) txs) (snd (initDatabase None))
               = db_add_all txs (snd (initDatabase None))"
proof -
  have add: "db_add_all txs (Some []) = (Inr (), Some ([] @ map insert_params txs))"
    using assms by (intro db_add_all_fresh) (simp_all add: ids_unique_def)
  moreover have "db_add_all (map (\<lambda>tx. tx\<lparr>tx_synced := b\<rparr>) txs) (Some []) =
      (Inr (), Some ([] @ map insert_params (map (\<lambda>tx. tx\<lparr>tx_synced := b\<rparr>) txs)))"
    using assms by (intro db_add_all_fresh) (simp_all add: ids_unique_def comp_def)
  moreover have "map (\<lambda>r. (col_id r, col_amount r, col_category r, col_type r, col_date r, col_notes r)) (map insert_params txs)
      = map (\<lambda>tx. (tx_id tx, tx_amount tx, tx_category tx, kind_name (tx_type tx), tx_date tx, tx_notes tx)) txs"
    by (simp add: insert_params_def)
  ultimately show ?thesis
    by (simp add: initDatabase_def db_getTransactions_def insert_params_synced comp_def)
qed

text \<open>the helper's errors. Before \<open>initDatabase\<close> every statement is rejected with
  "no such table" and nothing is created; inserting an id that is already present is
  rejected and leaves the table as it was; \<open>initDatabase\<close> on an existing table keeps its
  rows.\<close>

theorem sqlite_errors:
  "db_addTransaction tx None = (Inl No_Such_Table, None)
   \<and> db_getTransactions None = Inl No_Such_Table
   \<and> (tx_id tx \<in> set (map col_id rows) \<longrightarrow>
        db_addTransaction tx (Some rows) = (Inl Unique_Constraint_Failed, Some rows))
   \<and> initDatabase (Some rows) = (Inr (), Some rows)
   \<and> snd (initDatabase (snd (initDatabase db))) = snd (initDatabase db)"
  by (simp add: db_addTransaction_def db_getTransactions_def initDatabase_def split: option.split)

end
