(* ===== verification/App_Layout.thy ===== *)
theory App_Layout
  imports Sync_Engine
begin

text \<open>
  The root layout \<open>src/app/_layout.tsx\<close> and the context hook of
  \<open>src/context/TransactionContext.tsx\<close>. \<open>AppLayout\<close> renders a \<open>PaperProvider\<close> whose
  child is the \<open>TransactionProvider\<close>, which holds the four tab screens and the toast host.
  Each screen calls \<open>useTransactions()\<close>, which reads the value of the nearest enclosing
  \<open>TransactionContext.Provider\<close> and throws when there is none, because the context was
  created with \<open>undefined\<close>. The element tree is a datatype. Rendering a tree yields each
  tab screen with the context value it sees. The tab bar's icon choice and the screen
  options are functions of the route name, a string at run time.
\<close>

section \<open>Theme and tab icons\<close>

record theme_colors =
  primary :: string
  secondary :: string
  background :: string

text \<open>\<open>theme\<close>: \<open>MD3LightTheme\<close>'s colours with three overridden; only those three are modelled.\<close>

definition theme :: theme_colors where
  "theme = \<lparr>primary = ''#6200ee'', secondary = ''#03dac6'', background = ''#f5f5f5''\<rparr>"

record icon_mapping =
  icon_focused :: string
  icon_unfocused :: string

text \<open>\<open>ICONS\<close>, a \<open>Record<RouteName, IconMapping>\<close> indexed by a run-time string.\<close>

definition ICONS :: "(string \<times> icon_mapping) list" where
  "ICONS =
     [(''index'', \<lparr>icon_focused = ''home'', icon_unfocused = ''home-outline''\<rparr>),
      (''add'', \<lparr>icon_focused = ''add-circle'', icon_unfocused = ''add-circle-outline''\<rparr>),
      (''history'', \<lparr>icon_focused = ''list'', icon_unfocused = ''list-outline''\<rparr>),
      (''charts'', \<lparr>icon_focused = ''pie-chart'', icon_unfocused = ''pie-chart-outline''\<rparr>)]"

text \<open>\<open>tabBarIcon\<close>: the icon name for a route; \<open>'help-outline'\<close> when \<open>ICONS\<close> has no entry.\<close>

definition tabBarIcon :: "string \<Rightarrow> bool \<Rightarrow> string" where
  "tabBarIcon routeName focused =
     (case map_of ICONS routeName of
        Some icons \<Rightarrow> if focused then icon_focused icons else icon_unfocused icons
      | None \<Rightarrow> ''help-outline'')"

record screen_options =
  so_icon :: "bool \<Rightarrow> string"
  so_active_tint :: string
  so_inactive_tint :: string
  so_tab_bar_background :: string
  so_header_background :: string
  so_header_tint :: string

definition screenOptions :: "string \<Rightarrow> screen_options" where
  "screenOptions routeName =
     \<lparr>so_icon = tabBarIcon routeName, so_active_tint = primary theme, so_inactive_tint = ''gray'',
      so_tab_bar_background = ''white'', so_header_background = primary theme, so_header_tint = ''white''\<rparr>"

text \<open>The \<open>Tabs.Screen\<close> children: route name and title, in tab order.\<close>

definition tab_screens :: "(string \<times> string) list" where
  "tab_screens =
     [(''index'', ''Dashboard''), (''add'', ''Add Transaction''), (''history'', ''Transaction History''),
      (''charts'', ''Analytics'')]"

section \<open>The element tree and the context\<close>

datatype element =
    PaperProvider "element list"
  | TransactionProvider "element list"
  | Tabs "(string \<times> string) list"
  | ToastHost

definition AppLayout :: element where
  "AppLayout = PaperProvider [TransactionProvider [Tabs tab_screens, ToastHost]]"

text \<open>The \<open>value\<close> the provider passes down: \<open>{ transactions, addTransaction }\<close>, the state of
  this render and the closure its \<open>addTransaction\<close> belongs to.\<close>

definition context_value :: "app \<Rightarrow> transaction list \<times> closure" where
  "context_value s = (transactions s, render s)"

text \<open>Rendering: each tab screen with the value of the nearest enclosing provider, \<open>None\<close>
  (the default \<open>undefined\<close> of \<open>createContext\<close>) outside every provider.\<close>

fun screen_contexts :: "'v \<Rightarrow> 'v option \<Rightarrow> element \<Rightarrow> (string \<times> 'v option) list" where
  "screen_contexts v ctx (PaperProvider es) = concat (map (screen_contexts v ctx) es)"
| "screen_contexts v ctx (TransactionProvider es) = concat (map (screen_contexts v (Some v)) es)"
| "screen_contexts v ctx (Tabs ss) = map (\<lambda>(name, title). (name, ctx)) ss"
| "screen_contexts v ctx ToastHost = []"

definition useTransactions :: "'v option \<Rightarrow> string + 'v" where
  "useTransactions ctx =
     (case ctx of
        None \<Rightarrow> Inl ''useTransactions must be used within a TransactionProvider''
      | Some c \<Rightarrow> Inr c)"

section \<open>Lemmas\<close>

lemma screen_contexts_AppLayout:
  "screen_contexts v ctx AppLayout = map (\<lambda>(name, title). (name, Some v)) tab_screens"
  by (simp add: AppLayout_def)

text \<open>every tab of the layout finds the provider. Rendering \<open>AppLayout\<close> shows the four
  screens in tab order, and each one's \<open>useTransactions()\<close> returns the provider's
  current value. The same screens rendered outside the provider throw. Each declared
  route has its own focused and unfocused icon, so the \<open>'help-outline'\<close> fallback is
  never shown for them.\<close>

theorem layout_provides_context:
  "map fst (screen_contexts (context_value s) None AppLayout) = map fst tab_screens
   \<and> (\<forall>(name, ctx) \<in> set (screen_contexts (context_value s) None AppLayout).
        useTransactions ctx = Inr (transactions s, render s))
   \<and> (\<forall>(name, ctx) \<in> set (screen_contexts (context_value s) None (Tabs tab_screens)).
        useTransactions ctx = Inl ''useTransactions must be used within a TransactionProvider'')
   \<and> (\<forall>(name, title) \<in> set tab_screens.
        tabBarIcon name True \<noteq> ''help-outline'' \<and> tabBarIcon name False \<noteq> ''help-outline''
        \<and> tabBarIcon name True \<noteq> tabBarIcon name False)"
proof -
  have "map fst (map (\<lambda>(name, title). (name, ctx)) tab_screens) = map fst tab_screens" for ctx :: "'a option"
    by (simp add: tab_screens_def)
  then show ?thesis
    by (auto simp: screen_contexts_AppLayout useTransactions_def context_value_def
        tab_screens_def tabBarIcon_def ICONS_def)
qed

end
