(* ===== verification/Sync_Interleaving.thy ===== *)
theory Sync_Interleaving
  imports Sync_Engine
begin

text \<open>
  A small-step model of \<open>syncAllTransactions\<close> in \<open>src/context/TransactionContext.tsx\<close>.
  The big-step model in \<open>Sync_Engine\<close> runs a bulk sync to completion. In the app, the sync
  is an \<open>async\<close> function: it runs synchronously up to its first \<open>await\<close> and then gives
  way. In between, the event loop may deliver another NetInfo state, whose callback starts
  another bulk sync. Here a running bulk sync is a task: the closure of the render it was
  started from and its program counter, the \<open>await\<close> it is suspended at. A world is the
  provider state together with the tasks in flight. A step either delivers a NetInfo state
  or resumes one task up to its next \<open>await\<close>. The granularity is one awaited call:
  \<open>NetInfo.fetch\<close>, one \<open>attemptSyncTransaction\<close> of the upload loop, and
  \<open>fetchAndMergeServerTransactions\<close> with the \<open>finally\<close>. Each is atomic as in the big-step
  model. A task run alone computes exactly \<open>syncAllTransactions\<close>.
\<close>

section \<open>Tasks and worlds\<close>

text \<open>Where a suspended bulk sync resumes: after \<open>await NetInfo.fetch()\<close>, or in the upload
  loop with the transactions still to upload (\<open>[]\<close>: the pull is next).\<close>

datatype sync_pc = Fetch_NetInfo | Uploading "transaction list"

record sync_task =
  tk_closure :: closure
  tk_pc :: sync_pc

record world =
  w_app :: app
  w_tasks :: "sync_task list"

text \<open>The synchronous start of \<open>syncAllTransactions\<close>: the guard on the closure's
  \<open>isSyncing\<close>, \<open>setIsSyncing(true)\<close>, then suspension at \<open>NetInfo.fetch()\<close>.\<close>

definition start_sync :: "closure \<Rightarrow> app \<Rightarrow> app \<times> sync_task option" where
  "start_sync c s =
     (if cl_isSyncing c then (s, None)
      else (s\<lparr>isSyncing := True\<rparr>, Some \<lparr>tk_closure = c, tk_pc = Fetch_NetInfo\<rparr>))"

text \<open>Resuming a task up to its next \<open>await\<close> (\<open>None\<close>: the task has returned).\<close>

definition task_step :: "sync_task \<Rightarrow> app \<Rightarrow> app \<times> sync_task option" where
  "task_step t s =
     (let c = tk_closure t
      in case tk_pc t of
           Fetch_NetInfo \<Rightarrow>
             (if \<not> connected s then ((show_toast Toast_Offline s)\<lparr>isSyncing := False\<rparr>, None)
              else
                let u = getUnsyncedTransactions (heap s ! cl_transactions c)
                in if 0 < length u then (show_toast (Toast_Syncing (length u)) s, Some (t\<lparr>tk_pc := Uploading u\<rparr>))
                   else (s, Some (t\<lparr>tk_pc := Uploading []\<rparr>)))
         | Uploading [] \<Rightarrow> ((fetchAndMergeServerTransactions c s)\<lparr>isSyncing := False\<rparr>, None)
         | Uploading (tx # rest) \<Rightarrow> (attemptSyncTransaction tx s, Some (t\<lparr>tk_pc := Uploading rest\<rparr>)))"

text \<open>A NetInfo delivery: record the connectivity, and let the subscribed callback start a
  bulk sync when the state is connected and its closure's \<open>loading\<close> is false.\<close>

definition netinfo_deliver :: "bool \<Rightarrow> world \<Rightarrow> world" where
  "netinfo_deliver b w =
     (let s1 = (w_app w)\<lparr>connected := b\<rparr>
      in case listener s1 of
           Some c \<Rightarrow>
             (if b \<and> \<not> cl_loading c then
                (case start_sync c s1 of
                   (s2, None) \<Rightarrow> \<lparr>w_app = s2, w_tasks = w_tasks w\<rparr>
                 | (s2, Some t) \<Rightarrow> \<lparr>w_app = s2, w_tasks = w_tasks w @ [t]\<rparr>)
              else \<lparr>w_app = s1, w_tasks = w_tasks w\<rparr>)
         | None \<Rightarrow> \<lparr>w_app = s1, w_tasks = w_tasks w\<rparr>)"

text \<open>Resuming the \<open>i\<close>-th task in flight; a task that returns leaves the list.\<close>

definition resume_task :: "nat \<Rightarrow> world \<Rightarrow> world" where
  "resume_task i w =
     (case task_step (w_tasks w ! i) (w_app w) of
        (s', None) \<Rightarrow> \<lparr>w_app = s', w_tasks = take i (w_tasks w) @ drop (Suc i) (w_tasks w)\<rparr>
      | (s', Some t') \<Rightarrow> \<lparr>w_app = s', w_tasks = (w_tasks w)[i := t']\<rparr>)"

text \<open>The interleavings: any delivery, or any task in flight resumed.\<close>

inductive world_step :: "world \<Rightarrow> world \<Rightarrow> bool" where
  deliver: "world_step w (netinfo_deliver b w)"
| resume: "i < length (w_tasks w) \<Longrightarrow> world_step w (resume_task i w)"

inductive resume_step :: "world \<Rightarrow> world \<Rightarrow> bool" where
  resume: "i < length (w_tasks w) \<Longrightarrow> resume_step w (resume_task i w)"

section \<open>Running a task alone\<close>

text \<open>How far a task is from returning: the \<open>NetInfo.fetch\<close> resumption first, then one
  step per transaction left to upload, then the pull.\<close>

fun pc_fetch :: "sync_pc \<Rightarrow> nat" where
  "pc_fetch Fetch_NetInfo = 1"
| "pc_fetch (Uploading u) = 0"

fun pc_left :: "sync_pc \<Rightarrow> nat" where
  "pc_left Fetch_NetInfo = 0"
| "pc_left (Uploading u) = Suc (length u)"

function run_task :: "sync_task \<Rightarrow> app \<Rightarrow> app" where
  "run_task t s = (case task_step t s of (s', None) \<Rightarrow> s' | (s', Some t') \<Rightarrow> run_task t' s')"
  by pat_completeness auto
termination
  by (relation "measures [\<lambda>(t, s). pc_fetch (tk_pc t), \<lambda>(t, s). pc_left (tk_pc t)]")
     (auto simp: task_step_def Let_def split: sync_pc.splits list.splits if_splits)

declare run_task.simps [simp del]

text \<open>The invariant of the interleaved system: the state is well formed, every task's
  closure refers to an existing array, and with no task in flight no sync is flagged.\<close>

definition world_ok :: "world \<Rightarrow> bool" where
  "world_ok w \<longleftrightarrow> wf_app (w_app w) \<and> (\<forall>t\<in>set (w_tasks w). valid_closure (tk_closure t) (w_app w))
     \<and> (w_tasks w = [] \<longrightarrow> \<not> isSyncing (w_app w))"

text \<open>Progress measures of the tasks in flight: the tasks still at \<open>NetInfo.fetch\<close>, then
  the steps left to the others.\<close>

definition fetch_count :: "world \<Rightarrow> nat" where
  "fetch_count w = sum_list (map (\<lambda>t. pc_fetch (tk_pc t)) (w_tasks w))"

definition steps_left :: "world \<Rightarrow> nat" where
  "steps_left w = sum_list (map (\<lambda>t. pc_left (tk_pc t)) (w_tasks w))"

section \<open>Refinement of the big-step bulk sync\<close>

lemma run_task_step:
  "run_task t s = (case task_step t s of (s', None) \<Rightarrow> s' | (s', Some t') \<Rightarrow> run_task t' s')"
  by (rule run_task.simps)

lemma run_task_uploading:
  "run_task \<lparr>tk_closure = c, tk_pc = Uploading u\<rparr> s
     = (fetchAndMergeServerTransactions c (sync_each u s))\<lparr>isSyncing := False\<rparr>"
proof (induction u arbitrary: s)
  case Nil
  then show ?case by (subst run_task_step) (simp add: task_step_def)
next
  case (Cons tx u)
  then show ?case by (subst run_task_step) (simp add: task_step_def)
qed

text \<open>the small-step bulk sync refines the big-step one. A bulk sync that no other
  handler interrupts computes exactly \<open>syncAllTransactions\<close>: the guard drops it, or its
  task, resumed at each \<open>await\<close> in turn until it returns, ends in the state
  \<open>syncAllTransactions\<close> gives.\<close>

theorem sync_task_refines:
  "syncAllTransactions c s
     = (case start_sync c s of (s1, None) \<Rightarrow> s1 | (s1, Some t) \<Rightarrow> run_task t s1)"
proof (cases "cl_isSyncing c")
  case True
  then show ?thesis by (simp add: start_sync_def syncAllTransactions_def)
next
  case False
  let ?s1 = "s\<lparr>isSyncing := True\<rparr>"
  let ?u = "getUnsyncedTransactions (heap s ! cl_transactions c)"
  have "run_task \<lparr>tk_closure = c, tk_pc = Fetch_NetInfo\<rparr> ?s1 = syncAllTransactions c s"
  proof (cases "connected s")
    case True
    then show ?thesis
      by (subst run_task_step)
         (simp add: task_step_def syncAllTransactions_def Let_def run_task_uploading False)
  next
    case off: False
    then show ?thesis
      by (subst run_task_step) (simp add: task_step_def syncAllTransactions_def False)
  qed
  then show ?thesis using False by (simp add: start_sync_def)
qed

section \<open>The invariant\<close>

lemma wf_app_show_toast [simp]: "wf_app (show_toast x s) = wf_app s"
  by (simp add: wf_app_def valid_closure_def)

lemma wf_app_connected [simp]: "wf_app (s\<lparr>connected := b\<rparr>) = wf_app s"
  by (simp add: wf_app_def valid_closure_def transactions_def)

lemma task_step_cases:
  assumes "task_step t s = (s', r)"
  obtains (fetch) "tk_pc t = Fetch_NetInfo" "heap s' = heap s" "cur s' = cur s" "remote s' = remote s"
      "listener s' = listener s" "r = None \<longrightarrow> \<not> isSyncing s'"
  | (upload) tx rest where "tk_pc t = Uploading (tx # rest)" "s' = attemptSyncTransaction tx s"
      "r = Some (t\<lparr>tk_pc := Uploading rest\<rparr>)"
  | (pull) "tk_pc t = Uploading []" "s' = (fetchAndMergeServerTransactions (tk_closure t) s)\<lparr>isSyncing := False\<rparr>"
      "r = None"
  using assms by (cases "tk_pc t" rule: sync_pc.exhaust; cases "tk_pc t")
    (auto simp: task_step_def Let_def split: list.splits if_splits)

lemma task_step_closure:
  "task_step t s = (s', Some t') \<Longrightarrow> tk_closure t' = tk_closure t"
  by (auto simp: task_step_def Let_def split: sync_pc.splits list.splits if_splits)

lemma task_step_heap_grows:
  assumes "task_step t s = (s', r)" and "cur s < length (heap s)"
  shows "length (heap s) \<le> length (heap s')"
  using assms(1)
proof (cases rule: task_step_cases)
  case (upload tx rest)
  then show ?thesis using attemptSync_frame [OF assms(2), of tx] by (simp add: upload_frame_def)
qed simp_all

lemma task_step_wf:
  assumes "task_step t s = (s', r)" and "wf_app s" and "valid_closure (tk_closure t) s"
  shows "wf_app s'"
  using assms(1)
proof (cases rule: task_step_cases)
  case fetch
  then show ?thesis using assms(2) by (simp add: wf_app_def valid_closure_def transactions_def)
next
  case (upload tx rest)
  have "cur s < length (heap s)" using assms(2) by (simp add: wf_app_def)
  then show ?thesis using upload assms(2) by (simp add: upload_frame_wf attemptSync_frame)
next
  case pull
  then show ?thesis using assms(2,3) by (simp add: fetchAndMerge_wf)
qed

lemma valid_closure_grows:
  "valid_closure c s \<Longrightarrow> length (heap s) \<le> length (heap s') \<Longrightarrow> valid_closure c s'"
  by (simp add: valid_closure_def)

lemma resume_task_world_ok:
  assumes "world_ok w" and "i < length (w_tasks w)"
  shows "world_ok (resume_task i w)"
proof -
  let ?t = "w_tasks w ! i"
  obtain s' r where st: "task_step ?t (w_app w) = (s', r)" by (cases "task_step ?t (w_app w)")
  have ok: "wf_app (w_app w)" "\<forall>t\<in>set (w_tasks w). valid_closure (tk_closure t) (w_app w)"
    using assms(1) by (simp_all add: world_ok_def)
  have cur: "cur (w_app w) < length (heap (w_app w))" using ok(1) by (simp add: wf_app_def)
  have vt: "valid_closure (tk_closure ?t) (w_app w)" using ok(2) assms(2) by simp
  have wf': "wf_app s'" using st ok(1) vt by (rule task_step_wf)
  have grow: "length (heap (w_app w)) \<le> length (heap s')" using st cur by (rule task_step_heap_grows)
  have others: "\<forall>t\<in>set (w_tasks w). valid_closure (tk_closure t) s'"
    using ok(2) grow by (auto intro: valid_closure_grows)
  show ?thesis
  proof (cases r)
    case None
    have "\<not> isSyncing s'" using st None by (cases rule: task_step_cases) simp_all
    moreover have "set (take i (w_tasks w) @ drop (Suc i) (w_tasks w)) \<subseteq> set (w_tasks w)"
      by (auto dest: in_set_takeD in_set_dropD)
    ultimately show ?thesis using st None wf' others by (auto simp: resume_task_def world_ok_def)
  next
    case (Some t')
    have "tk_closure t' = tk_closure ?t" using st Some by (simp add: task_step_closure)
    then have "\<forall>t\<in>set ((w_tasks w)[i := t']). valid_closure (tk_closure t) s'"
      using others vt grow by (auto dest!: set_update_subset_insert [THEN subsetD] intro: valid_closure_grows)
    then show ?thesis using st Some wf' assms(2) by (auto simp: resume_task_def world_ok_def)
  qed
qed

lemma netinfo_deliver_world_ok:
  assumes "world_ok w"
  shows "world_ok (netinfo_deliver b w)"
proof -
  let ?s1 = "(w_app w)\<lparr>connected := b\<rparr>"
  have ok: "world_ok \<lparr>w_app = ?s1, w_tasks = w_tasks w\<rparr>"
    using assms by (simp add: world_ok_def valid_closure_def)
  show ?thesis
  proof (cases "listener ?s1")
    case None
    then show ?thesis using ok by (simp add: netinfo_deliver_def)
  next
    case (Some c)
    have vc: "valid_closure c ?s1" using ok Some by (simp add: world_ok_def wf_app_def)
    show ?thesis
    proof (cases "b \<and> \<not> cl_loading c \<and> \<not> cl_isSyncing c")
      case True
      have "netinfo_deliver b w = \<lparr>w_app = ?s1\<lparr>isSyncing := True\<rparr>,
              w_tasks = w_tasks w @ [\<lparr>tk_closure = c, tk_pc = Fetch_NetInfo\<rparr>]\<rparr>"
        using Some True by (simp add: netinfo_deliver_def start_sync_def)
      then show ?thesis using ok vc by (simp add: world_ok_def valid_closure_def)
    next
      case False
      then have "netinfo_deliver b w = \<lparr>w_app = ?s1, w_tasks = w_tasks w\<rparr>"
        using Some by (auto simp: netinfo_deliver_def start_sync_def Let_def)
      then show ?thesis using ok by simp
    qed
  qed
qed


lemma world_step_ok: "world_step w w' \<Longrightarrow> world_ok w \<Longrightarrow> world_ok w'"
  by (induction rule: world_step.induct) (simp_all add: netinfo_deliver_world_ok resume_task_world_ok)

text \<open>C10: the invariant of the interleaved bulk syncs. From a well-formed provider state
  with no sync running, every interleaving of NetInfo deliveries and resumptions of the
  syncs in flight keeps the state well formed and every task's closure valid. Whenever no
  sync is in flight, \<open>isSyncing\<close> is false.\<close>

theorem interleaved_sync_invariant:
  assumes "world_step\<^sup>*\<^sup>* \<lparr>w_app = s, w_tasks = []\<rparr> w" and "wf_app s" and "\<not> isSyncing s"
  shows "world_ok w"
  using assms(1)
proof (induction rule: rtranclp_induct)
  case base
  then show ?case using assms(2,3) by (simp add: world_ok_def)
next
  case (step w w')
  then show ?case by (blast intro: world_step_ok)
qed

section \<open>Every sync in flight finishes\<close>

lemma task_step_Some_decreases:
  assumes "task_step t s = (s', Some t')"
  shows "pc_fetch (tk_pc t') < pc_fetch (tk_pc t)
         \<or> pc_fetch (tk_pc t') = pc_fetch (tk_pc t) \<and> pc_left (tk_pc t') < pc_left (tk_pc t)"
  using assms by (auto simp: task_step_def Let_def split: sync_pc.splits list.splits if_splits)

lemma task_step_None_decreases:
  "task_step t s = (s', None) \<Longrightarrow> 0 < pc_fetch (tk_pc t) \<or> 0 < pc_left (tk_pc t)"
  by (cases "tk_pc t") simp_all

lemma resume_first_decreases:
  assumes "w_tasks w \<noteq> []"
  shows "(resume_task 0 w, w) \<in> measures [fetch_count, steps_left]"
proof -
  obtain t ts where w: "w_tasks w = t # ts" using assms by (cases "w_tasks w") auto
  obtain s' r where st: "task_step t (w_app w) = (s', r)" by (cases "task_step t (w_app w)")
  show ?thesis
  proof (cases r)
    case None
    then have "0 < pc_fetch (tk_pc t) \<or> 0 < pc_left (tk_pc t)" using st by (simp add: task_step_None_decreases)
    then show ?thesis using st None w by (auto simp: resume_task_def fetch_count_def steps_left_def)
  next
    case (Some t')
    then show ?thesis using task_step_Some_decreases [of t "w_app w" s' t'] st w
      by (auto simp: resume_task_def fetch_count_def steps_left_def)
  qed
qed

text \<open>C11: every bulk sync in flight finishes. From any state of the invariant, resuming
  the syncs in flight, without further NetInfo events, reaches a state with no sync in
  flight and \<open>isSyncing\<close> false. Each sync needs at most one resumption per \<open>await\<close>.\<close>

theorem tasks_drain:
  assumes "world_ok w"
  shows "\<exists>w'. resume_step\<^sup>*\<^sup>* w w' \<and> w_tasks w' = [] \<and> \<not> isSyncing (w_app w') \<and> wf_app (w_app w')"
  using assms
proof (induction w rule: wf_induct [OF wf_measures [of "[fetch_count, steps_left]"]])
  case (1 w)
  show ?case
  proof (cases "w_tasks w = []")
    case True
    then show ?thesis using "1.prems" by (intro exI [of _ w]) (simp add: world_ok_def)
  next
    case False
    have ok: "world_ok (resume_task 0 w)" using "1.prems" False by (simp add: resume_task_world_ok)
    have step: "resume_step w (resume_task 0 w)" using False by (intro resume_step.resume) simp
    have "\<exists>w'. resume_step\<^sup>*\<^sup>* (resume_task 0 w) w' \<and> w_tasks w' = [] \<and> \<not> isSyncing (w_app w')
        \<and> wf_app (w_app w')"
      using "1.IH" resume_first_decreases [OF False] ok by blast
    then obtain w' where "resume_step\<^sup>*\<^sup>* (resume_task 0 w) w'" "w_tasks w' = []" "\<not> isSyncing (w_app w')"
        "wf_app (w_app w')"
      by blast
    then show ?thesis using step by (blast intro: converse_rtranclp_into_rtranclp)
  qed
qed

section \<open>Reachability\<close>

lemma world_steps_resume:
  "world_step\<^sup>*\<^sup>* w0 w \<Longrightarrow> i < length (w_tasks w) \<Longrightarrow> world_step\<^sup>*\<^sup>* w0 (resume_task i w)"
  by (blast intro: rtranclp.rtrancl_into_rtrancl world_step.resume)

lemma world_steps_deliver:
  "world_step\<^sup>*\<^sup>* w0 w \<Longrightarrow> world_step\<^sup>*\<^sup>* w0 (netinfo_deliver b w)"
  by (blast intro: rtranclp.rtrancl_into_rtrancl world_step.deliver)

section \<open>The stale subscription across interleavings\<close>

lemma task_step_listener: "task_step t s = (s', r) \<Longrightarrow> listener s' = listener s"
  by (auto elim: task_step_cases)

lemma netinfo_deliver_listener [simp]: "listener (w_app (netinfo_deliver b w)) = listener (w_app w)"
  by (auto simp: netinfo_deliver_def start_sync_def Let_def split: option.split prod.split)

lemma resume_task_listener [simp]: "listener (w_app (resume_task i w)) = listener (w_app w)"
  by (auto simp: resume_task_def dest: task_step_listener split: prod.split option.split)

lemma world_steps_listener:
  "world_step\<^sup>*\<^sup>* w w' \<Longrightarrow> listener (w_app w') = listener (w_app w)"
  by (induction rule: rtranclp_induct) (auto elim: world_step.cases)

text \<open>C5: the single-flight guard never holds back a connectivity event. After the provider
  has mounted, along every interleaving of NetInfo deliveries and resumed syncs, the
  subscribed callback is still the closure of the mounting render, whose \<open>isSyncing\<close> is
  false; so each connected delivery starts one more bulk sync and sets \<open>isSyncing\<close>,
  whatever syncs are already in flight and whatever the state's \<open>isSyncing\<close> is.\<close>

theorem connected_events_overlap:
  assumes "\<not> isSyncing s"
    and "world_step\<^sup>*\<^sup>* \<lparr>w_app = provider_mount samples s, w_tasks = []\<rparr> w"
  shows "\<exists>c. listener (w_app w) = Some c \<and> \<not> cl_isSyncing c
           \<and> w_tasks (netinfo_deliver True w) = w_tasks w @ [\<lparr>tk_closure = c, tk_pc = Fetch_NetInfo\<rparr>]
           \<and> isSyncing (w_app (netinfo_deliver True w))"
proof -
  obtain c where c: "listener (provider_mount samples s) = Some c" "\<not> cl_isSyncing c" "\<not> cl_loading c"
    using mount_listener_stale [OF assms(1)] by blast
  have "listener (w_app w) = Some c" using world_steps_listener [OF assms(2)] c(1) by simp
  with c(2,3) show ?thesis by (simp add: netinfo_deliver_def start_sync_def Let_def)
qed

end
