(* ===== verification/Notifications.thy ===== *)
theory Notifications
  imports Sync_Prelude
begin

text \<open>
  The notification channel \<open>src/utils/notification.ts\<close>: \<open>NotificationService\<close> extends
  eventemitter3's \<open>EventEmitter\<close>, and \<open>notify(payload)\<close> is \<open>this.emit('notify', payload)\<close>.
  The emitter's registry maps an event name to its listeners in registration order, each
  a function and a \<open>once\<close> flag; \<open>on\<close>, \<open>once\<close>, \<open>removeListener\<close> and \<open>emit\<close> follow
  eventemitter3's code. \<open>emit\<close> iterates over the listener array it read on entry; a
  \<open>once\<close> listener is removed from the registry just before it is called. A listener is
  called synchronously: it may change the registry and the rest of the program state, and
  it may throw, which ends the \<open>emit\<close> and propagates to the caller of \<open>notify\<close>. Listener
  functions are compared by identity (\<open>===\<close>), so they are values of a type \<open>'f\<close> and
  their behaviour is a parameter \<open>run\<close>. The \<open>context\<close> argument of \<open>on\<close> and
  \<open>removeListener\<close> is never passed and is not modelled.
\<close>

section \<open>Payloads\<close>

datatype notification_type = Sync_Success | Sync_Failure | Sync_Progress

record notification_payload =
  np_type :: notification_type
  np_message :: string

section \<open>The emitter\<close>

record 'f listener =
  l_fn :: 'f
  l_once :: bool

text \<open>\<open>_events\<close>: an event with no listeners is absent, modelled as the empty list.\<close>

type_synonym 'f emitter = "string \<Rightarrow> 'f listener list"

text \<open>What a listener call does: from the registry and the program state, either a new
  pair (\<open>None\<close>) or a thrown error together with the effects made before the throw.\<close>

type_synonym ('f, 'p, 's, 'e) handlers = "'f \<Rightarrow> 'p \<Rightarrow> 'f emitter \<times> 's \<Rightarrow> 'e option \<times> ('f emitter \<times> 's)"

definition new_emitter :: "'f emitter" where
  "new_emitter = (\<lambda>ev. [])"

definition on :: "string \<Rightarrow> 'f \<Rightarrow> 'f emitter \<Rightarrow> 'f emitter" where
  "on ev f E = E(ev := E ev @ [\<lparr>l_fn = f, l_once = False\<rparr>])"

definition once :: "string \<Rightarrow> 'f \<Rightarrow> 'f emitter \<Rightarrow> 'f emitter" where
  "once ev f E = E(ev := E ev @ [\<lparr>l_fn = f, l_once = True\<rparr>])"

text \<open>\<open>removeListener(event, fn, context, once)\<close>: with no \<open>fn\<close> the event is cleared;
  otherwise every listener with that function is dropped, only the \<open>once\<close> ones when the
  \<open>once\<close> argument is set.\<close>

definition removeListener :: "string \<Rightarrow> 'f option \<Rightarrow> bool \<Rightarrow> 'f emitter \<Rightarrow> 'f emitter" where
  "removeListener ev fo once_only E =
     (case fo of
        None \<Rightarrow> E(ev := [])
      | Some f \<Rightarrow> E(ev := filter (\<lambda>l. l_fn l \<noteq> f \<or> (once_only \<and> \<not> l_once l)) (E ev)))"

text \<open>The loop of \<open>emit\<close> over the array read on entry, with the functions it called.\<close>

fun emit_each :: "('f, 'p, 's, 'e) handlers \<Rightarrow> string \<Rightarrow> 'p \<Rightarrow> 'f listener list \<Rightarrow> 'f emitter \<times> 's
                  \<Rightarrow> 'e option \<times> ('f emitter \<times> 's) \<times> 'f list" where
  "emit_each run ev a [] st = (None, st, [])"
| "emit_each run ev a (l # ls) (E, s) =
     (let E1 = (if l_once l then removeListener ev (Some (l_fn l)) True E else E)
      in case run (l_fn l) a (E1, s) of
           (Some err, st') \<Rightarrow> (Some err, st', [l_fn l])
         | (None, st') \<Rightarrow> (case emit_each run ev a ls st' of (r, st'', calls) \<Rightarrow> (r, st'', l_fn l # calls)))"

text \<open>\<open>emit\<close>: \<open>false\<close> when the event has no listener, \<open>true\<close> after calling them all, or
  the error a listener threw.\<close>

definition emit :: "('f, 'p, 's, 'e) handlers \<Rightarrow> string \<Rightarrow> 'p \<Rightarrow> 'f emitter \<times> 's
                    \<Rightarrow> ('e + bool) \<times> ('f emitter \<times> 's) \<times> 'f list" where
  "emit run ev a st =
     (let listeners = fst st ev
      in if listeners = [] then (Inr False, st, [])
         else (case emit_each run ev a listeners st of
                 (None, st', calls) \<Rightarrow> (Inr True, st', calls)
               | (Some err, st', calls) \<Rightarrow> (Inl err, st', calls)))"

section \<open>The service\<close>

definition notify :: "('f, notification_payload, 's, 'e) handlers \<Rightarrow> notification_payload \<Rightarrow> 'f emitter \<times> 's
                      \<Rightarrow> ('e + unit) \<times> ('f emitter \<times> 's) \<times> 'f list" where
  "notify run payload st =
     (case emit run ''notify'' payload st of
        (Inl err, st', calls) \<Rightarrow> (Inl err, st', calls)
      | (Inr _, st', calls) \<Rightarrow> (Inr (), st', calls))"

definition notificationService :: "'f emitter" where
  "notificationService = new_emitter"

text \<open>Listeners that never throw and never touch the registry: each is a function of the
  payload on the program state.\<close>

definition inert :: "('f \<Rightarrow> 'p \<Rightarrow> 's \<Rightarrow> 's) \<Rightarrow> ('f, 'p, 's, 'e) handlers" where
  "inert h f a st = (None, (fst st, h f a (snd st)))"

section \<open>Lemmas\<close>

lemma removeListener_other [simp]:
  "ev' \<noteq> ev \<Longrightarrow> removeListener ev fo b E ev' = E ev'"
  by (simp add: removeListener_def split: option.split)

lemma removeListener_once_same [simp]:
  "removeListener ev (Some f) True E ev = filter (\<lambda>l. l_fn l \<noteq> f \<or> \<not> l_once l) (E ev)"
  by (simp add: removeListener_def)

text \<open>Whatever the listeners do, the loop calls a prefix of the array it was given, and
  all of it when no listener throws.\<close>

lemma emit_each_calls:
  "case emit_each run ev a ls st of (r, st', calls) \<Rightarrow>
     (\<exists>k. calls = take k (map l_fn ls)) \<and> (r = None \<longrightarrow> calls = map l_fn ls)"
proof (induction ls arbitrary: st)
  case Nil
  then show ?case by simp
next
  case (Cons l ls)
  obtain E s where st: "st = (E, s)" by (cases st)
  let ?E1 = "if l_once l then removeListener ev (Some (l_fn l)) True E else E"
  obtain r1 st1 where run: "run (l_fn l) a (?E1, s) = (r1, st1)" by (cases "run (l_fn l) a (?E1, s)")
  show ?case
  proof (cases r1)
    case None
    obtain r st'' calls where rec: "emit_each run ev a ls st1 = (r, st'', calls)"
      by (cases "emit_each run ev a ls st1") auto
    have "(\<exists>k. calls = take k (map l_fn ls)) \<and> (r = None \<longrightarrow> calls = map l_fn ls)"
      using Cons.IH [of st1] rec by simp
    then obtain k where "calls = take k (map l_fn ls)" and "r = None \<longrightarrow> calls = map l_fn ls"
      by blast
    then have "l_fn l # calls = take (Suc k) (map l_fn (l # ls))" by simp
    with \<open>r = None \<longrightarrow> calls = map l_fn ls\<close>
    have "(\<exists>k. l_fn l # calls = take k (map l_fn (l # ls))) \<and> (r = None \<longrightarrow> l_fn l # calls = map l_fn (l # ls))"
      by (metis list.simps(9))
    then show ?thesis using st run None rec by (simp add: Let_def)
  next
    case (Some err)
    then have "[l_fn l] = take 1 (map l_fn (l # ls))" by simp
    then have "\<exists>k. [l_fn l] = take k (map l_fn (l # ls))" by metis
    then show ?thesis using st run Some by (simp add: Let_def)
  qed
qed

text \<open>With inert listeners the loop folds their effects over the state in array order and
  removes from the event's listeners the \<open>once\<close> ones whose function it met as a
  \<open>once\<close> listener.\<close>

lemma emit_each_inert:
  "emit_each (inert h) ev a ls (E, s) =
     (None, (E(ev := filter (\<lambda>l. \<not> l_once l \<or> l_fn l \<notin> l_fn ` {x \<in> set ls. l_once x}) (E ev)),
             fold (\<lambda>l. h (l_fn l) a) ls s), map l_fn ls)"
proof (induction ls arbitrary: E s)
  case Nil
  then show ?case by simp
next
  case (Cons l ls)
  let ?E1 = "if l_once l then removeListener ev (Some (l_fn l)) True E else E"
  have "?E1(ev := filter (\<lambda>x. \<not> l_once x \<or> l_fn x \<notin> l_fn ` {x \<in> set ls. l_once x}) (?E1 ev))
        = E(ev := filter (\<lambda>x. \<not> l_once x \<or> l_fn x \<notin> l_fn ` {x \<in> set (l # ls). l_once x}) (E ev))"
    by (auto simp: fun_eq_iff filter_filter removeListener_def intro!: filter_cong)
  then show ?case using Cons.IH [of ?E1] by (simp add: inert_def Let_def)
qed

lemma filter_once_self:
  "filter (\<lambda>l. l_once l \<longrightarrow> l_fn l \<notin> l_fn ` {x \<in> set ls. l_once x}) ls = filter (\<lambda>l. \<not> l_once l) ls"
  by (rule filter_cong) auto

text \<open>C24: \<open>notify\<close> with listeners that neither throw nor touch the registry calls every
  \<open>'notify'\<close> listener once, in registration order, with the payload, folding their
  effects over the state; afterwards the \<open>once\<close> listeners are gone and the others stay.
  With no listener it changes nothing.\<close>

theorem notify_delivers:
  "notify (inert h) p (E, s) =
     (Inr (), (E(''notify'' := filter (\<lambda>l. \<not> l_once l) (E ''notify'')),
               fold (\<lambda>l. h (l_fn l) p) (E ''notify'') s),
      map l_fn (E ''notify''))"
proof (cases "E ''notify'' = []")
  case True
  then have "E(''notify'' := filter (\<lambda>l. \<not> l_once l) (E ''notify'')) = E" by (simp add: fun_eq_iff)
  with True show ?thesis by (simp add: notify_def emit_def)
next
  case False
  then show ?thesis by (simp add: notify_def emit_def Let_def emit_each_inert filter_once_self)
qed

text \<open>C23: whatever the listeners do, \<open>notify\<close> calls a prefix of the \<open>'notify'\<close> listeners
  registered when it was entered, in order, and all of them when it returns normally: a
  listener that a listener adds is not called by this \<open>notify\<close>, and one that a listener
  removes is still called.\<close>

theorem notify_calls_snapshot:
  "case notify run p st of (r, st', calls) \<Rightarrow>
     (\<exists>k. calls = take k (map l_fn (fst st ''notify''))) \<and> (r = Inr () \<longrightarrow> calls = map l_fn (fst st ''notify''))"
proof (cases "fst st ''notify'' = []")
  case True
  then show ?thesis by (simp add: notify_def emit_def)
next
  case False
  obtain r st' calls where e: "emit_each run ''notify'' p (fst st ''notify'') st = (r, st', calls)"
    by (cases "emit_each run ''notify'' p (fst st ''notify'') st") auto
  have "(\<exists>k. calls = take k (map l_fn (fst st ''notify''))) \<and> (r = None \<longrightarrow> calls = map l_fn (fst st ''notify''))"
    using emit_each_calls [where run = run and ev = "''notify''" and a = p and ls = "fst st ''notify''" and st = st] e by simp
  moreover have "\<exists>k. map l_fn (fst st ''notify'') = take k (map l_fn (fst st ''notify''))"
    by (metis take_all order_refl)
  ultimately show ?thesis using False e by (cases r) (simp_all add: notify_def emit_def)
qed

text \<open>C22: delivery is not fire-and-forget: when the first \<open>'notify'\<close> listener throws,
  \<open>notify\<close> throws the same error to its caller, keeps the effects made before the throw,
  and calls none of the listeners after it.\<close>

theorem notify_throw_stops:
  assumes "E ''notify'' = l # ls"
    and "run (l_fn l) p (if l_once l then removeListener ''notify'' (Some (l_fn l)) True E else E, s) = (Some err, st')"
  shows "notify run p (E, s) = (Inl err, st', [l_fn l])"
  using assms by (simp add: notify_def emit_def)

end
