(* ===== verification/Navigation.thy ===== *)
theory Navigation
  imports Add_Form History_Screen App_Layout
begin

text \<open>
  Navigation between the four tabs of \<open>src/app/_layout.tsx\<close> and how it composes with
  the screens. expo-router maps the route files to paths: \<open>index\<close> is \<open>'/'\<close>, every other
  route \<open>'/<name>'\<close>. A tab screen keeps its React state while another tab is shown. The
  model mounts each screen at the first render; a lazily mounted screen starts from the
  same state, since its first visit runs the same effect. \<open>usePathname()\<close> re-renders the
  mounted add screen whenever the path changes, and its effect resets the form when the
  new path is \<open>'/add'\<close> (\<open>form_on_route\<close>). Pressing the tab that is already shown does
  not change the path, so the effect does not run. The user acts on the shown screen
  only: the add screen's inputs and its submit button, the history screen's search bar
  and chips, and the home screen's "View All" button (\<open>router.push('/history')\<close>). A
  successful submit runs \<open>addTransaction\<close> with the provider's current value, resets the
  form and calls \<open>router.replace('/')\<close>. The provider state may also change between two
  inputs, by a sync or the NetInfo listener.
\<close>

section \<open>Routes and the UI state\<close>

definition tab_path :: "string \<Rightarrow> string" where
  "tab_path name = (if name = ''index'' then ''/'' else ''/'' @ name)"

record ui =
  ui_app :: app
  ui_path :: string
  ui_add :: add_screen
  ui_history :: history_screen

definition ui_init :: "app \<Rightarrow> ui" where
  "ui_init s = \<lparr>ui_app = s, ui_path = ''/'', ui_add = add_screen_init, ui_history = history_init\<rparr>"

text \<open>A change of path: the mounted add screen re-renders and its effect runs with the new
  path; the same path changes nothing.\<close>

definition navigate :: "string \<Rightarrow> ui \<Rightarrow> ui" where
  "navigate p u =
     (if p = ui_path u then u else u\<lparr>ui_path := p, ui_add := add_screen_event (Route p) (ui_add u)\<rparr>)"

text \<open>The add screen's events that a user causes; \<open>Route\<close> is the effect, not an input.\<close>

fun user_input :: "ui_event \<Rightarrow> bool" where
  "user_input (Route p) = False"
| "user_input ev = True"

text \<open>Pressing "Add Transaction" on the add screen: \<open>handleSubmit(onSubmit)\<close> with the
  provider's current \<open>addTransaction\<close>; on an added transaction the form is reset and the
  router replaces the route by \<open>'/'\<close>. \<open>None\<close> is the non-finite amount, outside the model.\<close>

definition press_add :: "txid \<Rightarrow> ui \<Rightarrow> ui option" where
  "press_add uid u =
     (case handleSubmit (as_form (ui_add u)) (now (ui_app u)) of
        Add nt \<Rightarrow>
          Some (navigate ''/'' (u\<lparr>ui_app := addTransaction (render (ui_app u)) nt uid (ui_app u),
                                 ui_add := (ui_add u)\<lparr>as_form := defaultValues\<rparr>\<rparr>))
      | Add_NonFinite _ \<Rightarrow> None
      | _ \<Rightarrow> Some u)"

text \<open>One input to the UI: a tab press, "View All" on the dashboard, an input or the submit
  on the add screen, an input on the history screen, or a change of the provider state
  (a sync, a NetInfo event) between two inputs.\<close>

inductive ui_input :: "ui \<Rightarrow> ui \<Rightarrow> bool" where
  tab: "name \<in> set (map fst tab_screens) \<Longrightarrow> ui_input u (navigate (tab_path name) u)"
| view_all: "ui_path u = ''/'' \<Longrightarrow> ui_input u (navigate ''/history'' u)"
| add_input: "ui_path u = ''/add'' \<Longrightarrow> user_input ev \<Longrightarrow> ui_input u (u\<lparr>ui_add := add_screen_event ev (ui_add u)\<rparr>)"
| add_press: "ui_path u = ''/add'' \<Longrightarrow> press_add uid u = Some u' \<Longrightarrow> ui_input u u'"
| history_input: "ui_path u = ''/history'' \<Longrightarrow> ui_input u (u\<lparr>ui_history := history_event ev (ui_history u)\<rparr>)"
| provider: "ui_input u (u\<lparr>ui_app := s'\<rparr>)"

section \<open>Lemmas\<close>

lemma navigate_simps [simp]:
  "ui_path (navigate p u) = p" "ui_app (navigate p u) = ui_app u" "ui_history (navigate p u) = ui_history u"
  by (simp_all add: navigate_def)

lemma navigate_add:
  "ui_add (navigate p u) =
     (if p = ui_path u then ui_add u else (ui_add u)\<lparr>as_form := form_on_route p (as_form (ui_add u))\<rparr>)"
  by (simp add: navigate_def)

text \<open>C28: what a change of tab does to the mounted screens. Entering the add tab from
  another tab shows an empty form; pressing the tab already shown changes nothing, so
  what was typed stays; leaving the add tab keeps what was typed for now; navigation
  never touches the history screen's query and chip or the provider state.\<close>

theorem navigation_effects:
  "(ui_path u \<noteq> ''/add'' \<longrightarrow> as_form (ui_add (navigate ''/add'' u)) = defaultValues)
   \<and> navigate (ui_path u) u = u
   \<and> (p \<noteq> ''/add'' \<longrightarrow> ui_add (navigate p u) = ui_add u)
   \<and> ui_history (navigate p u) = ui_history u \<and> ui_app (navigate p u) = ui_app u"
  by (simp add: navigate_add form_on_route_def)

text \<open>C27: a successful "Add Transaction" press on the add screen runs
  \<open>addTransaction\<close> of the provider's current render with the form's transaction,
  shows the dashboard, and leaves the add form empty for the next visit.\<close>

theorem add_press_flow:
  assumes "handleSubmit (as_form (ui_add u)) (now (ui_app u)) = Add nt"
  shows "\<exists>u'. press_add uid u = Some u' \<and> ui_path u' = ''/''
           \<and> ui_app u' = addTransaction (render (ui_app u)) nt uid (ui_app u)
           \<and> as_form (ui_add u') = defaultValues \<and> ui_history u' = ui_history u"
  using assms by (simp add: press_add_def navigate_add form_on_route_def)

text \<open>C29: whatever state the UI is in, two tab presses, "Dashboard" and then "Add
  Transaction", show the add screen with an empty form, and change neither the provider
  state nor the history screen: the pathname effect resets the form on entering
  \<open>'/add'\<close>, also when the user was already there.\<close>

theorem empty_form_two_presses:
  "\<exists>u1 u2. ui_input u u1 \<and> ui_input u1 u2 \<and> ui_path u2 = ''/add'' \<and> as_form (ui_add u2) = defaultValues
           \<and> ui_app u2 = ui_app u \<and> ui_history u2 = ui_history u"
proof -
  let ?u1 = "navigate (tab_path ''index'') u"
  let ?u2 = "navigate (tab_path ''add'') ?u1"
  have "ui_input u ?u1" "ui_input ?u1 ?u2" by (simp_all add: ui_input.tab tab_screens_def)
  moreover have "tab_path ''index'' = ''/''" "tab_path ''add'' = ''/add''" by (simp_all add: tab_path_def)
  ultimately show ?thesis by (intro exI [of _ ?u1] exI [of _ ?u2]) (simp add: navigate_add form_on_route_def)
qed

end
