(* ===== verification/Spec2Isabelle.thy ===== *)
theory Spec2Isabelle
  imports Charts_Screen History_Screen Add_Form Sample_Data Sqlite_Helper App_Layout Sync_Interleaving Notifications Navigation
begin

text \<open>
  \<^bold>\<open>A verification model of the offline-first sync engine of Finance Tracking Splikaro.\<close>

  The program is a React Native app. Its engine is the \<open>TransactionProvider\<close> of
  \<open>src/context/TransactionContext.tsx\<close>. It keeps the list of transactions in React state
  and persists it to AsyncStorage. It uploads each transaction to a Firestore collection
  with retry and exponential backoff, pulls newer documents back and merges them by id. It
  runs a bulk sync when NetInfo reports connectivity. Four screens read that list and
  compute from it, and the add screen feeds it: home (\<open>src/app/index.tsx\<close>), history,
  charts and add, with the row components under \<open>src/components\<close>. The data types are
  those of \<open>src/types/index.ts\<close>. The provider seeds an empty store with the random
  sample data of \<open>src/data/sampleTransactions.ts\<close>. The tab layout
  \<open>src/app/_layout.tsx\<close> places the screens inside the provider. The SQLite helper
  \<open>src/utils/database.ts\<close> is dead code, modelled on its own. The notification emitter
  \<open>src/utils/notification.ts\<close> is dead code as well, also modelled on its own.

  \<^bold>\<open>Theories.\<close>
  \<^item> \<open>Sync_Prelude\<close>: the basic types (ids, instants in milliseconds), the error type
    \<open>sync_error\<close> with \<open>'a result = sync_error + 'a\<close>, fault scripts (\<open>take_fault\<close>:
    the environment's decision whether the next call to a service rejects), the rule
    collections \<open>sync_simps\<close> and \<open>wf_intros\<close>, and generic facts on id-keyed lists.
  \<^item> \<open>Transaction_Model\<close>: the records \<open>transaction\<close> and \<open>new_transaction\<close>, the
    list computations of the provider (\<open>getUnsyncedTransactions\<close>, the updater of
    \<open>markTransactionAsSynced\<close>, the \<open>Map\<close> and forEach/push loop of
    \<open>mergeTransactions\<close>), the invariant \<open>ids_unique\<close>, the abstraction \<open>ledger_of\<close>
    and the abstract insert-if-absent merge \<open>merge_spec\<close>.
  \<^item> \<open>Remote_Ledger\<close>: the Firestore collection as an association list
    (\<open>HOL-Library.AList\<close>), \<open>uploadTransaction\<close> (\<open>setDoc\<close>, an upsert) and
    \<open>fetchServerTransactions\<close> (the \<open>timestamp > cursor\<close> query).
  \<^item> \<open>Local_Store\<close>: the two AsyncStorage keys, their atomic writes, and
    \<open>getLastSyncTime\<close>/\<open>updateLastSyncTime\<close>.
  \<^item> \<open>Provider_State\<close>: the whole state as a record \<open>app\<close>: React state, AsyncStorage,
    Firestore, NetInfo's connectivity, a clock and a trace of observable effects (uploads,
    sleeps, toasts). JavaScript arrays live in an explicit heap because
    \<open>mergeTransactions\<close> pushes into the array captured by a render's closure; a
    \<open>closure\<close> records what one render's functions see.
  \<^item> \<open>Sync_Retry\<close>: \<open>attemptSyncTransaction\<close>'s while loop (a terminating
    \<^theory_text>\<open>function\<close>), \<open>markTransactionAsSynced\<close>, and the loop's closed form by the
    number of leading rejections in the upload fault script.

  \<^item> \<open>Sync_Engine\<close>: the entry points on the provider state, each taking the closure
    of the render it belongs to: \<open>syncSingleTransaction\<close>, \<open>addTransaction\<close>,
    \<open>mergeTransactions\<close> (the in-place push into the captured array),
    \<open>fetchAndMergeServerTransactions\<close>, \<open>syncAllTransactions\<close> with its upload pass
    \<open>sync_each\<close>, \<open>loadTransactions\<close>, the NetInfo callback \<open>netinfo_event\<close>, the
    \<open>useEffect\<close> run \<open>provider_effect\<close> and \<open>provider_mount\<close>.
  \<^item> \<open>Sync_Interleaving\<close>: a small-step model of bulk sync. A world holds the
    provider state and the syncs in flight, each a task suspended at an \<open>await\<close>
    (\<open>sync_pc\<close>). \<open>world_step\<close> delivers a NetInfo state or resumes any task.
    A task run alone is \<open>syncAllTransactions\<close>.
  \<^item> \<open>Number_Format\<close>: the JavaScript built-ins the screens rely on. \<open>parseFloat\<close>
    (StrDecimalLiteral, longest prefix) and \<open>toFixed(2)\<close>, on exact reals with NaN and
    the infinities as values of \<open>js_number\<close>.
  \<^item> \<open>Home_Screen\<close>: the totals, the balance, the five most recent transactions, and
    the row \<open>TransactionItem\<close>. \<open>HomeScreen\<close> is an operation on the provider state,
    because \<open>transactions.sort\<close> sorts the state's array in place.
  \<^item> \<open>History_Screen\<close>: the search filter (ASCII case folding, substring), the type
    chips, the newest-first list and the row \<open>HistoryItem\<close>. It also holds the screen's
    own state (\<open>searchQuery\<close>, \<open>selectedType\<close>) and input events, \<open>renderItem\<close> with its
    fade-in delay, \<open>keyExtractor\<close> and the \<open>FlatList\<close>.
  \<^item> \<open>Charts_Screen\<close>: \<open>expensesByCategory\<close> as an insertion-ordered association
    list (\<open>AList.update\<close>), the pie, bar and line data, \<open>renderChart\<close> and one render
    \<open>ChartsScreen\<close>, which consumes \<open>Math.random()\<close> draws from a stream.
  \<^item> \<open>Add_Form\<close>: the form's required rules, \<open>handleSubmit\<close>, \<open>onSubmit\<close> and
    its composition with \<open>addTransaction\<close> (\<open>submit_add\<close>). The screen's input handlers
    are events (\<open>add_screen_event\<close>), and \<open>add_reach\<close> is the inductive set of screen
    states they reach.
  \<^item> \<open>Sample_Data\<close>: \<open>generateRandomTransaction\<close>, \<open>Array.from\<close> and the do-while
    regeneration loop. \<open>Math.random()\<close> and \<open>Date.now()\<close> are streams in a record
    \<open>sample_env\<close>; each call takes the head, in source order. The loop is a
    \<^theory_text>\<open>partial_function (option)\<close>.
  \<^item> \<open>Sqlite_Helper\<close>: the table of \<open>transactions.db\<close> as an optional row list, and
    \<open>initDatabase\<close>, \<open>addTransaction\<close> (as \<open>db_addTransaction\<close>) and
    \<open>getTransactions\<close> (as \<open>db_getTransactions\<close>), which return SQLite's rejections as values.
  \<^item> \<open>App_Layout\<close>: the theme, the icon table, \<open>tabBarIcon\<close>, the screen options,
    the element tree of \<open>AppLayout\<close>, and \<open>useTransactions\<close>. Each screen of the
    tree reads the nearest provider's value.
  \<^item> \<open>Notifications\<close>: \<open>NotificationService.notify\<close> as eventemitter3's \<open>emit\<close> of
    \<open>'notify'\<close>. The registry maps an event to its listeners with their \<open>once\<close> flags.
    What a listener does (change the registry or the state, or throw) is a parameter.
  \<^item> \<open>Navigation\<close>: the UI as a record of the provider state, the current path and the
    mounted add and history screens. \<open>navigate\<close> runs the add screen's pathname effect,
    \<open>press_add\<close> is the submit with its \<open>router.replace('/')\<close>, and \<open>ui_input\<close> is
    the step relation of one user input or provider change.
  \<^item> \<open>Spec2Isabelle\<close> (this theory): concrete states, a witness for each property with
    hypotheses, and two concrete runs that illustrate the findings (the lost pull and two
    overlapping bulk syncs).

  \<^bold>\<open>What is proved.\<close>
  \<^item> Retry (\<open>Sync_Retry\<close>): the loop's result in closed form. A rejected-every-time upload
    makes five calls, sleeps 1, 2, 4 and 8 seconds, and shows one error toast. An upload
    accepted after \<open>k < 5\<close> rejections marks exactly that transaction synced. Every run
    makes one to five calls and shows exactly one toast.
  \<^item> Merge (\<open>Transaction_Model\<close>): the forEach/has/push loop equals append-the-new-ones. It
    keeps ids unique, is a no-op on known ids, and refines the abstract insert-if-absent
    merge \<open>merge_spec\<close> through \<open>ledger_of\<close>.
  \<^item> Remote ledger and store: upload is an idempotent upsert, the pull answers exactly the
    newer documents, a document read back is the transaction marked synced, and the
    store's writes are atomic.
  \<^item> Engine (\<open>Sync_Engine\<close>):
    \<^item> the single-flight guard, and that it reads the render's snapshot;
    \<^item> the offline, empty-pull and failed-query branches;
    \<^item> the bulk sync with accepting uploads, and well-formedness and monotone synced flags
      across a bulk sync;
    \<^item> \<open>addTransaction\<close> on each branch: the new transaction is marked synced exactly
      when its document reached Firestore, which happens exactly when the device is
      connected, the guard passes and not all five uploads are rejected;
    \<^item> loading, the NetInfo callback and mounting;
    \<^item> interleaving (\<open>Sync_Interleaving\<close>): every interleaving keeps the state well
      formed (rule induction on \<open>world_step\<close>); resuming the syncs in flight always drains
      them with \<open>isSyncing\<close> false (well-founded induction on a lexicographic measure);
      after mounting, the subscription stays the mounting render's closure along every
      interleaving, so every connected delivery starts one more bulk sync (induction over
      \<open>world_step\<^sup>*\<^sup>*\<close>). A task run alone computes the big-step bulk sync, which
      checks the two translations against each other.
  \<^item> Screens:
    \<^item> the home render keeps the state's multiset, balance and well-formedness while
      sorting it;
    \<^item> the recent list is the five newest;
    \<^item> the chart totals refine the per-category sums and add up to the home screen's
      expenses;
    \<^item> the pie hues are distinct for up to 360 slices;
    \<^item> every charts render draws six random values for the line chart, which does not
      depend on the transactions;
    \<^item> the history filter narrows monotonically and the type chips partition it;
    \<^item> a valid form appends exactly the transaction it describes;
    \<^item> the add screen's category is always empty or a listed category (rule induction
      over \<open>add_reach\<close>), so it adds only listed categories.
  \<^item> Sample data, database and layout:
    \<^item> every generated batch has ids \<open>'1'\<close> to \<open>'100'\<close>, whole-cent amounts in each
      type's range, listed categories and dates in the last 90 days;
    \<^item> the regeneration loop returns exactly when some batch has income above expenses,
      and then returns the first such batch (a liveness property of the \<open>option\<close> model);
    \<^item> seeding the provider from it gives unique ids and a positive balance;
    \<^item> the SQLite helper reads back each inserted transaction's fields, each in its own
      column, in order, and does not store \<open>synced\<close>;
    \<^item> it rejects a missing table and a duplicate id without changing the table;
    \<^item> \<open>notify\<close> calls the listeners it found on entry, in order; once-listeners leave
      after one call; a throwing listener stops the delivery and reaches the caller;
    \<^item> the history list has distinct keys and staggered delays in every well-formed state;
    \<^item> entering the add tab empties the form, a submit lands on the dashboard, and from
      every UI state two tab presses (\<open>ui_input\<close> steps) reach an empty add form.
  \<^item> Findings:
    \<^item> pulled records never reach the state once an upload has succeeded in the same bulk
      sync (\<open>bulk_sync_merge_unreachable\<close>), and the cursor still advances, so they are
      lost (the concrete run \<open>bulk_sync_loses_pull\<close>);
    \<^item> merged records are not persisted;
    \<^item> a swallowed write of \<open>markTransactionAsSynced\<close> makes a reload forget the synced
      flag of an uploaded transaction (\<open>reload_forgets_synced_flag\<close>);
    \<^item> the NetInfo callback syncs on every connected state, and its closure's guard never
      sees a running sync, so two bulk syncs overlap, upload the same transaction twice, and
      the first to finish clears \<open>isSyncing\<close> under the second
      (\<open>connected_events_overlap\<close>, and the concrete run \<open>overlapping_bulk_syncs\<close>);
    \<^item> the home screen sorts the provider's state in place;
    \<^item> a non-numeric amount passes the add form and is added as NaN;
    \<^item> the SQLite helper has no column for \<open>synced\<close>;
    \<^item> nothing bounds the sample generator's rounds;
    \<^item> the engine never uses the notification channel, and delivery on it is not
      fire-and-forget;
    \<^item> pressing the add tab while it is shown keeps what was typed.

  \<^bold>\<open>Environment.\<close> Every external outcome is a parameter of the state, so that each
  operation is a deterministic, executable function: the fault scripts of AsyncStorage
  writes, Firestore writes and Firestore queries; NetInfo's \<open>isConnected\<close>; the clock.
  A uuid is an argument of \<open>addTransaction\<close>; that it is fresh is a hypothesis where needed.
  JSON encoding of the stored array and ISO encoding of dates are taken to round-trip.
  \<open>AsyncStorage.getItem\<close> and \<open>NetInfo.fetch\<close> are taken to resolve, so the \<open>catch\<close>
  blocks of \<open>syncSingleTransaction\<close> and \<open>syncAllTransactions\<close> are unreachable and
  are not branches of the model.

  \<^bold>\<open>Bounds.\<close> The retry loop runs at most \<open>MAX_RETRIES = 5\<close> iterations; its
  termination measure is \<open>2 * (MAX_RETRIES - attempt) + (if success then 0 else 1)\<close>.
  No fuel is used anywhere. Every loop of the source but one is over a finite list or
  bounded by the attempt counter. The exception is the sample generator's do-while, which
  may not return. It is a \<^theory_text>\<open>partial_function (option)\<close>, and its liveness
  property characterises when it returns.

  \<^bold>\<open>Not modelled.\<close> Binary64 rounding: amounts are exact reals, so sums
  do not round and \<open>toFixed\<close> rounds the exact decimal. A non-finite amount is an
  outcome of the add form, not a transaction. Locale date formatting, styling and the drawing of
  animations and icons are not modelled; animation delays are. A submit's
  \<open>addTransaction\<close> runs atomically in \<open>Navigation\<close>, so no input arrives while it is awaited.
  eventemitter3's \<open>context\<close> argument and its single-listener storage (same behaviour as a
  one-element array) are not modelled. Draws of
  \<open>Math.random()\<close> are exact reals; theorems assume they lie in \<open>[0, 1)\<close>. Interleaving: \<open>Sync_Interleaving\<close> suspends a bulk sync at
  each upload and at the NetInfo fetch, and interleaves NetInfo deliveries there. The two
  awaits inside \<open>attemptSyncTransaction\<close>'s retry loop, the pull's \<open>fetch\<close>, single
  syncs and user adds arriving during a bulk sync still run atomically. The effect's cleanup (\<open>unsubscribe\<close>) is folded
  into replacing \<open>listener\<close>.
\<close>

section \<open>Concrete states for the witnesses\<close>

definition ex_tx1 :: transaction where
  "ex_tx1 = \<lparr>tx_id = ''t1'', tx_amount = 12, tx_category = ''Food'', tx_type = Expense,
             tx_date = 1000, tx_notes = '''', tx_synced = False\<rparr>"

definition ex_tx2 :: transaction where
  "ex_tx2 = \<lparr>tx_id = ''t2'', tx_amount = 900, tx_category = ''Salary'', tx_type = Income,
             tx_date = 3000, tx_notes = ''June'', tx_synced = True\<rparr>"

definition ex_rtx :: transaction where
  "ex_rtx = \<lparr>tx_id = ''r1'', tx_amount = 40, tx_category = ''Gifts'', tx_type = Expense,
             tx_date = 5000, tx_notes = '''', tx_synced = True\<rparr>"

definition ex_remote :: remote_ledger where
  "ex_remote = \<lparr>rl_docs = [(''r1'', doc_of ex_rtx)], rl_upload_faults = [], rl_query_faults = []\<rparr>"

definition ex_app :: app where
  "ex_app =
     \<lparr>heap = [[ex_tx1, ex_tx2]], cur = 0, isSyncing = False, loading = False,
      store = \<lparr>ls_transactions = Some [ex_tx1, ex_tx2], ls_last_sync = None, ls_faults = []\<rparr>,
      remote = ex_remote, connected = True, now = 10000, listener = None, trace = []\<rparr>"

text \<open>The same state with a network that rejects every upload.\<close>

definition ex_app_rejecting :: app where
  "ex_app_rejecting = ex_app\<lparr>remote := ex_remote\<lparr>rl_upload_faults := replicate 5 True\<rparr>\<rparr>"

text \<open>Variants of that state: offline; with only synced transactions; with a rejecting
  query; with a rejecting AsyncStorage; with a cursor past every remote document; with
  nothing stored; with the NetInfo subscription of its own render.\<close>

definition ex_offline :: app where
  "ex_offline = ex_app\<lparr>connected := False\<rparr>"

definition ex_clean :: app where
  "ex_clean = ex_app\<lparr>heap := [[ex_tx2]]\<rparr>"

definition ex_qfail :: app where
  "ex_qfail = ex_app\<lparr>remote := ex_remote\<lparr>rl_query_faults := [True]\<rparr>\<rparr>"

definition ex_wfail :: app where
  "ex_wfail = ex_app\<lparr>store := (store ex_app)\<lparr>ls_faults := [True]\<rparr>\<rparr>"

definition ex_pulled :: app where
  "ex_pulled = ex_app\<lparr>store := (store ex_app)\<lparr>ls_last_sync := Some 6000\<rparr>\<rparr>"

definition ex_fresh :: app where
  "ex_fresh = ex_app\<lparr>store := (store ex_app)\<lparr>ls_transactions := None\<rparr>\<rparr>"

definition ex_subscribed :: app where
  "ex_subscribed = ex_app\<lparr>listener := Some (render ex_app)\<rparr>"

text \<open>A new transaction as the add screen submits it.\<close>

definition ex_new :: new_transaction where
  "ex_new = \<lparr>nt_amount = 7, nt_category = ''Transport'', nt_type = Expense, nt_date = 8000, nt_notes = ''bus''\<rparr>"

text \<open>The add form as a user fills it in: 7 for transport, and with a non-numeric amount.\<close>

definition ex_form :: form_values where
  "ex_form = \<lparr>fv_amount = ''7'', fv_category = ''Transport'', fv_notes = ''bus'', fv_type = Expense\<rparr>"

definition ex_form_abc :: form_values where
  "ex_form_abc = ex_form\<lparr>fv_amount := ''abc''\<rparr>"

text \<open>A sample environment: every \<open>Math.random()\<close> returns 0.5 and the clock stands still.\<close>

definition ex_env :: sample_env where
  "ex_env = \<lparr>rnd = sconst (1 / 2), clock = sconst 1700000000000\<rparr>"

text \<open>The add screen after focusing the category, picking the first item and typing 7.\<close>

definition ex_screen :: add_screen where
  "ex_screen = add_screen_event (Amount_Text ''7'') (add_screen_event (Menu_Pick 0) (add_screen_event Category_Focus add_screen_init))"

text \<open>Interleaved bulk syncs from the subscribed state: NetInfo reports "connected" twice
  before the first bulk sync has resumed; then the two syncs take turns.\<close>

definition ex_world0 :: world where
  "ex_world0 = \<lparr>w_app = ex_subscribed, w_tasks = []\<rparr>"

definition ex_world2 :: world where
  "ex_world2 = netinfo_deliver True (netinfo_deliver True ex_world0)"

definition ex_world6 :: world where
  "ex_world6 = resume_task 1 (resume_task 0 (resume_task 1 (resume_task 0 ex_world2)))"

definition ex_world7 :: world where
  "ex_world7 = resume_task 0 ex_world6"

text \<open>A notification channel with a plain listener \<open>1\<close> and a \<open>once\<close> listener \<open>2\<close>,
  listeners that log their own number, one that subscribes another listener when called,
  and one that throws.\<close>

definition ex_channel :: "nat emitter" where
  "ex_channel = once ''notify'' 2 (on ''notify'' 1 notificationService)"

definition ex_payload :: notification_payload where
  "ex_payload = \<lparr>np_type = Sync_Success, np_message = ''Synced''\<rparr>"

definition ex_log :: "nat \<Rightarrow> notification_payload \<Rightarrow> nat list \<Rightarrow> nat list" where
  "ex_log f p s = s @ [f]"

definition ex_subscriber :: "(nat, notification_payload, nat list, string) handlers" where
  "ex_subscriber f p st = (None, (on ''notify'' (f + 10) (fst st), snd st @ [f]))"

definition ex_thrower :: "(nat, notification_payload, nat list, string) handlers" where
  "ex_thrower f p st = (if f = 1 then (Some ''listener failed'', st) else (None, (fst st, snd st @ [f])))"

text \<open>The UI on the add tab with \<open>ex_form\<close> filled in.\<close>

definition ex_ui_add :: ui where
  "ex_ui_add = (ui_init ex_app)\<lparr>ui_path := ''/add'', ui_add := add_screen_init\<lparr>as_form := ex_form\<rparr>\<rparr>"

lemmas ex_defs = ex_app_def ex_remote_def ex_tx1_def ex_tx2_def ex_rtx_def

lemmas ex_sync_simps = ex_defs ex_subscribed_def render_def getUnsyncedTransactions_def attemptSync_ok_eq
  fetchAndMergeServerTransactions_def mergeTransactions_def sync_simps getLastSyncTime_def
  doc_of_def tx_of_doc_def transactions_def setTransactions_def markTransactionAsSynced_def
  upload_call_def mark_synced_list_def set_synced_def updateLastSyncTime_def setItem_lastSyncTime_def

lemma wf_ex_app: "wf_app ex_app"
  by (simp add: wf_app_def ex_defs transactions_def ids_unique_def wf_remote_def)

lemma ex_world2_eq:
  "ex_world2 = \<lparr>w_app = ex_subscribed\<lparr>isSyncing := True\<rparr>,
     w_tasks = [\<lparr>tk_closure = render ex_app, tk_pc = Fetch_NetInfo\<rparr>, \<lparr>tk_closure = render ex_app, tk_pc = Fetch_NetInfo\<rparr>]\<rparr>"
  by (simp add: ex_world2_def ex_world0_def ex_subscribed_def netinfo_deliver_def start_sync_def
      render_def ex_app_def)

lemma ex_world_lengths:
  "length (w_tasks (resume_task 0 ex_world2)) = 2"
  "length (w_tasks (resume_task 1 (resume_task 0 ex_world2))) = 2"
  "length (w_tasks (resume_task 0 (resume_task 1 (resume_task 0 ex_world2)))) = 2"
  "length (w_tasks ex_world6) = 2"
  by (simp_all add: ex_world6_def ex_world2_eq resume_task_def task_step_def Let_def ex_sync_simps)

lemma ex_world7_reachable: "world_step\<^sup>*\<^sup>* ex_world0 ex_world7"
proof -
  have "world_step\<^sup>*\<^sup>* ex_world0 ex_world2"
    unfolding ex_world2_def by (intro world_steps_deliver rtranclp.rtrancl_refl)
  then have "world_step\<^sup>*\<^sup>* ex_world0 (resume_task 0 ex_world2)"
    by (rule world_steps_resume) (simp add: ex_world2_eq)
  then have "world_step\<^sup>*\<^sup>* ex_world0 (resume_task 1 (resume_task 0 ex_world2))"
    by (rule world_steps_resume) (simp only: ex_world_lengths(1))
  then have "world_step\<^sup>*\<^sup>* ex_world0 (resume_task 0 (resume_task 1 (resume_task 0 ex_world2)))"
    by (rule world_steps_resume) (simp only: ex_world_lengths(2))
  then have "world_step\<^sup>*\<^sup>* ex_world0 ex_world6"
    unfolding ex_world6_def by (rule world_steps_resume) (simp only: ex_world_lengths(3))
  then show ?thesis unfolding ex_world7_def by (rule world_steps_resume) (simp only: ex_world_lengths(4))
qed

section \<open>Witnesses\<close>

theorem merge_preserves_ids_unique_witness:
  "ids_unique [ex_tx1, ex_tx2] \<and> distinct (map tx_id [ex_rtx, ex_tx2])
   \<and> ids_unique (merge_loop (local_map [ex_tx1, ex_tx2]) [ex_rtx, ex_tx2] [ex_tx1, ex_tx2])"
proof -
  have h1: "ids_unique [ex_tx1, ex_tx2]" by (simp add: ids_unique_def ex_tx1_def ex_tx2_def)
  have h2: "distinct (map tx_id [ex_rtx, ex_tx2])" by (simp add: ex_rtx_def ex_tx2_def)
  show ?thesis using h1 h2 Transaction_Model.merge_preserves_ids_unique [OF h1 h2] by simp
qed

theorem merge_known_noop_witness:
  "set (map tx_id [ex_tx2]) \<subseteq> set (map tx_id [ex_tx1, ex_tx2])
   \<and> merge_loop (local_map [ex_tx1, ex_tx2]) [ex_tx2] [ex_tx1, ex_tx2] = [ex_tx1, ex_tx2]"
proof -
  have h: "set (map tx_id [ex_tx2]) \<subseteq> set (map tx_id [ex_tx1, ex_tx2])" by simp
  show ?thesis using h Transaction_Model.merge_known_noop [OF h] by simp
qed

theorem upload_idempotent_witness:
  "wf_remote ex_remote
   \<and> filter (\<lambda>(i, d). i = tx_id ex_tx1) (rl_docs (snd (uploadTransaction ex_tx1 ex_remote))) = [(''t1'', doc_of ex_tx1)]"
proof -
  have w: "wf_remote ex_remote" by (simp add: wf_remote_def ex_remote_def)
  have f1: "\<not> fst (take_fault (rl_upload_faults ex_remote))" by (simp add: ex_remote_def)
  have f2: "\<not> fst (take_fault (rl_upload_faults (snd (uploadTransaction ex_tx1 ex_remote))))"
    by (simp add: ex_remote_def sync_simps)
  show ?thesis using w Remote_Ledger.upload_idempotent [OF w f1 f2] by (simp add: ex_tx1_def)
qed

theorem fetch_answer_witness:
  "wf_remote ex_remote \<and> \<not> fst (take_fault (rl_query_faults ex_remote))
   \<and> fst (fetchServerTransactions 0 ex_remote) = Inr [ex_rtx]"
proof -
  have w: "wf_remote ex_remote" by (simp add: wf_remote_def ex_remote_def)
  have q: "\<not> fst (take_fault (rl_query_faults ex_remote))" by (simp add: ex_remote_def)
  obtain server where "fst (fetchServerTransactions 0 ex_remote) = Inr server"
    and "set server = {tx_of_doc i d | i d. (i, d) \<in> set (rl_docs ex_remote) \<and> 0 < rd_timestamp d}"
    and "distinct (map tx_id server)"
    using Remote_Ledger.fetch_answer [OF w q, of 0] by blast
  moreover have "fst (fetchServerTransactions 0 ex_remote) = Inr [ex_rtx]"
    by (simp add: ex_remote_def sync_simps doc_of_def tx_of_doc_def ex_rtx_def)
  ultimately show ?thesis using w q by simp
qed

theorem fetch_misses_old_dates_witness:
  "tx_date ex_tx1 \<le> 2000
   \<and> tx_id ex_tx1 \<notin> set (map tx_id (projr (fst (fetchServerTransactions 2000 (snd (uploadTransaction ex_tx1 ex_remote))))))"
proof -
  have w: "wf_remote ex_remote" by (simp add: wf_remote_def ex_remote_def)
  have u: "\<not> fst (take_fault (rl_upload_faults ex_remote))" by (simp add: ex_remote_def)
  have q: "\<not> fst (take_fault (rl_query_faults (snd (uploadTransaction ex_tx1 ex_remote))))"
    by (simp add: ex_remote_def sync_simps)
  have d: "tx_date ex_tx1 \<le> 2000" by (simp add: ex_tx1_def)
  let ?r = "fst (fetchServerTransactions 2000 (snd (uploadTransaction ex_tx1 ex_remote)))"
  have "?r = Inr (projr ?r)"
    using q by (simp add: sync_simps)
  then show ?thesis using d Remote_Ledger.fetch_misses_old_dates [OF w u q d] by blast
qed

theorem retry_exhausted_witness:
  "take 5 (rl_upload_faults (remote ex_app_rejecting)) = replicate 5 True
   \<and> sleeps (attemptSyncTransaction ex_tx1 ex_app_rejecting) = [1000, 2000, 4000, 8000]
   \<and> toasts (attemptSyncTransaction ex_tx1 ex_app_rejecting) = [Toast_SyncError ''t1'']"
proof -
  have h: "take 5 (rl_upload_faults (remote ex_app_rejecting)) = replicate 5 True"
    by (simp add: ex_app_rejecting_def)
  have e: "sleeps ex_app_rejecting = [] \<and> toasts ex_app_rejecting = []"
    by (simp add: ex_app_rejecting_def ex_app_def sleeps_def toasts_def)
  show ?thesis using h e Sync_Retry.retry_exhausted [OF h, of ex_tx1] by (simp add: ex_tx1_def)
qed

theorem retry_succeeds_witness:
  "transactions (attemptSyncTransaction ex_tx1 ex_app) = [set_synced ex_tx1, ex_tx2]
   \<and> uploads (attemptSyncTransaction ex_tx1 ex_app) = [''t1'']"
proof -
  have k: "(0::nat) < 5" by simp
  have t: "take 0 (rl_upload_faults (remote ex_app)) = replicate 0 True" by simp
  have f: "\<not> fst (take_fault (drop 0 (rl_upload_faults (remote ex_app))))"
    by (simp add: ex_app_def ex_remote_def)
  have e: "transactions ex_app = [ex_tx1, ex_tx2] \<and> uploads ex_app = []"
    by (simp add: ex_app_def transactions_def uploads_def)
  show ?thesis using e Sync_Retry.retry_succeeds [OF k t f, of ex_tx1]
    by (simp add: mark_synced_list_def ex_tx1_def ex_tx2_def)
qed

theorem sync_guard_drops_witness:
  "cl_isSyncing (render (ex_app\<lparr>isSyncing := True\<rparr>))
   \<and> syncAllTransactions (render (ex_app\<lparr>isSyncing := True\<rparr>)) ex_app = ex_app
   \<and> syncSingleTransaction (render (ex_app\<lparr>isSyncing := True\<rparr>)) ex_tx1 ex_app = ex_app"
proof -
  have h: "cl_isSyncing (render (ex_app\<lparr>isSyncing := True\<rparr>))" by simp
  show ?thesis using h Sync_Engine.sync_guard_drops [OF h, of ex_app ex_tx1] by blast
qed

theorem sync_guard_reads_snapshot_witness:
  "\<not> cl_isSyncing (render ex_app)
   \<and> syncAllTransactions (render ex_app) (ex_app\<lparr>isSyncing := True\<rparr>) = syncAllTransactions (render ex_app) ex_app"
proof -
  have h: "\<not> cl_isSyncing (render ex_app)" by (simp add: ex_app_def)
  show ?thesis using h Sync_Engine.sync_guard_reads_snapshot [OF h, of True ex_app] by blast
qed

theorem sync_all_offline_witness:
  "toasts (syncAllTransactions (render ex_offline) ex_offline) = [Toast_Offline]
   \<and> transactions (syncAllTransactions (render ex_offline) ex_offline) = [ex_tx1, ex_tx2]
   \<and> uploads (syncAllTransactions (render ex_offline) ex_offline) = []"
proof -
  have h1: "\<not> cl_isSyncing (render ex_offline)" by (simp add: ex_offline_def ex_app_def)
  have h2: "\<not> connected ex_offline" by (simp add: ex_offline_def)
  show ?thesis using Sync_Engine.sync_all_offline [OF h1 h2]
    by (simp add: ex_offline_def ex_app_def toasts_def uploads_def transactions_def)
qed

theorem empty_pull_keeps_cursor_witness:
  "fst (fetchServerTransactions (getLastSyncTime (store ex_pulled)) (remote ex_pulled)) = Inr []
   \<and> ls_last_sync (store (fetchAndMergeServerTransactions (render ex_pulled) ex_pulled)) = Some 6000
   \<and> trace (fetchAndMergeServerTransactions (render ex_pulled) ex_pulled) = []"
proof -
  have h: "fst (fetchServerTransactions (getLastSyncTime (store ex_pulled)) (remote ex_pulled)) = Inr []"
    by (simp add: ex_pulled_def ex_defs sync_simps getLastSyncTime_def doc_of_def)
  show ?thesis using h Sync_Engine.empty_pull_keeps_cursor [OF h, of "render ex_pulled"]
    by (simp add: ex_pulled_def ex_app_def)
qed

theorem query_failure_keeps_state_witness:
  "fst (take_fault (rl_query_faults (remote ex_qfail)))
   \<and> ls_last_sync (store (fetchAndMergeServerTransactions (render ex_qfail) ex_qfail)) = None
   \<and> heap (fetchAndMergeServerTransactions (render ex_qfail) ex_qfail) = [[ex_tx1, ex_tx2]]
   \<and> toasts (fetchAndMergeServerTransactions (render ex_qfail) ex_qfail) = [Toast_ServerSyncError]"
proof -
  have h: "fst (take_fault (rl_query_faults (remote ex_qfail)))" by (simp add: ex_qfail_def)
  show ?thesis using h Sync_Engine.query_failure_keeps_state [OF h, of "render ex_qfail"]
    by (simp add: ex_qfail_def ex_app_def toasts_def)
qed

theorem bulk_sync_merge_unreachable_witness:
  "fst (fetchServerTransactions (getLastSyncTime (store ex_app)) (remote ex_app)) = Inr [ex_rtx]
   \<and> map tx_id (transactions (syncAllTransactions (render ex_app) ex_app)) = [''t1'', ''t2'']"
proof -
  have h1: "\<not> isSyncing ex_app" and h2: "connected ex_app" and h3: "cur ex_app < length (heap ex_app)"
    by (simp_all add: ex_app_def)
  have h4: "getUnsyncedTransactions (transactions ex_app) \<noteq> []"
    by (simp add: ex_defs transactions_def getUnsyncedTransactions_def)
  have h5: "\<not> fst (take_fault (rl_upload_faults (remote ex_app)))" by (simp add: ex_defs)
  have q: "fst (fetchServerTransactions (getLastSyncTime (store ex_app)) (remote ex_app)) = Inr [ex_rtx]"
    by (simp add: ex_defs sync_simps getLastSyncTime_def doc_of_def tx_of_doc_def)
  show ?thesis using q Sync_Engine.bulk_sync_merge_unreachable [OF h1 h2 h3 h4 h5]
    by (simp add: ex_defs transactions_def)
qed

theorem bulk_sync_merges_when_clean_witness:
  "transactions (syncAllTransactions (render ex_clean) ex_clean) = [ex_tx2, ex_rtx]"
proof -
  have h1: "\<not> isSyncing ex_clean" and h2: "connected ex_clean" and h3: "cur ex_clean < length (heap ex_clean)"
    by (simp_all add: ex_clean_def ex_app_def)
  have h4: "getUnsyncedTransactions (transactions ex_clean) = []"
    by (simp add: ex_clean_def ex_defs transactions_def getUnsyncedTransactions_def)
  have h5: "fst (fetchServerTransactions (getLastSyncTime (store ex_clean)) (remote ex_clean)) = Inr [ex_rtx]"
    by (simp add: ex_clean_def ex_defs sync_simps getLastSyncTime_def doc_of_def tx_of_doc_def)
  show ?thesis using Sync_Engine.bulk_sync_merges_when_clean [OF h1 h2 h3 h4 h5]
    by (simp add: ex_clean_def ex_defs transactions_def merge_new_def set_synced_def)
qed

theorem bulk_sync_accepting_witness:
  "uploads (syncAllTransactions (render ex_app) ex_app) = [''t1'']
   \<and> False \<notin> tx_synced ` set (transactions (syncAllTransactions (render ex_app) ex_app))"
proof -
  have h1: "\<not> isSyncing ex_app" and h2: "connected ex_app" and h3: "cur ex_app < length (heap ex_app)"
    and h4: "rl_upload_faults (remote ex_app) = []"
    by (simp_all add: ex_defs)
  have h5: "getUnsyncedTransactions (transactions ex_app) \<noteq> []"
    by (simp add: ex_defs transactions_def getUnsyncedTransactions_def)
  have u: "getUnsyncedTransactions (transactions ex_app) = [ex_tx1]" and e: "uploads ex_app = []"
    by (simp_all add: ex_defs transactions_def getUnsyncedTransactions_def uploads_def)
  show ?thesis using Sync_Engine.bulk_sync_accepting [OF h1 h2 h3 h4 h5]
    by (auto simp: u e ex_tx1_def)
qed

theorem sync_all_preserves_wf_witness:
  "wf_app ex_app \<and> valid_closure (render ex_app) ex_app \<and> wf_app (syncAllTransactions (render ex_app) ex_app)"
proof -
  have h1: "wf_app ex_app"
    by (simp add: wf_app_def ex_defs transactions_def ids_unique_def wf_remote_def)
  have h2: "valid_closure (render ex_app) ex_app" by (simp add: valid_closure_def ex_app_def)
  show ?thesis using h1 h2 Sync_Engine.sync_all_preserves_wf [OF h1 h2] by blast
qed

theorem sync_all_synced_monotone_witness:
  "''t2'' \<in> synced_ids (transactions (syncAllTransactions (render ex_app) ex_app))"
proof -
  have h1: "cur ex_app < length (heap ex_app)" by (simp add: ex_app_def)
  have h2: "valid_closure (render ex_app) ex_app" by (simp add: valid_closure_def ex_app_def)
  have "''t2'' \<in> synced_ids (transactions ex_app)"
    by (simp add: ex_defs transactions_def synced_ids_def)
  then show ?thesis using Sync_Engine.sync_all_synced_monotone [OF h1 h2] by blast
qed

theorem add_transaction_appends_witness:
  "transactions (addTransaction (render ex_app) ex_new ''t3'' ex_app) = [ex_tx1, ex_tx2, set_synced (with_id ex_new ''t3'')]"
proof -
  have h1: "\<not> fst (take_fault (ls_faults (store ex_app)))" by (simp add: ex_app_def)
  have h2: "''t3'' \<notin> set (map tx_id (transactions ex_app))" by (simp add: ex_defs transactions_def)
  have h3: "''t3'' \<notin> set (map fst (rl_docs (remote ex_app)))" by (simp add: ex_defs)
  have c: "connected ex_app \<and> \<not> cl_isSyncing (render ex_app)
           \<and> take 5 (rl_upload_faults (remote ex_app)) \<noteq> replicate 5 True"
    by (simp add: ex_defs render_def)
  have t: "transactions ex_app = [ex_tx1, ex_tx2]" by (simp add: ex_app_def transactions_def)
  show ?thesis using Sync_Engine.add_transaction_appends [OF h1 h2 h3, of "render ex_app" ex_new] c t
    by simp
qed

theorem add_transaction_offline_witness:
  "toasts (addTransaction (render ex_offline) ex_new ''t3'' ex_offline) = [Toast_Offline]
   \<and> ls_transactions (store (addTransaction (render ex_offline) ex_new ''t3'' ex_offline))
       = Some [ex_tx1, ex_tx2, with_id ex_new ''t3'']"
proof -
  have h1: "\<not> fst (take_fault (ls_faults (store ex_offline)))"
    and h2: "\<not> connected ex_offline" and h3: "\<not> isSyncing ex_offline"
    by (simp_all add: ex_offline_def ex_app_def)
  have e: "toasts ex_offline = []" and t: "transactions ex_offline = [ex_tx1, ex_tx2]"
    by (simp_all add: ex_offline_def ex_app_def toasts_def transactions_def)
  show ?thesis using Sync_Engine.add_transaction_offline [OF h1 h2 h3, of ex_new "''t3''"]
    by (simp add: e t)
qed

theorem add_transaction_write_fails_witness:
  "fst (take_fault (ls_faults (store ex_wfail)))
   \<and> transactions (addTransaction (render ex_wfail) ex_new ''t3'' ex_wfail) = [ex_tx1, ex_tx2]
   \<and> toasts (addTransaction (render ex_wfail) ex_new ''t3'' ex_wfail) = [Toast_AddFailed]"
proof -
  have h: "fst (take_fault (ls_faults (store ex_wfail)))" by (simp add: ex_wfail_def ex_app_def)
  have e: "toasts ex_wfail = []" and t: "transactions ex_wfail = [ex_tx1, ex_tx2]"
    by (simp_all add: ex_wfail_def ex_app_def toasts_def transactions_def)
  show ?thesis using h Sync_Engine.add_transaction_write_fails [OF h, of "render ex_wfail" ex_new "''t3''"]
    by (simp add: e t)
qed

theorem listener_syncs_without_transition_witness:
  "connected ex_subscribed
   \<and> netinfo_event True ex_subscribed = syncAllTransactions (render ex_app) ex_subscribed"
proof -
  have h1: "listener ex_subscribed = Some (render ex_app)" and h3: "connected ex_subscribed"
    by (simp_all add: ex_subscribed_def ex_app_def)
  have h2: "\<not> cl_loading (render ex_app)" by (simp add: ex_app_def)
  show ?thesis using h3 Sync_Engine.listener_syncs_without_transition [OF h1 h2 h3] by blast
qed

theorem mount_listener_stale_witness:
  "\<exists>c. listener (provider_mount [ex_tx2] ex_app) = Some c \<and> \<not> cl_isSyncing c \<and> \<not> cl_loading c"
proof -
  have h: "\<not> isSyncing ex_app" by (simp add: ex_app_def)
  show ?thesis using Sync_Engine.mount_listener_stale [OF h, of "[ex_tx2]"] .
qed

theorem load_restores_stored_witness:
  "transactions (loadTransactions [ex_rtx] ex_app) = [ex_tx1, ex_tx2]"
proof -
  have h: "ls_transactions (store ex_app) = Some [ex_tx1, ex_tx2]" by (simp add: ex_app_def)
  show ?thesis using Sync_Engine.load_restores_stored [OF h, of "[ex_rtx]"] by blast
qed

theorem load_seeds_samples_witness:
  "transactions (loadTransactions [ex_tx2] ex_fresh) = [ex_tx2\<lparr>tx_synced := False\<rparr>]
   \<and> ls_transactions (store (loadTransactions [ex_tx2] ex_fresh)) = Some [ex_tx2\<lparr>tx_synced := False\<rparr>]"
proof -
  have h1: "ls_transactions (store ex_fresh) = None"
    and h2: "\<not> fst (take_fault (ls_faults (store ex_fresh)))"
    by (simp_all add: ex_fresh_def ex_app_def)
  show ?thesis using Sync_Engine.load_seeds_samples [OF h1 h2, of "[ex_tx2]"] by simp
qed

section \<open>Scenarios across components\<close>

text \<open>A concrete run of \<open>bulk_sync_merge_unreachable\<close>: the pulled record is lost for good. From the example state (one unsynced and one
  synced transaction, a remote document \<open>r1\<close> newer than the cursor), a bulk sync uploads
  \<open>t1\<close>, pulls \<open>r1\<close> and advances the cursor to the present, but \<open>r1\<close> is not in the
  state afterwards, and the next pull from the new cursor answers nothing.\<close>

theorem bulk_sync_loses_pull:
  "fst (fetchServerTransactions (getLastSyncTime (store ex_app)) (remote ex_app)) = Inr [ex_rtx]
   \<and> ''r1'' \<notin> set (map tx_id (transactions (syncAllTransactions (render ex_app) ex_app)))
   \<and> getLastSyncTime (store (syncAllTransactions (render ex_app) ex_app)) = 10000
   \<and> fst (fetchServerTransactions (getLastSyncTime (store (syncAllTransactions (render ex_app) ex_app)))
           (remote (syncAllTransactions (render ex_app) ex_app))) = Inr []"
  by (simp add: ex_defs syncAllTransactions_def Let_def getUnsyncedTransactions_def attemptSync_ok_eq
      fetchAndMergeServerTransactions_def mergeTransactions_def sync_simps getLastSyncTime_def
      doc_of_def tx_of_doc_def transactions_def setTransactions_def markTransactionAsSynced_def
      upload_call_def mark_synced_list_def set_synced_def updateLastSyncTime_def setItem_lastSyncTime_def)


text \<open>A concrete run of \<open>connected_events_overlap\<close>: the single-flight guard does not stop
  overlapping bulk syncs. The NetInfo
  subscription keeps the closure of the mounting render, whose \<open>isSyncing\<close> is false.
  So two "connected" events start two bulk syncs. Both read the same unsynced
  transaction \<open>t1\<close> and both upload it. When the first finishes, it clears
  \<open>isSyncing\<close> while the second is still in flight. The run is reachable in the
  interleaving model.\<close>

theorem overlapping_bulk_syncs:
  "world_step\<^sup>*\<^sup>* ex_world0 ex_world7
   \<and> length (w_tasks ex_world2) = 2
   \<and> filter (\<lambda>e. e = Ev_Upload ''t1'') (trace (w_app ex_world6)) = [Ev_Upload ''t1'', Ev_Upload ''t1'']
   \<and> length (w_tasks ex_world7) = 1 \<and> \<not> isSyncing (w_app ex_world7)"
proof -
  have "filter (\<lambda>e. e = Ev_Upload ''t1'') (trace (w_app ex_world6)) = [Ev_Upload ''t1'', Ev_Upload ''t1'']
        \<and> length (w_tasks ex_world7) = 1 \<and> \<not> isSyncing (w_app ex_world7)"
    by (simp add: ex_world7_def ex_world6_def ex_world2_eq resume_task_def task_step_def Let_def ex_sync_simps)
  then show ?thesis using ex_world7_reachable by (simp add: ex_world2_eq)
qed

section \<open>Witnesses for the screens\<close>

lemma parseFloat_ex_form: "parseFloat (fv_amount ex_form) = Num 7"
  by (simp add: ex_form_def parseFloat_def sign_prefix_def parse_unsigned_def is_js_space_def is_digit_def
      nat_of_digits_def digit_val_def exponent_part_def pow10_def)

theorem toFixed2_parseFloat_witness:
  "toFixed2 (12345 / 1000) = Some ''12.35'' \<and> parseFloat ''12.35'' = Num (1235 / 100)"
proof -
  have h: "\<bar>12345 / 1000 :: real\<bar> < 10 ^ 21" by simp
  have p: "toFixed2 (12345 / 1000) = Some ''12.35''" by code_simp
  have r: "round_cents (12345 / 1000) = 1235 / 100"
    by (simp add: round_cents_def cents_of_def)
  show ?thesis using Number_Format.toFixed2_parseFloat [OF h, of 0] p r by auto
qed

theorem home_render_sorts_state_witness:
  "wf_app ex_app \<and> transactions (fst (HomeScreen ex_app)) = [ex_tx2, ex_tx1]
   \<and> balance (transactions (fst (HomeScreen ex_app))) = balance [ex_tx1, ex_tx2]"
proof -
  have w: "wf_app ex_app" by (simp add: wf_app_def ex_defs transactions_def ids_unique_def wf_remote_def)
  have t: "transactions ex_app = [ex_tx1, ex_tx2]" by (simp add: ex_app_def transactions_def)
  have c: "cur ex_app < length (heap ex_app)" by (simp add: ex_app_def)
  have "transactions (fst (HomeScreen ex_app)) = [ex_tx2, ex_tx1]"
    by (simp only: transactions_HomeScreen [OF c] t) (simp add: sort_by_date_desc_def ex_tx1_def ex_tx2_def)
  then show ?thesis using w Home_Screen.home_render_sorts_state [OF w] t by simp
qed

theorem recent_is_latest_witness:
  "recentTransactions [ex_tx1, ex_tx2] = [ex_tx2, ex_tx1]
   \<and> length (recentTransactions [ex_tx1, ex_tx2]) = min 5 2"
  using Home_Screen.recent_is_latest [of "[ex_tx1, ex_tx2]"]
  by (simp add: recentTransactions_def sort_by_date_desc_def ex_tx1_def ex_tx2_def)

theorem pie_hues_distinct_witness:
  "css_hue (0 * 37) \<noteq> css_hue (1 * 37)
   \<and> cd_color (pieChartData [(''Food'', 12), (''Rent'', 500)] ! 0) = slice_color 0"
proof -
  have h: "0 < length [(''Food'', 12 :: real), (''Rent'', 500)]" "1 < length [(''Food'', 12 :: real), (''Rent'', 500)]"
    "(0::nat) < 360" "(1::nat) < 360" "(0::nat) \<noteq> 1" by simp_all
  show ?thesis using Charts_Screen.pie_hues_distinct [OF h] by simp
qed

theorem handleSubmit_outcomes_witness:
  "form_errors ex_form = []
   \<and> handleSubmit ex_form 8000 = Add \<lparr>nt_amount = 7, nt_category = ''Transport'', nt_type = Expense,
                                     nt_date = 8000, nt_notes = ''bus''\<rparr>
   \<and> handleSubmit defaultValues 8000 = Invalid [Field_Amount, Field_Category]"
proof -
  have e: "form_errors ex_form = []" by (simp add: form_errors_def ex_form_def)
  have d: "form_errors defaultValues = [Field_Amount, Field_Category]"
    by (simp add: form_errors_def defaultValues_def)
  show ?thesis
    using Add_Form.handleSubmit_outcomes [of ex_form 8000 "[]" 7]
          Add_Form.handleSubmit_outcomes [of defaultValues 8000 "[Field_Amount, Field_Category]" 0]
          e d parseFloat_ex_form
    by (simp add: ex_form_def)
qed

theorem non_numeric_amount_submitted_witness:
  "form_errors ex_form_abc = [] \<and> handleSubmit ex_form_abc 8000 = Add_NonFinite NaN"
proof -
  have h1: "fv_category ex_form_abc \<noteq> []" by (simp add: ex_form_abc_def ex_form_def)
  have h2: "dropWhile is_js_space (fv_amount ex_form_abc) = CHR ''a'' # ''bc''"
    by (simp add: ex_form_abc_def is_js_space_def)
  have h3: "\<not> is_digit CHR ''a''" by (simp add: is_digit_def)
  have h4: "CHR ''a'' \<notin> {CHR ''+'', CHR ''-'', CHR ''.'', CHR ''I''}" by simp
  show ?thesis using Add_Form.non_numeric_amount_submitted [OF h1 h2 h3 h4] .
qed

theorem submit_add_appends_witness:
  "\<exists>s'. submit_add (render ex_app) ''t3'' ex_form ex_app = Some (s', defaultValues)
        \<and> tx_amount (last (transactions s')) = 7 \<and> butlast (transactions s') = [ex_tx1, ex_tx2]"
proof -
  have h1: "form_errors ex_form = []" by (simp add: form_errors_def ex_form_def)
  have h3: "\<not> fst (take_fault (ls_faults (store ex_app)))" by (simp add: ex_app_def)
  have h4: "''t3'' \<notin> set (map tx_id (transactions ex_app))" by (simp add: ex_defs transactions_def)
  have t: "transactions ex_app = [ex_tx1, ex_tx2]" by (simp add: ex_app_def transactions_def)
  show ?thesis
    using Add_Form.submit_add_appends [OF h1 parseFloat_ex_form h3 h4, of "render ex_app"] t by auto
qed

theorem history_filter_witness:
  "sublist (toLowerCase ''fo'') (toLowerCase ''Food'')
   \<and> subseq (filteredTransactions ''Food'' Filter_All [ex_tx1, ex_tx2])
            (filteredTransactions ''fo'' Filter_All [ex_tx1, ex_tx2])"
proof -
  have h: "sublist (toLowerCase ''fo'') (toLowerCase ''Food'')" by code_simp
  show ?thesis using h History_Screen.history_filter [where q = "''fo''" and q' = "''Food''" and sel = Filter_All and txs = "[ex_tx1, ex_tx2]"] by simp
qed


theorem charts_render_draws_witness:
  "\<exists>ds. fst (ChartsScreen Chart_Line [ex_tx1] (sconst (1 / 2)))
          = LineChart \<lparr>lc_labels = [''Jan'', ''Feb'', ''Mar'', ''Apr'', ''May'', ''Jun''], lc_data = ds\<rparr>
        \<and> length ds = 6"
proof -
  have h: "sset (sconst (1 / 2 :: real)) \<subseteq> {0..<1}" by simp
  show ?thesis using Charts_Screen.charts_render_draws [of _ "[ex_tx1]" "sconst (1 / 2)"] h by blast
qed

theorem add_screen_categories_witness:
  "add_reach ex_screen \<and> category_ok (as_form ex_screen) \<and> fv_category (as_form ex_screen) = ''Food''"
proof -
  have r: "add_reach ex_screen"
    unfolding ex_screen_def by (intro add_reach.event add_reach.init)
  have "fv_category (as_form ex_screen) = ''Food''"
    by (simp add: ex_screen_def add_screen_init_def transactionCategories_def categories_def)
  then show ?thesis using r Add_Form.add_screen_categories [OF r, of 0] by simp
qed

section \<open>Witnesses for the sample data\<close>

lemma ex_env_income: "income_exceeds (sample_batch 0 ex_env)"
  using income_exceeds_low_draws [of ex_env 100 0] by (simp add: ex_env_def sample_batch_0)

theorem sample_batch_shape_witness:
  "ids_unique (sample_batch 0 ex_env) \<and> sample_shape (hd (sample_batch 0 ex_env))"
proof -
  have h: "sset (rnd ex_env) \<subseteq> {0..<1}" by (simp add: ex_env_def)
  have "sample_batch 0 ex_env \<noteq> []"
    by (metis array_from_length sample_batch_def zero_neq_numeral list.size(3))
  then have "hd (sample_batch 0 ex_env) \<in> set (sample_batch 0 ex_env)" by simp
  then show ?thesis using Sample_Data.sample_batch_shape [OF h, of 0] by simp
qed

theorem sample_loop_terminates_witness:
  "sampleTransactions ex_env = Some (sample_batch 0 ex_env)"
proof -
  have "\<exists>k. sample_batch 0 ex_env = sample_batch k ex_env \<and> income_exceeds (sample_batch 0 ex_env)
          \<and> (\<forall>j<k. \<not> income_exceeds (sample_batch j ex_env))"
    using ex_env_income by (intro exI [of _ 0]) simp
  then show ?thesis using Sample_Data.sample_loop_terminates [of ex_env "sample_batch 0 ex_env"] by blast
qed

theorem samples_seed_state_witness:
  "0 < balance (transactions (loadTransactions (sample_batch 0 ex_env) ex_fresh))
   \<and> ids_unique (transactions (loadTransactions (sample_batch 0 ex_env) ex_fresh))"
proof -
  have h1: "sset (rnd ex_env) \<subseteq> {0..<1}" by (simp add: ex_env_def)
  have h2: "sampleTransactions ex_env = Some (sample_batch 0 ex_env)"
    using ex_env_income by (simp add: sampleTransactions_def sample_loop_first)
  have h3: "ls_transactions (store ex_fresh) = None" by (simp add: ex_fresh_def ex_app_def)
  show ?thesis using Sample_Data.samples_seed_state [OF h1 h2 h3] by simp
qed


section \<open>Witnesses for the SQLite helper and the layout\<close>

theorem sqlite_roundtrip_witness:
  "\<exists>rows. db_add_all [ex_tx1, ex_tx2] (snd (initDatabase None)) = (Inr (), Some rows) \<and> length rows = 2"
proof -
  have h: "ids_unique [ex_tx1, ex_tx2]" by (simp add: ids_unique_def ex_tx1_def ex_tx2_def)
  from Sqlite_Helper.sqlite_roundtrip [OF h, of True] obtain rows
    where r: "db_add_all [ex_tx1, ex_tx2] (snd (initDatabase None)) = (Inr (), Some rows)"
      and m: "map (\<lambda>r. (col_id r, col_amount r, col_category r, col_type r, col_date r, col_notes r)) rows
              = map (\<lambda>tx. (tx_id tx, tx_amount tx, tx_category tx, kind_name (tx_type tx), tx_date tx, tx_notes tx))
                  [ex_tx1, ex_tx2]"
    by blast
  have "length rows = 2" using map_eq_imp_length_eq [OF m] by simp
  with r show ?thesis by blast
qed

theorem sqlite_errors_witness:
  "db_addTransaction ex_tx1 (Some [insert_params ex_tx1])
     = (Inl Unique_Constraint_Failed, Some [insert_params ex_tx1])"
  using Sqlite_Helper.sqlite_errors [of ex_tx1 "[insert_params ex_tx1]" None] by simp

theorem layout_provides_context_witness:
  "useTransactions (snd (hd (screen_contexts (context_value ex_app) None AppLayout)))
     = Inr (transactions ex_app, render ex_app)
   \<and> tabBarIcon ''history'' True \<noteq> ''help-outline''"
proof -
  have "hd (screen_contexts (context_value ex_app) None AppLayout)
          \<in> set (screen_contexts (context_value ex_app) None AppLayout)"
    by (simp add: AppLayout_def tab_screens_def)
  moreover have "(''history'', ''Transaction History'') \<in> set tab_screens" by (simp add: tab_screens_def)
  ultimately show ?thesis using App_Layout.layout_provides_context [of ex_app] by fastforce
qed


section \<open>Witnesses for the interleaving model\<close>

theorem interleaved_sync_invariant_witness:
  "world_ok ex_world7"
proof -
  have h1: "wf_app ex_subscribed" using wf_ex_app by (simp add: ex_subscribed_def wf_app_def valid_closure_def render_def ex_app_def transactions_def)
  have h2: "\<not> isSyncing ex_subscribed" by (simp add: ex_subscribed_def ex_app_def)
  show ?thesis using Sync_Interleaving.interleaved_sync_invariant [OF _ h1 h2] ex_world7_reachable
    by (simp add: ex_world0_def)
qed

theorem tasks_drain_witness:
  "\<exists>w'. resume_step\<^sup>*\<^sup>* ex_world2 w' \<and> w_tasks w' = [] \<and> \<not> isSyncing (w_app w')"
proof -
  have h: "world_ok ex_world2"
    using wf_ex_app by (simp add: ex_world2_eq world_ok_def ex_subscribed_def wf_app_def valid_closure_def render_def
        ex_app_def transactions_def)
  show ?thesis using Sync_Interleaving.tasks_drain [OF h] by blast
qed

section \<open>Witnesses for the notification channel\<close>

theorem notify_delivers_witness:
  "notify (inert ex_log) ex_payload (ex_channel, []) =
     (Inr (), (on ''notify'' 1 notificationService, [1, 2]), [1, 2])"
proof -
  have "ex_channel(''notify'' := filter (\<lambda>l. \<not> l_once l) (ex_channel ''notify'')) = on ''notify'' 1 notificationService"
    by (simp add: ex_channel_def on_def once_def notificationService_def new_emitter_def fun_eq_iff)
  then show ?thesis using Notifications.notify_delivers [where h = ex_log and p = ex_payload and E = ex_channel and s = "[]"]
    by (simp add: ex_log_def ex_channel_def on_def once_def notificationService_def new_emitter_def)
qed

theorem notify_calls_snapshot_witness:
  "(case notify ex_subscriber ex_payload (ex_channel, []) of (r, st', calls) \<Rightarrow> r = Inr () \<and> calls = [1, 2])
   \<and> length (fst (fst (snd (notify ex_subscriber ex_payload (ex_channel, [])))) ''notify'') = 3"
proof -
  have "ex_channel ''notify'' = [\<lparr>l_fn = 1, l_once = False\<rparr>, \<lparr>l_fn = 2, l_once = True\<rparr>]"
    by (simp add: ex_channel_def on_def once_def notificationService_def new_emitter_def)
  then show ?thesis using Notifications.notify_calls_snapshot [where run = ex_subscriber and p = ex_payload and st = "(ex_channel, [])"]
    by (simp add: notify_def emit_def ex_subscriber_def on_def removeListener_def)
qed

theorem notify_throw_stops_witness:
  "notify ex_thrower ex_payload (ex_channel, []) = (Inl ''listener failed'', (ex_channel, []), [1])"
proof -
  have "ex_channel ''notify'' = [\<lparr>l_fn = 1, l_once = False\<rparr>, \<lparr>l_fn = 2, l_once = True\<rparr>]"
    by (simp add: ex_channel_def on_def once_def notificationService_def new_emitter_def)
  then show ?thesis using Notifications.notify_throw_stops [where E = ex_channel and run = ex_thrower and p = ex_payload and s = "[]"]
    by (simp add: ex_thrower_def)
qed

section \<open>Witnesses for the history screen and navigation\<close>

theorem history_screen_view_witness:
  "distinct (map fst (hv_list (TransactionHistoryScreen (history_event (Chip_Press Filter_Expense) history_init) ex_app)))
   \<and> length (filter snd (hv_chips (TransactionHistoryScreen (history_event (Chip_Press Filter_Expense) history_init) ex_app))) = 1"
  using History_Screen.history_screen_view [OF wf_ex_app, where h = "history_event (Chip_Press Filter_Expense) history_init"]
  by simp

theorem navigation_effects_witness:
  "as_form (ui_add (navigate ''/add'' (ui_init ex_app))) = defaultValues
   \<and> ui_add (navigate ''/history'' (ui_init ex_app)) = add_screen_init"
  using Navigation.navigation_effects [where u = "ui_init ex_app" and p = "''/history''"]
  by (simp add: ui_init_def)

lemma handleSubmit_ex_form:
  "handleSubmit ex_form t = Add \<lparr>nt_amount = 7, nt_category = ''Transport'', nt_type = Expense,
                                 nt_date = t, nt_notes = ''bus''\<rparr>"
proof -
  have e: "form_errors ex_form = []" by (simp add: form_errors_def ex_form_def)
  have "handleSubmit ex_form t = Add \<lparr>nt_amount = 7, nt_category = fv_category ex_form, nt_type = fv_type ex_form,
                                      nt_date = t, nt_notes = fv_notes ex_form\<rparr>"
    unfolding handleSubmit_def onSubmit_def e by (simp add: parseFloat_ex_form) (simp add: ex_form_def)
  then show ?thesis by (simp add: ex_form_def)
qed

theorem add_press_flow_witness:
  "\<exists>u'. press_add ''t3'' ex_ui_add = Some u' \<and> ui_path u' = ''/'' \<and> as_form (ui_add u') = defaultValues"
proof -
  have h: "handleSubmit (as_form (ui_add ex_ui_add)) (now (ui_app ex_ui_add))
           = Add \<lparr>nt_amount = 7, nt_category = ''Transport'', nt_type = Expense,
                  nt_date = now ex_app, nt_notes = ''bus''\<rparr>"
    by (simp add: ex_ui_add_def ui_init_def handleSubmit_ex_form)
  show ?thesis using Navigation.add_press_flow [OF h, where uid = "''t3''"] by blast
qed

theorem empty_form_two_presses_witness:
  "\<exists>u1 u2. ui_input ex_ui_add u1 \<and> ui_input u1 u2 \<and> ui_path u2 = ''/add''
     \<and> as_form (ui_add u2) = defaultValues \<and> ui_app u2 = ex_app"
  using Navigation.empty_form_two_presses [where u = ex_ui_add] by (simp add: ex_ui_add_def ui_init_def) blast

section \<open>Witnesses for the general engine properties\<close>

theorem connected_events_overlap_witness:
  "length (w_tasks (netinfo_deliver True (netinfo_deliver True \<lparr>w_app = provider_mount [] ex_app, w_tasks = []\<rparr>))) = 2
   \<and> isSyncing (w_app (netinfo_deliver True \<lparr>w_app = provider_mount [] ex_app, w_tasks = []\<rparr>))"
proof -
  let ?W0 = "\<lparr>w_app = provider_mount [] ex_app, w_tasks = []\<rparr>"
  have h: "\<not> isSyncing ex_app" by (simp add: ex_app_def)
  have r0: "world_step\<^sup>*\<^sup>* ?W0 ?W0" by simp
  have r1: "world_step\<^sup>*\<^sup>* ?W0 (netinfo_deliver True ?W0)" by (rule r_into_rtranclp) (rule world_step.deliver)
  from Sync_Interleaving.connected_events_overlap [OF h r0]
  have a: "length (w_tasks (netinfo_deliver True ?W0)) = 1 \<and> isSyncing (w_app (netinfo_deliver True ?W0))"
    by auto
  from Sync_Interleaving.connected_events_overlap [OF h r1]
  have "length (w_tasks (netinfo_deliver True (netinfo_deliver True ?W0))) = Suc (length (w_tasks (netinfo_deliver True ?W0)))"
    by auto
  with a show ?thesis by simp
qed

theorem reload_forgets_synced_flag_witness:
  "tx_synced (hd (transactions (attemptSyncTransaction ex_tx1 ex_wfail)))
   \<and> transactions (loadTransactions [] (attemptSyncTransaction ex_tx1 ex_wfail)) = [ex_tx1, ex_tx2]"
proof -
  have h0: "(0::nat) < 5" by simp
  have h1: "take 0 (rl_upload_faults (remote ex_wfail)) = replicate 0 True" by simp
  have h2: "\<not> fst (take_fault (drop 0 (rl_upload_faults (remote ex_wfail))))" by (simp add: ex_wfail_def ex_defs)
  have h3: "fst (take_fault (ls_faults (store ex_wfail)))" by (simp add: ex_wfail_def ex_app_def)
  have h4: "ls_transactions (store ex_wfail) = Some [ex_tx1, ex_tx2]" by (simp add: ex_wfail_def ex_app_def)
  have t: "transactions ex_wfail = [ex_tx1, ex_tx2]" by (simp add: ex_wfail_def ex_app_def transactions_def)
  show ?thesis using Sync_Engine.reload_forgets_synced_flag [OF h0 h1 h2 h3 h4, of ex_tx1 "[]"] t
    by (simp add: mark_synced_list_def ex_tx1_def)
qed

end
